theory Spec2Isabelle
  imports Complex_Main
begin

section \<open>Data model of the tracker (src/src/Tracker/Ctracker.cpp)\<close>

text \<open>
  The translation unit \<^verbatim>\<open>Ctracker.cpp\<close> is embedded function by function.  Its header,
  the track class, the assignment solvers, the embedding calculator and OpenCV are not part
  of the sources at hand; what the tracker calls in them is collected in the record
  \<open>collaborators\<close> below and stays a parameter of every function of the model.

  Conventions:
  \<^item> \<^verbatim>\<open>track_t\<close> (a C++ \<^verbatim>\<open>float\<close>) is modelled by \<open>real\<close>: comparisons and sums are
    exact, rounding and NaN are not represented;
  \<^item> \<^verbatim>\<open>size_t\<close> counters and identifiers are \<open>nat\<close> (no wrap-around at \<open>2^64\<close>), the
    \<^verbatim>\<open>int\<close> slots of the assignment are \<open>int\<close>, with \<open>-1\<close> for an unassigned track; the one
    product of two \<^verbatim>\<open>int\<close>s (the area of the frame) wraps at 32 bits;
  \<^item> \<^verbatim>\<open>std::vector\<close> is a list, and every \<^verbatim>\<open>operator[]\<close> is checked: an index out
    of range (undefined behaviour in C++) is the error value \<open>OutOfRange\<close>;
  \<^item> a \<^verbatim>\<open>for\<close> loop over an index range is \<open>for_each\<close> over \<open>[0..<n]\<close> in the error
    monad; the retirement loop, whose index does not always advance, is a recursive
    function with a termination proof;
  \<^item> the output to \<^verbatim>\<open>std::cout\<close> and \<^verbatim>\<open>std::cerr\<close> is left out, and so are the two
    assertions, which cannot fail: the match type has two values, and \<^verbatim>\<open>ind\<close> is
    incremented five times before it is compared with \<^verbatim>\<open>DistsCount\<close>.
\<close>

type_synonym track_t = real
type_synonym objtype_t = int
type_synonym assignments_t = "int list"
type_synonym distMatrix_t = "track_t list"
type_synonym Mat = "real list"
type_synonym Point_t = "track_t \<times> track_t"
type_synonym Size_t = "track_t \<times> track_t"

datatype error = OutOfRange

record RotatedRect =
  rr_center :: Point_t
  rr_size :: Size_t
  rr_angle :: track_t

record Rect =
  r_x :: int
  r_y :: int
  r_width :: int
  r_height :: int

record UMat =
  cols :: int
  rows :: int
  channels :: int
  pixels :: "nat list"

record CRegion =
  m_rrect :: RotatedRect
  m_brect :: Rect
  m_type :: objtype_t
  m_confidence :: real

record RegionEmbedding =
  m_hist :: Mat
  m_embedding :: Mat
  m_embDot :: real

datatype MatchType = MatchHungrian | MatchBipart

datatype FilterGoal = FilterCenter | FilterRect

record EmbeddingParams =
  m_embeddingCfgName :: string
  m_embeddingWeightsName :: string
  m_inputLayer :: "int \<times> int"
  m_objectTypes :: "objtype_t list"

record TrackerSettings =
  m_matchType :: MatchType
  m_distThres :: track_t
  m_distType :: "nat \<Rightarrow> track_t"
  m_maximumAllowedSkippedFrames :: nat
  m_minStaticTime :: int
  m_maxStaticTime :: int
  m_maxTraceLength :: nat
  m_useAbandonedDetection :: bool
  m_maxSpeedForStatic :: int
  m_minAreaRadiusPix :: track_t
  m_minAreaRadiusK :: track_t
  m_kalmanType :: nat
  m_dt :: track_t
  m_accelNoiseMag :: track_t
  m_useAcceleration :: bool
  m_filterGoal :: FilterGoal
  m_lostTrackType :: nat
  m_embeddings :: "EmbeddingParams list"
  CheckType :: "objtype_t \<Rightarrow> objtype_t \<Rightarrow> bool"

text \<open>
  A track, as far as the tracker touches it directly: \<^verbatim>\<open>SkippedFrames()\<close> hands out a
  reference to the counter, \<^verbatim>\<open>LastRegion()\<close> reads the last region, and the identifier is
  the one given to the constructor.  Everything else (motion filter, trace, stored
  appearance) is the opaque part \<open>m_impl\<close>.
\<close>

record 'k CTrack =
  m_trackID :: nat
  m_skippedFrames :: nat
  m_lastRegion :: CRegion
  m_impl :: 'k

record SPSettings =
  sp_distThres :: track_t
  sp_maxHistory :: nat

datatype ShortPathCalculator = SPHungrian SPSettings | SPBipart SPSettings

text \<open>
  The code the tracker calls and that is not in the sources: the methods of \<^verbatim>\<open>CTrack\<close>
  (two constructors, two \<^verbatim>\<open>Update\<close> overloads, the predicates and the distances), the two
  solvers, the embedding calculator (\<open>None\<close> when \<^verbatim>\<open>Initialize\<close> returns false) and the
  OpenCV calls.  \<open>CRegion_default\<close> is the default-constructed \<^verbatim>\<open>CRegion()\<close>.
\<close>

record ('k, 'c) collaborators =
  CTrack_new :: "CRegion \<Rightarrow> nat \<Rightarrow> track_t \<Rightarrow> track_t \<Rightarrow> bool \<Rightarrow> nat \<Rightarrow> bool \<Rightarrow> nat
    \<Rightarrow> 'k CTrack"
  CTrack_newEmb :: "CRegion \<Rightarrow> RegionEmbedding \<Rightarrow> nat \<Rightarrow> track_t \<Rightarrow> track_t \<Rightarrow> bool \<Rightarrow> nat
    \<Rightarrow> bool \<Rightarrow> nat \<Rightarrow> 'k CTrack"
  CTrack_Update :: "CRegion \<Rightarrow> bool \<Rightarrow> nat \<Rightarrow> UMat \<Rightarrow> UMat \<Rightarrow> int \<Rightarrow> int
    \<Rightarrow> 'k CTrack \<Rightarrow> 'k CTrack"
  CTrack_UpdateEmb :: "CRegion \<Rightarrow> RegionEmbedding \<Rightarrow> bool \<Rightarrow> nat \<Rightarrow> UMat \<Rightarrow> UMat \<Rightarrow> int \<Rightarrow> int
    \<Rightarrow> 'k CTrack \<Rightarrow> 'k CTrack"
  IsOutOfTheFrame :: "'k CTrack \<Rightarrow> bool"
  IsStaticTimeout :: "'k CTrack \<Rightarrow> int \<Rightarrow> bool"
  CalcPredictionEllipse :: "'k CTrack \<Rightarrow> Size_t \<Rightarrow> RotatedRect"
  IsInsideArea :: "'k CTrack \<Rightarrow> Point_t \<Rightarrow> RotatedRect \<Rightarrow> track_t"
  WidthDist :: "'k CTrack \<Rightarrow> CRegion \<Rightarrow> track_t"
  HeightDist :: "'k CTrack \<Rightarrow> CRegion \<Rightarrow> track_t"
  CalcDistJaccard :: "'k CTrack \<Rightarrow> CRegion \<Rightarrow> track_t"
  CalcDistHist :: "'k CTrack \<Rightarrow> RegionEmbedding \<Rightarrow> track_t"
  CalcCosine :: "'k CTrack \<Rightarrow> RegionEmbedding \<Rightarrow> track_t"
  SPHungrian_Solve :: "SPSettings \<Rightarrow> distMatrix_t \<Rightarrow> nat \<Rightarrow> nat \<Rightarrow> assignments_t \<Rightarrow> track_t
    \<Rightarrow> assignments_t"
  SPBipart_Solve :: "SPSettings \<Rightarrow> distMatrix_t \<Rightarrow> nat \<Rightarrow> nat \<Rightarrow> assignments_t \<Rightarrow> track_t
    \<Rightarrow> assignments_t"
  EmbCalc_Initialize :: "string \<Rightarrow> string \<Rightarrow> int \<times> int \<Rightarrow> 'c option"
  EmbCalc_Calc :: "'c \<Rightarrow> UMat \<Rightarrow> Rect \<Rightarrow> Mat"
  UMat_roi :: "UMat \<Rightarrow> Rect \<Rightarrow> UMat"
  cv_calcHist :: "UMat list \<Rightarrow> int list \<Rightarrow> int list \<Rightarrow> real list \<Rightarrow> Mat"
  cv_normalize :: "Mat \<Rightarrow> Mat"
  cvRound :: "real \<Rightarrow> int"
  CRegion_default :: CRegion

record ('k, 'c) CTracker =
  m_settings :: TrackerSettings
  m_tracks :: "'k CTrack list"
  m_nextTrackID :: nat
  m_SPCalculator :: ShortPathCalculator
  m_embCalculators :: "objtype_t \<rightharpoonup> 'c"
  m_prevFrame :: UMat

text \<open>
  Modelled from the spec: the enumeration \<^verbatim>\<open>tracking::DistType\<close> is declared in the
  missing header; the spec fixes the order Centers, Rects, Jaccard, Hist, FeatureCos, which
  is also the only order under which the \<^verbatim>\<open>ind == tracking::Dist...\<close> tests of
  \<^verbatim>\<open>CreateDistaceMatrix\<close> and its final assertion all succeed.
\<close>

definition DistCenters :: nat where "DistCenters = 0"
definition DistRects :: nat where "DistRects = 1"
definition DistJaccard :: nat where "DistJaccard = 2"
definition DistHist :: nat where "DistHist = 3"
definition DistFeatureCos :: nat where "DistFeatureCos = 4"
definition DistsCount :: nat where "DistsCount = 5"

text \<open>
  Modelled from the spec: a default-constructed image is empty (no columns, no rows, no
  pixels), and a default-constructed \<^verbatim>\<open>RegionEmbedding\<close> has an empty histogram and an
  empty embedding vector.
\<close>

definition UMat_empty :: UMat where
  "UMat_empty = \<lparr>cols = 0, rows = 0, channels = 1, pixels = []\<rparr>"

definition RegionEmbedding_default :: RegionEmbedding where
  "RegionEmbedding_default = \<lparr>m_hist = [], m_embedding = [], m_embDot = 0\<rparr>"

section \<open>Vectors and loops\<close>

definition vec_at :: "'a list \<Rightarrow> nat \<Rightarrow> error + 'a" where
  "vec_at xs i = (if i < length xs then Inr (xs ! i) else Inl OutOfRange)"

definition vec_put :: "'a list \<Rightarrow> nat \<Rightarrow> 'a \<Rightarrow> error + 'a list" where
  "vec_put xs i v = (if i < length xs then Inr (xs[i := v]) else Inl OutOfRange)"

text \<open>\<^verbatim>\<open>v.erase(v.begin() + i)\<close>; erasing past the end is undefined.\<close>

definition vec_erase :: "'a list \<Rightarrow> nat \<Rightarrow> error + 'a list" where
  "vec_erase xs i = (if i < length xs then Inr (take i xs @ drop (Suc i) xs) else Inl OutOfRange)"

text \<open>\<^verbatim>\<open>v.resize(n)\<close>: cut, or fill up with default-constructed elements.\<close>

definition vec_resize :: "'a \<Rightarrow> 'a list \<Rightarrow> nat \<Rightarrow> 'a list" where
  "vec_resize d xs n = take n xs @ replicate (n - length xs) d"

text \<open>
  An \<^verbatim>\<open>int\<close> used as a vector index: the conversion to \<^verbatim>\<open>size_t\<close> sends a negative value
  beyond every vector's size, so it is out of range.
\<close>

definition vec_at_int :: "'a list \<Rightarrow> int \<Rightarrow> error + 'a" where
  "vec_at_int xs a = (if 0 \<le> a then vec_at xs (nat a) else Inl OutOfRange)"

fun for_each :: "nat list \<Rightarrow> (nat \<Rightarrow> 's \<Rightarrow> error + 's) \<Rightarrow> 's \<Rightarrow> error + 's" where
  "for_each [] body s = Inr s"
| "for_each (i # is) body s =
     (case body i s of Inl e \<Rightarrow> Inl e | Inr s' \<Rightarrow> for_each is body s')"

section \<open>CTracker::CTracker\<close>

text \<open>\<^verbatim>\<open>m_embCalculators.try_emplace(objType, embCalc)\<close> keeps an entry that is already there.\<close>

definition try_emplace :: "('a \<rightharpoonup> 'b) \<Rightarrow> 'a \<Rightarrow> 'b \<Rightarrow> ('a \<rightharpoonup> 'b)" where
  "try_emplace m k v = (case m k of None \<Rightarrow> m(k \<mapsto> v) | Some _ \<Rightarrow> m)"

definition register_embedding ::
  "('k, 'c) collaborators \<Rightarrow> EmbeddingParams \<Rightarrow> (objtype_t \<rightharpoonup> 'c) \<Rightarrow> (objtype_t \<rightharpoonup> 'c)" where
  "register_embedding env embParam calcs =
     (case EmbCalc_Initialize env (m_embeddingCfgName embParam) (m_embeddingWeightsName embParam)
             (m_inputLayer embParam) of
        None \<Rightarrow> calcs
      | Some embCalc \<Rightarrow>
          fold (\<lambda>objType m. try_emplace m objType embCalc) (m_objectTypes embParam) calcs)"

definition CTracker_new :: "('k, 'c) collaborators \<Rightarrow> TrackerSettings \<Rightarrow> ('k, 'c) CTracker" where
  "CTracker_new env settings =
     (let spSettings = \<lparr>sp_distThres = m_distThres settings, sp_maxHistory = 12\<rparr> in
      \<lparr>m_settings = settings,
       m_tracks = [],
       m_nextTrackID = 0,
       m_SPCalculator =
         (case m_matchType settings of
            MatchHungrian \<Rightarrow> SPHungrian spSettings
          | MatchBipart \<Rightarrow> SPBipart spSettings),
       m_embCalculators = fold (register_embedding env) (m_embeddings settings) Map.empty,
       m_prevFrame = UMat_empty\<rparr>)"

section \<open>CTracker::CalcEmbeddins\<close>

text \<open>The loop over the channels of the frame that prepares the arguments of \<^verbatim>\<open>cv::calcHist\<close>.\<close>

definition hist_args :: "UMat \<Rightarrow> int list \<times> real list \<times> int list" where
  "hist_args currFrame =
     (let bins = 64 in
      fold (\<lambda>i (histSize, ranges, chans). (histSize @ [bins], ranges @ [0, 255], chans @ [int i]))
        [0..<nat (channels currFrame)] ([], [], []))"

definition hist_step ::
  "('k, 'c) collaborators \<Rightarrow> CRegion list \<Rightarrow> UMat \<Rightarrow> nat \<Rightarrow> RegionEmbedding list
     \<Rightarrow> error + RegionEmbedding list" where
  "hist_step env regions currFrame j embs =
     (case hist_args currFrame of (histSize, ranges, chans) \<Rightarrow>
      (case vec_at regions j of Inl e \<Rightarrow> Inl e | Inr reg \<Rightarrow>
       (case vec_at embs j of Inl e \<Rightarrow> Inl e | Inr emb \<Rightarrow>
          (let regROI = [UMat_roi env currFrame (m_brect reg)];
               h = cv_calcHist env regROI chans histSize ranges
           in Inr (embs[j := emb\<lparr>m_hist := cv_normalize env h\<rparr>])))))"

definition Mat_dot :: "Mat \<Rightarrow> Mat \<Rightarrow> real" where
  "Mat_dot u v = sum_list (map2 (*) u v)"

definition embed_step ::
  "('k, 'c) collaborators \<Rightarrow> ('k, 'c) CTracker \<Rightarrow> CRegion list \<Rightarrow> UMat \<Rightarrow> nat
     \<Rightarrow> RegionEmbedding list \<Rightarrow> error + RegionEmbedding list" where
  "embed_step env tr regions currFrame j embs =
     (case vec_at embs j of Inl e \<Rightarrow> Inl e | Inr emb \<Rightarrow>
        if m_embedding emb = [] then
          (case vec_at regions j of Inl e \<Rightarrow> Inl e | Inr reg \<Rightarrow>
            (case m_embCalculators tr (m_type reg) of
               Some embCalc \<Rightarrow>
                 (let v = EmbCalc_Calc env embCalc currFrame (m_brect reg) in
                  Inr (embs[j := emb\<lparr>m_embedding := v, m_embDot := Mat_dot v v\<rparr>]))
             | None \<Rightarrow> Inr embs))
        else Inr embs)"

definition CalcEmbeddins ::
  "('k, 'c) collaborators \<Rightarrow> ('k, 'c) CTracker \<Rightarrow> RegionEmbedding list \<Rightarrow> CRegion list \<Rightarrow> UMat
     \<Rightarrow> error + RegionEmbedding list" where
  "CalcEmbeddins env tr regionEmbeddings regions currFrame =
     (if regions \<noteq> [] then
        (let embs0 = vec_resize RegionEmbedding_default regionEmbeddings (length regions) in
         case (if m_distType (m_settings tr) DistHist > 0
               then for_each [0..<length regions] (hist_step env regions currFrame) embs0
               else Inr embs0) of
           Inl e \<Rightarrow> Inl e
         | Inr embs1 \<Rightarrow>
             if m_distType (m_settings tr) DistFeatureCos > 0
             then for_each [0..<length regions] (embed_step env tr regions currFrame) embs1
             else Inr embs1)
      else Inr regionEmbeddings)"

section \<open>CTracker::CreateDistaceMatrix\<close>

text \<open>The minimal radius of the predicted area of a track (width, height).\<close>

definition min_radius :: "TrackerSettings \<Rightarrow> 'k CTrack \<Rightarrow> Size_t" where
  "min_radius settings track =
     (if m_minAreaRadiusPix settings < 0
      then (m_minAreaRadiusK settings * fst (rr_size (m_rrect (m_lastRegion track))),
            m_minAreaRadiusK settings * snd (rr_size (m_rrect (m_lastRegion track))))
      else (m_minAreaRadiusPix settings, m_minAreaRadiusPix settings))"

text \<open>
  The five guarded additions to \<^verbatim>\<open>dist\<close> (here \<open>dst\<close>), in the order of the source; \<open>ind\<close> is the running
  index into \<^verbatim>\<open>m_distType\<close>.
\<close>

definition add_centers ::
  "('k, 'c) collaborators \<Rightarrow> TrackerSettings \<Rightarrow> nat \<Rightarrow> 'k CTrack \<Rightarrow> RotatedRect \<Rightarrow> CRegion
     \<Rightarrow> track_t \<Rightarrow> track_t" where
  "add_centers env settings ind track predictedArea reg dst =
     (if m_distType settings ind > 0 \<and> ind = DistCenters then
        (let ellipseDist = IsInsideArea env track (rr_center (m_rrect reg)) predictedArea in
         if ellipseDist > 1 then dst + m_distType settings ind
         else dst + ellipseDist * m_distType settings ind)
      else dst)"

definition add_rects ::
  "('k, 'c) collaborators \<Rightarrow> TrackerSettings \<Rightarrow> nat \<Rightarrow> 'k CTrack \<Rightarrow> RotatedRect \<Rightarrow> CRegion
     \<Rightarrow> track_t \<Rightarrow> track_t" where
  "add_rects env settings ind track predictedArea reg dst =
     (if m_distType settings ind > 0 \<and> ind = DistRects then
        (let ellipseDist = IsInsideArea env track (rr_center (m_rrect reg)) predictedArea in
         if ellipseDist < 1 then
           (let dw = WidthDist env track reg;
                dh = HeightDist env track reg
            in dst + m_distType settings ind * (1 - (1 - ellipseDist) * (dw + dh) * 0.5))
         else dst + m_distType settings ind)
      else dst)"

definition add_jaccard ::
  "('k, 'c) collaborators \<Rightarrow> TrackerSettings \<Rightarrow> nat \<Rightarrow> 'k CTrack \<Rightarrow> CRegion
     \<Rightarrow> track_t \<Rightarrow> track_t" where
  "add_jaccard env settings ind track reg dst =
     (if m_distType settings ind > 0 \<and> ind = DistJaccard
      then dst + m_distType settings ind * CalcDistJaccard env track reg
      else dst)"

definition add_hist ::
  "('k, 'c) collaborators \<Rightarrow> TrackerSettings \<Rightarrow> nat \<Rightarrow> 'k CTrack \<Rightarrow> RegionEmbedding list \<Rightarrow> nat
     \<Rightarrow> track_t \<Rightarrow> error + track_t" where
  "add_hist env settings ind track regionEmbeddings j dst =
     (if m_distType settings ind > 0 \<and> ind = DistHist then
        (case vec_at regionEmbeddings j of
           Inl e \<Rightarrow> Inl e
         | Inr emb \<Rightarrow> Inr (dst + m_distType settings ind * CalcDistHist env track emb))
      else Inr dst)"

definition add_cosine ::
  "('k, 'c) collaborators \<Rightarrow> TrackerSettings \<Rightarrow> nat \<Rightarrow> 'k CTrack \<Rightarrow> RegionEmbedding list \<Rightarrow> nat
     \<Rightarrow> CRegion \<Rightarrow> track_t \<Rightarrow> error + track_t" where
  "add_cosine env settings ind track regionEmbeddings j reg dst =
     (if m_distType settings ind > 0 \<and> ind = DistFeatureCos then
        (if m_type reg = m_type (m_lastRegion track) then
           (case vec_at regionEmbeddings j of
              Inl e \<Rightarrow> Inl e
            | Inr emb \<Rightarrow> Inr (dst + m_distType settings ind * CalcCosine env track emb))
         else Inr dst)
      else Inr dst)"

text \<open>The body of the inner loop up to the store: the distance of one track to region \<open>j\<close>.\<close>

definition region_dist ::
  "('k, 'c) collaborators \<Rightarrow> TrackerSettings \<Rightarrow> RegionEmbedding list \<Rightarrow> track_t \<Rightarrow> 'k CTrack
     \<Rightarrow> RotatedRect \<Rightarrow> nat \<Rightarrow> CRegion \<Rightarrow> error + track_t" where
  "region_dist env settings regionEmbeddings maxPossibleCost track predictedArea j reg =
     (if CheckType settings (m_type (m_lastRegion track)) (m_type reg) then
        (let dst = 0;
             ind = 0;
             dst = add_centers env settings ind track predictedArea reg dst;
             ind = Suc ind;
             dst = add_rects env settings ind track predictedArea reg dst;
             ind = Suc ind;
             dst = add_jaccard env settings ind track reg dst;
             ind = Suc ind
         in case add_hist env settings ind track regionEmbeddings j dst of
              Inl e \<Rightarrow> Inl e
            | Inr dst \<Rightarrow> add_cosine env settings (Suc ind) track regionEmbeddings j reg dst)
      else Inr maxPossibleCost)"

definition matrix_inner_step ::
  "('k, 'c) collaborators \<Rightarrow> TrackerSettings \<Rightarrow> CRegion list \<Rightarrow> RegionEmbedding list \<Rightarrow> track_t
     \<Rightarrow> nat \<Rightarrow> nat \<Rightarrow> 'k CTrack \<Rightarrow> RotatedRect \<Rightarrow> nat \<Rightarrow> distMatrix_t \<times> track_t
     \<Rightarrow> error + distMatrix_t \<times> track_t" where
  "matrix_inner_step env settings regions regionEmbeddings maxPossibleCost N i track predictedArea j st =
     (case st of (costMatrix, maxCost) \<Rightarrow>
      (case vec_at regions j of Inl e \<Rightarrow> Inl e | Inr reg \<Rightarrow>
       (case region_dist env settings regionEmbeddings maxPossibleCost track predictedArea j reg of
          Inl e \<Rightarrow> Inl e
        | Inr dst \<Rightarrow>
            (case vec_put costMatrix (i + j * N) dst of
               Inl e \<Rightarrow> Inl e
             | Inr costMatrix' \<Rightarrow> Inr (costMatrix', if dst > maxCost then dst else maxCost)))))"

definition matrix_outer_step ::
  "('k, 'c) collaborators \<Rightarrow> ('k, 'c) CTracker \<Rightarrow> CRegion list \<Rightarrow> RegionEmbedding list \<Rightarrow> track_t
     \<Rightarrow> nat \<Rightarrow> nat \<Rightarrow> distMatrix_t \<times> track_t \<Rightarrow> error + distMatrix_t \<times> track_t" where
  "matrix_outer_step env tr regions regionEmbeddings maxPossibleCost N i st =
     (case vec_at (m_tracks tr) i of Inl e \<Rightarrow> Inl e | Inr track \<Rightarrow>
        (let minRadius = min_radius (m_settings tr) track;
             predictedArea = CalcPredictionEllipse env track minRadius
         in for_each [0..<length regions]
              (matrix_inner_step env (m_settings tr) regions regionEmbeddings maxPossibleCost N i
                 track predictedArea) st))"

text \<open>Returns the filled matrix and \<^verbatim>\<open>maxCost\<close> (both are reference parameters in C++).\<close>

definition CreateDistaceMatrix ::
  "('k, 'c) collaborators \<Rightarrow> ('k, 'c) CTracker \<Rightarrow> CRegion list \<Rightarrow> RegionEmbedding list
     \<Rightarrow> distMatrix_t \<Rightarrow> track_t \<Rightarrow> error + distMatrix_t \<times> track_t" where
  "CreateDistaceMatrix env tr regions regionEmbeddings costMatrix maxPossibleCost =
     (let N = length (m_tracks tr) in
      for_each [0..<N] (matrix_outer_step env tr regions regionEmbeddings maxPossibleCost N)
        (costMatrix, 0))"

section \<open>CTracker::UpdateTrackingState and CTracker::Update\<close>

text \<open>\<^verbatim>\<open>m_SPCalculator->Solve(costMatrix, N, M, assignment, maxCost)\<close>: virtual dispatch.\<close>

definition SP_Solve ::
  "('k, 'c) collaborators \<Rightarrow> ShortPathCalculator \<Rightarrow> distMatrix_t \<Rightarrow> nat \<Rightarrow> nat \<Rightarrow> assignments_t
     \<Rightarrow> track_t \<Rightarrow> assignments_t" where
  "SP_Solve env calc costMatrix N M assignment maxCost =
     (case calc of
        SPHungrian sp \<Rightarrow> SPHungrian_Solve env sp costMatrix N M assignment maxCost
      | SPBipart sp \<Rightarrow> SPBipart_Solve env sp costMatrix N M assignment maxCost)"

text \<open>\<^verbatim>\<open>m_tracks[i]->SkippedFrames()++\<close>\<close>

definition skip_frame :: "'k CTrack \<Rightarrow> 'k CTrack" where
  "skip_frame t = t\<lparr>m_skippedFrames := m_skippedFrames t + 1\<rparr>"

text \<open>
  \<^verbatim>\<open>costMatrix[i + assignment[i] * N]\<close>: the entry is an \<^verbatim>\<open>int\<close>; a negative one (other than
  the \<open>-1\<close> tested before) is converted to a huge \<^verbatim>\<open>size_t\<close> and is treated as out of range.
\<close>

definition cost_at :: "distMatrix_t \<Rightarrow> nat \<Rightarrow> int \<Rightarrow> nat \<Rightarrow> error + track_t" where
  "cost_at costMatrix i a N =
     (if 0 \<le> a then vec_at costMatrix (i + nat a * N) else Inl OutOfRange)"

text \<open>Lines 95-110: clean the assignment from pairs with large distance.\<close>

definition gate_step ::
  "TrackerSettings \<Rightarrow> nat \<Rightarrow> distMatrix_t \<Rightarrow> nat \<Rightarrow> assignments_t \<times> 'k CTrack list
     \<Rightarrow> error + assignments_t \<times> 'k CTrack list" where
  "gate_step settings N costMatrix i st =
     (case st of (assignment, tracks) \<Rightarrow>
      (case vec_at assignment i of Inl e \<Rightarrow> Inl e | Inr a \<Rightarrow>
         if a \<noteq> -1 then
           (case cost_at costMatrix i a N of Inl e \<Rightarrow> Inl e | Inr c \<Rightarrow>
              if c > m_distThres settings then
                (case vec_at tracks i of Inl e \<Rightarrow> Inl e | Inr t \<Rightarrow>
                   Inr (assignment[i := -1], tracks[i := skip_frame t]))
              else Inr (assignment, tracks))
         else
           (case vec_at tracks i of Inl e \<Rightarrow> Inl e | Inr t \<Rightarrow>
              Inr (assignment, tracks[i := skip_frame t]))))"

definition gating ::
  "TrackerSettings \<Rightarrow> nat \<Rightarrow> distMatrix_t \<Rightarrow> assignments_t \<Rightarrow> 'k CTrack list
     \<Rightarrow> error + assignments_t \<times> 'k CTrack list" where
  "gating settings N costMatrix assignment tracks =
     for_each [0..<length assignment] (gate_step settings N costMatrix) (assignment, tracks)"

text \<open>Lines 113-126: the test that retires a track.\<close>

definition retire_cond ::
  "('k, 'c) collaborators \<Rightarrow> TrackerSettings \<Rightarrow> track_t \<Rightarrow> 'k CTrack \<Rightarrow> bool" where
  "retire_cond env settings fps t =
     (m_skippedFrames t > m_maximumAllowedSkippedFrames settings \<or>
      IsOutOfTheFrame env t \<or>
      IsStaticTimeout env t
        (cvRound env (fps * real_of_int (m_maxStaticTime settings - m_minStaticTime settings))))"

function retire_loop ::
  "('k, 'c) collaborators \<Rightarrow> TrackerSettings \<Rightarrow> track_t \<Rightarrow> nat \<Rightarrow> 'k CTrack list \<Rightarrow> assignments_t
     \<Rightarrow> error + 'k CTrack list \<times> assignments_t" where
  "retire_loop env settings fps i tracks assignment =
     (if i < length tracks then
        (if retire_cond env settings fps (tracks ! i) then
           (case vec_erase tracks i of Inl e \<Rightarrow> Inl e | Inr tracks' \<Rightarrow>
              (case vec_erase assignment i of Inl e \<Rightarrow> Inl e | Inr assignment' \<Rightarrow>
                 retire_loop env settings fps i tracks' assignment'))
         else retire_loop env settings fps (Suc i) tracks assignment)
      else Inr (tracks, assignment))"
  by pat_completeness auto
termination
  by (relation "measure (\<lambda>(env, settings, fps, i, tracks, assignment). length tracks - i)")
    (auto simp: vec_erase_def split: if_splits)

text \<open>
  Line 87: \<^verbatim>\<open>static_cast<track_t>(currFrame.cols * currFrame.rows)\<close>.  The two operands are
  C++ \<^verbatim>\<open>int\<close>s and are multiplied as such before the conversion: \<open>int_mul\<close> is the 32-bit
  two's complement product (what the hardware leaves when the mathematical product does not
  fit), so a frame of 65536 x 65536 pixels gives 0.
\<close>

definition int_mul :: "int \<Rightarrow> int \<Rightarrow> int" where
  "int_mul a b = (a * b + 2 ^ 31) mod 2 ^ 32 - 2 ^ 31"

definition max_possible_cost :: "UMat \<Rightarrow> track_t" where
  "max_possible_cost currFrame = real_of_int (int_mul (cols currFrame) (rows currFrame))"

text \<open>Lines 83-127: cost matrix, solver, gating and retirement, when there are tracks.\<close>

definition associate ::
  "('k, 'c) collaborators \<Rightarrow> ('k, 'c) CTracker \<Rightarrow> CRegion list \<Rightarrow> RegionEmbedding list \<Rightarrow> UMat
     \<Rightarrow> track_t \<Rightarrow> assignments_t \<Rightarrow> error + 'k CTrack list \<times> assignments_t" where
  "associate env tr regions regionEmbeddings currFrame fps assignment =
     (let N = length (m_tracks tr); M = length regions in
      if m_tracks tr \<noteq> [] then
        (let costMatrix = replicate (N * M) 0;
             maxPossibleCost = max_possible_cost currFrame
         in case CreateDistaceMatrix env tr regions regionEmbeddings costMatrix maxPossibleCost of
              Inl e \<Rightarrow> Inl e
            | Inr (costMatrix, maxCost) \<Rightarrow>
                (let assignment = SP_Solve env (m_SPCalculator tr) costMatrix N M assignment maxCost
                 in case gating (m_settings tr) N costMatrix assignment (m_tracks tr) of
                      Inl e \<Rightarrow> Inl e
                    | Inr (assignment, tracks) \<Rightarrow>
                        retire_loop env (m_settings tr) fps 0 tracks assignment))
      else Inr (m_tracks tr, assignment))"

text \<open>
  Lines 130-154: start a track for every region no slot of the assignment holds.  The
  state of the loop is the track vector and \<^verbatim>\<open>m_nextTrackID\<close>.
\<close>

definition birth_step ::
  "('k, 'c) collaborators \<Rightarrow> TrackerSettings \<Rightarrow> CRegion list \<Rightarrow> RegionEmbedding list
     \<Rightarrow> assignments_t \<Rightarrow> nat \<Rightarrow> 'k CTrack list \<times> nat \<Rightarrow> error + 'k CTrack list \<times> nat" where
  "birth_step env settings regions regionEmbeddings assignment i st =
     (case st of (tracks, nextTrackID) \<Rightarrow>
        if int i \<notin> set assignment then
          (case vec_at regions i of Inl e \<Rightarrow> Inl e | Inr reg \<Rightarrow>
             if regionEmbeddings = [] then
               Inr (tracks @ [CTrack_new env reg (m_kalmanType settings) (m_dt settings)
                                (m_accelNoiseMag settings) (m_useAcceleration settings) nextTrackID
                                (m_filterGoal settings = FilterRect) (m_lostTrackType settings)],
                    Suc nextTrackID)
             else
               (case vec_at regionEmbeddings i of Inl e \<Rightarrow> Inl e | Inr emb \<Rightarrow>
                  Inr (tracks @ [CTrack_newEmb env reg emb (m_kalmanType settings) (m_dt settings)
                                   (m_accelNoiseMag settings) (m_useAcceleration settings) nextTrackID
                                   (m_filterGoal settings = FilterRect) (m_lostTrackType settings)],
                       Suc nextTrackID)))
        else Inr (tracks, nextTrackID))"

text \<open>Lines 159-181: the body of the loop that updates the filter state of track \<open>i\<close>.\<close>

definition update_step ::
  "('k, 'c) collaborators \<Rightarrow> TrackerSettings \<Rightarrow> CRegion list \<Rightarrow> RegionEmbedding list \<Rightarrow> UMat \<Rightarrow> UMat
     \<Rightarrow> track_t \<Rightarrow> assignments_t \<Rightarrow> nat \<Rightarrow> 'k CTrack list \<Rightarrow> error + 'k CTrack list" where
  "update_step env settings regions regionEmbeddings prevFrame currFrame fps assignment i tracks =
     (case vec_at assignment i of Inl e \<Rightarrow> Inl e | Inr a \<Rightarrow>
        if a \<noteq> -1 then
          (case vec_at tracks i of Inl e \<Rightarrow> Inl e | Inr t \<Rightarrow>
            (let t0 = t\<lparr>m_skippedFrames := 0\<rparr>;
                 trajLen = (if m_useAbandonedDetection settings
                            then cvRound env (real_of_int (m_minStaticTime settings) * fps) else 0)
             in if regionEmbeddings = [] then
                  (case vec_at_int regions a of Inl e \<Rightarrow> Inl e | Inr reg \<Rightarrow>
                     Inr (tracks[i := CTrack_Update env reg True (m_maxTraceLength settings)
                                        prevFrame currFrame trajLen (m_maxSpeedForStatic settings) t0]))
                else
                  (case vec_at_int regions a of Inl e \<Rightarrow> Inl e | Inr reg \<Rightarrow>
                    (case vec_at_int regionEmbeddings a of Inl e \<Rightarrow> Inl e | Inr emb \<Rightarrow>
                       Inr (tracks[i := CTrack_UpdateEmb env reg emb True (m_maxTraceLength settings)
                                          prevFrame currFrame trajLen (m_maxSpeedForStatic settings)
                                          t0])))))
        else
          (case vec_at tracks i of Inl e \<Rightarrow> Inl e | Inr t \<Rightarrow>
             Inr (tracks[i := CTrack_Update env (CRegion_default env) False (m_maxTraceLength settings)
                                prevFrame currFrame 0 (m_maxSpeedForStatic settings) t])))"

text \<open>
  Everything of \<^verbatim>\<open>UpdateTrackingState\<close> before the last loop: the region embeddings, the
  surviving tracks followed by the newborn ones, the assignment of the survivors and the
  next identifier.
\<close>

definition before_update_loop ::
  "('k, 'c) collaborators \<Rightarrow> ('k, 'c) CTracker \<Rightarrow> CRegion list \<Rightarrow> UMat \<Rightarrow> track_t
     \<Rightarrow> error + RegionEmbedding list \<times> assignments_t \<times> 'k CTrack list \<times> nat" where
  "before_update_loop env tr regions currFrame fps =
     (let N = length (m_tracks tr);
          assignment = replicate N (-1)
      in case CalcEmbeddins env tr [] regions currFrame of
           Inl e \<Rightarrow> Inl e
         | Inr regionEmbeddings \<Rightarrow>
            (case associate env tr regions regionEmbeddings currFrame fps assignment of
               Inl e \<Rightarrow> Inl e
             | Inr (tracks, assignment) \<Rightarrow>
                (case for_each [0..<length regions]
                        (birth_step env (m_settings tr) regions regionEmbeddings assignment)
                        (tracks, m_nextTrackID tr) of
                   Inl e \<Rightarrow> Inl e
                 | Inr (tracks, nextTrackID) \<Rightarrow>
                     Inr (regionEmbeddings, assignment, tracks, nextTrackID))))"

text \<open>
  The last loop carries \<^verbatim>\<open>#pragma omp parallel for\<close>.  \<open>update_loop\<close> runs its iterations in
  a given order; the sequential program is the order \<open>[0..<stop_i]\<close>.
\<close>

definition update_loop ::
  "('k, 'c) collaborators \<Rightarrow> ('k, 'c) CTracker \<Rightarrow> CRegion list \<Rightarrow> UMat \<Rightarrow> track_t
     \<Rightarrow> RegionEmbedding list \<Rightarrow> assignments_t \<Rightarrow> nat list \<Rightarrow> 'k CTrack list
     \<Rightarrow> error + 'k CTrack list" where
  "update_loop env tr regions currFrame fps regionEmbeddings assignment order tracks =
     for_each order
       (update_step env (m_settings tr) regions regionEmbeddings (m_prevFrame tr) currFrame fps
          assignment) tracks"

definition UpdateTrackingState_in_order ::
  "('k, 'c) collaborators \<Rightarrow> (nat \<Rightarrow> nat list) \<Rightarrow> ('k, 'c) CTracker \<Rightarrow> CRegion list \<Rightarrow> UMat
     \<Rightarrow> track_t \<Rightarrow> error + ('k, 'c) CTracker" where
  "UpdateTrackingState_in_order env schedule tr regions currFrame fps =
     (case before_update_loop env tr regions currFrame fps of
        Inl e \<Rightarrow> Inl e
      | Inr (regionEmbeddings, assignment, tracks, nextTrackID) \<Rightarrow>
          (let stop_i = length assignment in
           case update_loop env tr regions currFrame fps regionEmbeddings assignment
                  (schedule stop_i) tracks of
             Inl e \<Rightarrow> Inl e
           | Inr tracks' \<Rightarrow> Inr (tr\<lparr>m_tracks := tracks', m_nextTrackID := nextTrackID\<rparr>)))"

definition UpdateTrackingState ::
  "('k, 'c) collaborators \<Rightarrow> ('k, 'c) CTracker \<Rightarrow> CRegion list \<Rightarrow> UMat \<Rightarrow> track_t
     \<Rightarrow> error + ('k, 'c) CTracker" where
  "UpdateTrackingState env tr regions currFrame fps =
     UpdateTrackingState_in_order env (\<lambda>stop_i. [0..<stop_i]) tr regions currFrame fps"

text \<open>\<^verbatim>\<open>currFrame.copyTo(m_prevFrame)\<close> after the tracking state is updated.\<close>

definition Update ::
  "('k, 'c) collaborators \<Rightarrow> ('k, 'c) CTracker \<Rightarrow> CRegion list \<Rightarrow> UMat \<Rightarrow> track_t
     \<Rightarrow> error + ('k, 'c) CTracker" where
  "Update env tr regions currFrame fps =
     (case UpdateTrackingState env tr regions currFrame fps of
        Inl e \<Rightarrow> Inl e
      | Inr tr' \<Rightarrow> Inr (tr'\<lparr>m_prevFrame := currFrame\<rparr>))"

section \<open>Notions used in the statements\<close>

text \<open>
  Modelled from the spec: the contract of the two solvers, which are not in the sources
  (spec 4.1 and 7): called on an \<open>N\<close> by \<open>M\<close> matrix and an assignment of length \<open>N\<close>,
  a solver always produces an assignment vector of length \<open>N\<close>, and every slot is \<open>-1\<close>
  (unassigned) or a region index below \<open>M\<close>.
\<close>

definition assignment_ok :: "nat \<Rightarrow> nat \<Rightarrow> assignments_t \<Rightarrow> bool" where
  "assignment_ok N M a = (length a = N \<and> list_all (\<lambda>x. x = -1 \<or> (0 \<le> x \<and> x < int M)) a)"

definition solver_contract :: "('k, 'c) collaborators \<Rightarrow> bool" where
  "solver_contract env =
     (\<forall>sp costMatrix N M a maxCost.
        length costMatrix = N * M \<and> length a = N \<longrightarrow>
        assignment_ok N M (SPHungrian_Solve env sp costMatrix N M a maxCost) \<and>
        assignment_ok N M (SPBipart_Solve env sp costMatrix N M a maxCost))"

text \<open>Entry \<open>(i, j)\<close> of a cost matrix holds what the inner loop body computes for the pair.\<close>

definition entry_ok ::
  "('k, 'c) collaborators \<Rightarrow> ('k, 'c) CTracker \<Rightarrow> CRegion list \<Rightarrow> RegionEmbedding list \<Rightarrow> track_t
     \<Rightarrow> distMatrix_t \<Rightarrow> nat \<Rightarrow> nat \<Rightarrow> bool" where
  "entry_ok env tr regions embs mpc costMatrix i j =
     (region_dist env (m_settings tr) embs mpc (m_tracks tr ! i)
        (CalcPredictionEllipse env (m_tracks tr ! i) (min_radius (m_settings tr) (m_tracks tr ! i)))
        j (regions ! j) = Inr (costMatrix ! (i + j * length (m_tracks tr))))"

text \<open>What the gating loop leaves in the assignment and in the tracks.\<close>

definition voided :: "TrackerSettings \<Rightarrow> nat \<Rightarrow> distMatrix_t \<Rightarrow> nat \<Rightarrow> int \<Rightarrow> bool" where
  "voided settings N costMatrix i x =
     (x \<noteq> -1 \<and> costMatrix ! (i + nat x * N) > m_distThres settings)"

definition gated_assignment ::
  "TrackerSettings \<Rightarrow> nat \<Rightarrow> distMatrix_t \<Rightarrow> assignments_t \<Rightarrow> assignments_t" where
  "gated_assignment settings N costMatrix a =
     map (\<lambda>i. if voided settings N costMatrix i (a ! i) then -1 else a ! i) [0..<length a]"

definition gated_tracks ::
  "TrackerSettings \<Rightarrow> nat \<Rightarrow> distMatrix_t \<Rightarrow> assignments_t \<Rightarrow> 'k CTrack list \<Rightarrow> 'k CTrack list" where
  "gated_tracks settings N costMatrix a ts =
     map (\<lambda>i. if a ! i = -1 \<or> voided settings N costMatrix i (a ! i)
               then skip_frame (ts ! i) else ts ! i) [0..<length ts]"

text \<open>The tracks that pass the retirement loop, each with its assignment slot.\<close>

definition survivors ::
  "('k, 'c) collaborators \<Rightarrow> TrackerSettings \<Rightarrow> track_t \<Rightarrow> 'k CTrack list \<Rightarrow> assignments_t
     \<Rightarrow> ('k CTrack \<times> int) list" where
  "survivors env settings fps ts a =
     filter (\<lambda>(t, x). \<not> retire_cond env settings fps t) (zip ts a)"

text \<open>The track started for region \<open>j\<close> with identifier \<open>tid\<close>, and the tracks started for
  the regions \<open>js\<close> with consecutive identifiers from \<open>nid\<close> on.\<close>

definition born ::
  "('k, 'c) collaborators \<Rightarrow> TrackerSettings \<Rightarrow> CRegion list \<Rightarrow> RegionEmbedding list \<Rightarrow> nat \<Rightarrow> nat
     \<Rightarrow> 'k CTrack" where
  "born env settings regions embs j tid =
     (if embs = [] then
        CTrack_new env (regions ! j) (m_kalmanType settings) (m_dt settings)
          (m_accelNoiseMag settings) (m_useAcceleration settings) tid
          (m_filterGoal settings = FilterRect) (m_lostTrackType settings)
      else
        CTrack_newEmb env (regions ! j) (embs ! j) (m_kalmanType settings) (m_dt settings)
          (m_accelNoiseMag settings) (m_useAcceleration settings) tid
          (m_filterGoal settings = FilterRect) (m_lostTrackType settings))"

definition births ::
  "('k, 'c) collaborators \<Rightarrow> TrackerSettings \<Rightarrow> CRegion list \<Rightarrow> RegionEmbedding list \<Rightarrow> nat list
     \<Rightarrow> nat \<Rightarrow> 'k CTrack list" where
  "births env settings regions embs js nid =
     map (\<lambda>(j, tid). born env settings regions embs j tid) (zip js [nid..<nid + length js])"

definition unassigned_regions :: "assignments_t \<Rightarrow> nat \<Rightarrow> nat list" where
  "unassigned_regions a M = filter (\<lambda>j. int j \<notin> set a) [0..<M]"

text \<open>An assignment slot that the last loop can follow: unassigned, or an index of a region
  (and of its embedding, when there are embeddings).\<close>

definition slot_ok :: "CRegion list \<Rightarrow> RegionEmbedding list \<Rightarrow> int \<Rightarrow> bool" where
  "slot_ok regions embs x =
     (x = -1 \<or> (0 \<le> x \<and> nat x < length regions \<and> (embs = [] \<or> nat x < length embs)))"

text \<open>An order of the iterations of the parallel loop: every index below \<open>n\<close> exactly once.\<close>

definition valid_schedule :: "(nat \<Rightarrow> nat list) \<Rightarrow> bool" where
  "valid_schedule schedule = (\<forall>n. distinct (schedule n) \<and> set (schedule n) = {..<n})"

text \<open>What the last loop makes of track \<open>t\<close> whose assignment slot holds \<open>x\<close>.\<close>

definition updated ::
  "('k, 'c) collaborators \<Rightarrow> TrackerSettings \<Rightarrow> CRegion list \<Rightarrow> RegionEmbedding list \<Rightarrow> UMat \<Rightarrow> UMat
     \<Rightarrow> track_t \<Rightarrow> int \<Rightarrow> 'k CTrack \<Rightarrow> 'k CTrack" where
  "updated env settings regions embs prevFrame currFrame fps x t =
     (if x \<noteq> -1 then
        (let t0 = t\<lparr>m_skippedFrames := 0\<rparr>;
             trajLen = (if m_useAbandonedDetection settings
                        then cvRound env (real_of_int (m_minStaticTime settings) * fps) else 0)
         in if embs = [] then
              CTrack_Update env (regions ! nat x) True (m_maxTraceLength settings)
                prevFrame currFrame trajLen (m_maxSpeedForStatic settings) t0
            else
              CTrack_UpdateEmb env (regions ! nat x) (embs ! nat x) True (m_maxTraceLength settings)
                prevFrame currFrame trajLen (m_maxSpeedForStatic settings) t0)
      else
        CTrack_Update env (CRegion_default env) False (m_maxTraceLength settings)
          prevFrame currFrame 0 (m_maxSpeedForStatic settings) t)"

text \<open>
  The tracker after one frame, from the region embeddings \<open>embs\<close> and the tracks \<open>ts1\<close> and
  assignment \<open>a1\<close> that the gating loop leaves: survivors updated, then the newborn tracks.
\<close>

definition frame_result ::
  "('k, 'c) collaborators \<Rightarrow> ('k, 'c) CTracker \<Rightarrow> CRegion list \<Rightarrow> UMat \<Rightarrow> track_t
     \<Rightarrow> RegionEmbedding list \<Rightarrow> 'k CTrack list \<Rightarrow> assignments_t \<Rightarrow> ('k, 'c) CTracker" where
  "frame_result env tr regions currFrame fps embs ts1 a1 =
     (let kept = survivors env (m_settings tr) fps ts1 a1;
          js = unassigned_regions (map snd kept) (length regions)
      in tr\<lparr>m_tracks :=
              map (\<lambda>(t, x). updated env (m_settings tr) regions embs (m_prevFrame tr) currFrame fps x t)
                kept
              @ births env (m_settings tr) regions embs js (m_nextTrackID tr),
            m_nextTrackID := m_nextTrackID tr + length js\<rparr>)"

text \<open>
  Modelled from the spec: the part of \<^verbatim>\<open>CTrack\<close> (not in the sources) that the identity
  claims rest on.  A constructor stores the identifier it is given, and \<^verbatim>\<open>Update\<close> keeps
  the identifier of the track (spec 3: a stable numeric id).
\<close>

definition track_contract :: "('k, 'c) collaborators \<Rightarrow> bool" where
  "track_contract env =
     ((\<forall>reg kalman dt accel useAcc tid filterRect lost.
         m_trackID (CTrack_new env reg kalman dt accel useAcc tid filterRect lost) = tid) \<and>
      (\<forall>reg emb kalman dt accel useAcc tid filterRect lost.
         m_trackID (CTrack_newEmb env reg emb kalman dt accel useAcc tid filterRect lost) = tid) \<and>
      (\<forall>reg dataCorrect maxTrace prevFrame currFrame trajLen maxSpeed t.
         m_trackID (CTrack_Update env reg dataCorrect maxTrace prevFrame currFrame trajLen maxSpeed t)
           = m_trackID t) \<and>
      (\<forall>reg emb dataCorrect maxTrace prevFrame currFrame trajLen maxSpeed t.
         m_trackID (CTrack_UpdateEmb env reg emb dataCorrect maxTrace prevFrame currFrame trajLen
                      maxSpeed t) = m_trackID t))"

text \<open>The identifiers of the live tracks; they are pairwise distinct and all issued already.\<close>

definition track_ids :: "('k, 'c) CTracker \<Rightarrow> nat list" where
  "track_ids tr = map m_trackID (m_tracks tr)"

definition ids_ok :: "('k, 'c) CTracker \<Rightarrow> bool" where
  "ids_ok tr = (distinct (track_ids tr) \<and> list_all (\<lambda>x. x < m_nextTrackID tr) (track_ids tr))"

text \<open>A run of the tracker: one call of \<^verbatim>\<open>Update\<close> per frame (regions, image, fps).\<close>

fun Updates ::
  "('k, 'c) collaborators \<Rightarrow> ('k, 'c) CTracker \<Rightarrow> (CRegion list \<times> UMat \<times> track_t) list
     \<Rightarrow> error + ('k, 'c) CTracker" where
  "Updates env tr [] = Inr tr"
| "Updates env tr ((regions, currFrame, fps) # frames) =
     (case Update env tr regions currFrame fps of
        Inl e \<Rightarrow> Inl e
      | Inr tr' \<Rightarrow> Updates env tr' frames)"



text \<open>
  A run in which the parallel loop of each call takes the iterations in the order its
  schedule gives: the schedule is the only thing that may differ between two runs on the
  same inputs.
\<close>

definition Update_in_order ::
  "('k, 'c) collaborators \<Rightarrow> (nat \<Rightarrow> nat list) \<Rightarrow> ('k, 'c) CTracker \<Rightarrow> CRegion list \<Rightarrow> UMat
     \<Rightarrow> track_t \<Rightarrow> error + ('k, 'c) CTracker" where
  "Update_in_order env schedule tr regions currFrame fps =
     (case UpdateTrackingState_in_order env schedule tr regions currFrame fps of
        Inl e \<Rightarrow> Inl e
      | Inr tr' \<Rightarrow> Inr (tr'\<lparr>m_prevFrame := currFrame\<rparr>))"

fun Updates_in_order ::
  "('k, 'c) collaborators \<Rightarrow> ('k, 'c) CTracker
     \<Rightarrow> ((nat \<Rightarrow> nat list) \<times> CRegion list \<times> UMat \<times> track_t) list
     \<Rightarrow> error + ('k, 'c) CTracker" where
  "Updates_in_order env tr [] = Inr tr"
| "Updates_in_order env tr ((schedule, regions, currFrame, fps) # frames) =
     (case Update_in_order env schedule tr regions currFrame fps of
        Inl e \<Rightarrow> Inl e
      | Inr tr' \<Rightarrow> Updates_in_order env tr' frames)"

section \<open>Concrete inputs\<close>

text \<open>
  A small instance of the collaborators, used to run the model on concrete frames: tracks
  that remember the last matched region and the stored embedding, a city-block distance
  scaled by the width of the predicted area as radial distance, and a solver that pairs
  track \<open>i\<close> with region \<open>i\<close>.
\<close>

definition demo_region :: "track_t \<Rightarrow> track_t \<Rightarrow> objtype_t \<Rightarrow> CRegion" where
  "demo_region x y ty =
     \<lparr>m_rrect = \<lparr>rr_center = (x, y), rr_size = (20, 20), rr_angle = 0\<rparr>,
      m_brect = \<lparr>r_x = 0, r_y = 0, r_width = 20, r_height = 20\<rparr>,
      m_type = ty, m_confidence = 1\<rparr>"

definition demo_solver :: "SPSettings \<Rightarrow> distMatrix_t \<Rightarrow> nat \<Rightarrow> nat \<Rightarrow> assignments_t \<Rightarrow> track_t
     \<Rightarrow> assignments_t" where
  "demo_solver sp costMatrix N M a maxCost = map (\<lambda>i. if i < M then int i else -1) [0..<N]"

definition demo_env :: "(Mat, string) collaborators" where
  "demo_env =
     \<lparr>CTrack_new = (\<lambda>reg kalman dt accel useAcc tid filterRect lost.
         \<lparr>m_trackID = tid, m_skippedFrames = 0, m_lastRegion = reg, m_impl = []\<rparr>),
      CTrack_newEmb = (\<lambda>reg emb kalman dt accel useAcc tid filterRect lost.
         \<lparr>m_trackID = tid, m_skippedFrames = 0, m_lastRegion = reg, m_impl = m_embedding emb\<rparr>),
      CTrack_Update = (\<lambda>reg dataCorrect maxTrace prevFrame currFrame trajLen maxSpeed t.
         if dataCorrect then t\<lparr>m_lastRegion := reg\<rparr> else t),
      CTrack_UpdateEmb = (\<lambda>reg emb dataCorrect maxTrace prevFrame currFrame trajLen maxSpeed t.
         if dataCorrect then t\<lparr>m_lastRegion := reg, m_impl := m_embedding emb\<rparr> else t),
      IsOutOfTheFrame = (\<lambda>t. False),
      IsStaticTimeout = (\<lambda>t n. False),
      CalcPredictionEllipse = (\<lambda>t minRadius.
         \<lparr>rr_center = rr_center (m_rrect (m_lastRegion t)), rr_size = minRadius, rr_angle = 0\<rparr>),
      IsInsideArea = (\<lambda>t p area.
         (\<bar>fst p - fst (rr_center area)\<bar> + \<bar>snd p - snd (rr_center area)\<bar>) / fst (rr_size area)),
      WidthDist = (\<lambda>t reg. 0),
      HeightDist = (\<lambda>t reg. 0),
      CalcDistJaccard = (\<lambda>t reg. 1),
      CalcDistHist = (\<lambda>t emb. 1),
      CalcCosine = (\<lambda>t emb. 1),
      SPHungrian_Solve = demo_solver,
      SPBipart_Solve = demo_solver,
      EmbCalc_Initialize = (\<lambda>cfg weights layer. if cfg = [] then None else Some cfg),
      EmbCalc_Calc = (\<lambda>c frame rect. [1]),
      UMat_roi = (\<lambda>frame rect. frame),
      cv_calcHist = (\<lambda>images chans histSize ranges. [1]),
      cv_normalize = (\<lambda>h. h),
      cvRound = (\<lambda>x. \<lfloor>x + 1 / 2\<rfloor>),
      CRegion_default = demo_region 0 0 (-1)\<rparr>"

definition demo_settings :: TrackerSettings where
  "demo_settings =
     \<lparr>m_matchType = MatchHungrian,
      m_distThres = 0.5,
      m_distType = (\<lambda>ind. if ind = 0 then 1 else 0),
      m_maximumAllowedSkippedFrames = 3,
      m_minStaticTime = 5,
      m_maxStaticTime = 25,
      m_maxTraceLength = 10,
      m_useAbandonedDetection = False,
      m_maxSpeedForStatic = 10,
      m_minAreaRadiusPix = 20,
      m_minAreaRadiusK = 1,
      m_kalmanType = 0,
      m_dt = 1,
      m_accelNoiseMag = 1,
      m_useAcceleration = False,
      m_filterGoal = FilterRect,
      m_lostTrackType = 0,
      m_embeddings = [],
      CheckType = (\<lambda>a b. a = b)\<rparr>"

definition demo_frame :: UMat where
  "demo_frame = \<lparr>cols = 640, rows = 480, channels = 3, pixels = []\<rparr>"



definition demo_track :: "nat \<Rightarrow> nat \<Rightarrow> CRegion \<Rightarrow> Mat CTrack" where
  "demo_track tid skipped reg =
     \<lparr>m_trackID = tid, m_skippedFrames = skipped, m_lastRegion = reg, m_impl = []\<rparr>"

text \<open>A tracker in the middle of a run: two tracks alive, three identifiers issued.\<close>

definition demo_tracker :: "(Mat, string) CTracker" where
  "demo_tracker =
     (CTracker_new demo_env demo_settings)
       \<lparr>m_tracks := [demo_track 0 0 (demo_region 10 10 1), demo_track 2 3 (demo_region 300 300 1)],
        m_nextTrackID := 3\<rparr>"




text \<open>
  A tracker with one embedding calculator, registered for type 1, and a small FeatureCos
  weight beside the Centers weight: two tracks alive, three identifiers issued.
\<close>

definition emb_settings :: TrackerSettings where
  "emb_settings =
     demo_settings
       \<lparr>m_distType := (\<lambda>ind. if ind = 0 then 1 else if ind = 4 then 1 / 10 else 0),
        m_embeddings := [\<lparr>m_embeddingCfgName = ''net.cfg'', m_embeddingWeightsName = ''net.w'',
                          m_inputLayer = (128, 256), m_objectTypes = [1]\<rparr>]\<rparr>"

definition emb_tracker :: "(Mat, string) CTracker" where
  "emb_tracker =
     (CTracker_new demo_env emb_settings)
       \<lparr>m_tracks := [demo_track 0 0 (demo_region 10 10 1), demo_track 2 3 (demo_region 300 300 1)],
        m_nextTrackID := 3\<rparr>"

section \<open>Facts about vectors and loops\<close>

declare retire_loop.simps [simp del]

lemma vec_at_Inr [simp]: "i < length xs \<Longrightarrow> vec_at xs i = Inr (xs ! i)"
  by (simp add: vec_at_def)

lemma vec_put_Inr [simp]: "i < length xs \<Longrightarrow> vec_put xs i v = Inr (xs[i := v])"
  by (simp add: vec_put_def)

lemma for_each_append:
  "for_each (xs @ ys) body s =
     (case for_each xs body s of Inl e \<Rightarrow> Inl e | Inr s' \<Rightarrow> for_each ys body s')"
  by (induction xs arbitrary: s) (auto split: sum.splits)

text \<open>Total correctness of a counted loop, by an invariant indexed by the counter.\<close>

lemma for_each_upt_total:
  assumes "P 0 s"
    and "\<And>i s. i < n \<Longrightarrow> P i s \<Longrightarrow> \<exists>s'. body i s = Inr s' \<and> P (Suc i) s'"
  shows "\<exists>s'. for_each [0..<n] body s = Inr s' \<and> P n s'"
  using assms(2)
proof (induction n)
  case 0
  then show ?case using assms(1) by simp
next
  case (Suc n)
  then obtain s1 where s1: "for_each [0..<n] body s = Inr s1" "P n s1"
    by (metis less_Suc_eq)
  from Suc.prems[OF _ s1(2)] obtain s2 where "body n s1 = Inr s2" "P (Suc n) s2"
    by auto
  with s1 show ?case
    by (simp add: for_each_append)
qed

section \<open>The region embeddings\<close>

lemma hist_step_Inr:
  assumes "j < length regions" "j < length embs"
  shows "\<exists>h. hist_step env regions f j embs = Inr (embs[j := (embs ! j)\<lparr>m_hist := h\<rparr>])"
  using assms by (auto simp: hist_step_def split: prod.splits)

lemma hist_loop_total:
  assumes "length embs = length regions"
  shows "\<exists>embs'. for_each [0..<length regions] (hist_step env regions f) embs = Inr embs' \<and>
           length embs' = length regions \<and>
           (\<forall>j<length regions. m_embedding (embs' ! j) = m_embedding (embs ! j) \<and>
                               m_embDot (embs' ! j) = m_embDot (embs ! j))"
proof (rule for_each_upt_total
    [where P = "\<lambda>k e. length e = length regions \<and>
           (\<forall>j<length regions. m_embedding (e ! j) = m_embedding (embs ! j) \<and>
                               m_embDot (e ! j) = m_embDot (embs ! j))"])
  show "length embs = length regions \<and>
    (\<forall>j<length regions. m_embedding (embs ! j) = m_embedding (embs ! j) \<and>
                        m_embDot (embs ! j) = m_embDot (embs ! j))"
    using assms by simp
next
  fix i and s :: "RegionEmbedding list"
  assume i: "i < length regions"
    and inv: "length s = length regions \<and>
      (\<forall>j<length regions. m_embedding (s ! j) = m_embedding (embs ! j) \<and>
                          m_embDot (s ! j) = m_embDot (embs ! j))"
  from hist_step_Inr[of i regions s env f] i inv
  obtain h where h: "hist_step env regions f i s = Inr (s[i := (s ! i)\<lparr>m_hist := h\<rparr>])"
    by auto
  show "\<exists>s'. hist_step env regions f i s = Inr s' \<and>
          (length s' = length regions \<and>
           (\<forall>j<length regions. m_embedding (s' ! j) = m_embedding (embs ! j) \<and>
                               m_embDot (s' ! j) = m_embDot (embs ! j)))"
    using h inv i by (auto simp: nth_list_update)
qed

lemma embed_step_Inr:
  assumes "j < length regions" "j < length embs"
  shows "\<exists>e. embed_step env tr regions f j embs = Inr (embs[j := e]) \<and>
             m_hist e = m_hist (embs ! j) \<and>
             (m_embCalculators tr (m_type (regions ! j)) = None \<longrightarrow> e = embs ! j)"
proof (cases "m_embedding (embs ! j) = [] \<and> m_embCalculators tr (m_type (regions ! j)) \<noteq> None")
  case True
  then show ?thesis using assms by (auto simp: embed_step_def Let_def)
next
  case False
  then have "embed_step env tr regions f j embs = Inr (embs[j := embs ! j])"
    using assms by (auto simp: embed_step_def Let_def)
  then show ?thesis by blast
qed

lemma embed_loop_total:
  assumes "length embs = length regions"
  shows "\<exists>embs'. for_each [0..<length regions] (embed_step env tr regions f) embs = Inr embs' \<and>
           length embs' = length regions \<and>
           (\<forall>j<length regions. m_hist (embs' ! j) = m_hist (embs ! j) \<and>
              (m_embCalculators tr (m_type (regions ! j)) = None \<longrightarrow> embs' ! j = embs ! j))"
proof (rule for_each_upt_total
    [where P = "\<lambda>k e. length e = length regions \<and>
           (\<forall>j<length regions. m_hist (e ! j) = m_hist (embs ! j) \<and>
              (m_embCalculators tr (m_type (regions ! j)) = None \<longrightarrow> e ! j = embs ! j))"])
  show "length embs = length regions \<and>
    (\<forall>j<length regions. m_hist (embs ! j) = m_hist (embs ! j) \<and>
       (m_embCalculators tr (m_type (regions ! j)) = None \<longrightarrow> embs ! j = embs ! j))"
    using assms by simp
next
  fix i and s :: "RegionEmbedding list"
  assume i: "i < length regions"
    and inv: "length s = length regions \<and>
      (\<forall>j<length regions. m_hist (s ! j) = m_hist (embs ! j) \<and>
         (m_embCalculators tr (m_type (regions ! j)) = None \<longrightarrow> s ! j = embs ! j))"
  from embed_step_Inr[of i regions s env tr f] i inv
  obtain e where e: "embed_step env tr regions f i s = Inr (s[i := e])"
    "m_hist e = m_hist (s ! i)"
    "m_embCalculators tr (m_type (regions ! i)) = None \<longrightarrow> e = s ! i"
    by auto
  show "\<exists>s'. embed_step env tr regions f i s = Inr s' \<and>
          (length s' = length regions \<and>
           (\<forall>j<length regions. m_hist (s' ! j) = m_hist (embs ! j) \<and>
              (m_embCalculators tr (m_type (regions ! j)) = None \<longrightarrow> s' ! j = embs ! j)))"
    using e inv i by (auto simp: nth_list_update)
qed

lemma CalcEmbeddins_total:
  "\<exists>embs. CalcEmbeddins env tr [] regions f = Inr embs \<and>
     length embs = length regions \<and>
     (\<not> m_distType (m_settings tr) DistHist > 0 \<longrightarrow>
        (\<forall>j<length regions. m_hist (embs ! j) = [])) \<and>
     (\<not> m_distType (m_settings tr) DistFeatureCos > 0 \<longrightarrow>
        (\<forall>j<length regions. m_embedding (embs ! j) = [] \<and> m_embDot (embs ! j) = 0)) \<and>
     (\<forall>j<length regions. m_embCalculators tr (m_type (regions ! j)) = None \<longrightarrow>
        m_embedding (embs ! j) = [] \<and> m_embDot (embs ! j) = 0)"
proof (cases "regions = []")
  case True
  then show ?thesis by (simp add: CalcEmbeddins_def)
next
  case False
  define M where "M = length regions"
  define embs0 where "embs0 = vec_resize RegionEmbedding_default [] M"
  have e0: "length embs0 = length regions"
    "\<And>j. j < length regions \<Longrightarrow> embs0 ! j = RegionEmbedding_default"
    by (simp_all add: embs0_def vec_resize_def M_def)
  obtain embs1 where e1:
    "(if m_distType (m_settings tr) DistHist > 0
      then for_each [0..<length regions] (hist_step env regions f) embs0
      else Inr embs0) = Inr embs1"
    "length embs1 = length regions"
    "\<forall>j<length regions. m_embedding (embs1 ! j) = [] \<and> m_embDot (embs1 ! j) = 0"
    "\<not> m_distType (m_settings tr) DistHist > 0 \<longrightarrow> (\<forall>j<length regions. m_hist (embs1 ! j) = [])"
  proof (cases "m_distType (m_settings tr) DistHist > 0")
    case True
    from hist_loop_total[OF e0(1), of env f] obtain e' where
      "for_each [0..<length regions] (hist_step env regions f) embs0 = Inr e'"
      "length e' = length regions"
      "\<forall>j<length regions. m_embedding (e' ! j) = m_embedding (embs0 ! j) \<and>
                               m_embDot (e' ! j) = m_embDot (embs0 ! j)"
      by blast
    then show ?thesis using that[of e'] True e0 by (simp add: RegionEmbedding_default_def)
  next
    case False
    then show ?thesis using that[of embs0] e0 by (simp add: RegionEmbedding_default_def)
  qed
  obtain embs2 where e2:
    "(if m_distType (m_settings tr) DistFeatureCos > 0
      then for_each [0..<length regions] (embed_step env tr regions f) embs1
      else Inr embs1) = Inr embs2"
    "length embs2 = length regions"
    "\<forall>j<length regions. m_hist (embs2 ! j) = m_hist (embs1 ! j) \<and>
       (m_embCalculators tr (m_type (regions ! j)) = None \<longrightarrow> embs2 ! j = embs1 ! j)"
    "\<not> m_distType (m_settings tr) DistFeatureCos > 0 \<longrightarrow> embs2 = embs1"
  proof (cases "m_distType (m_settings tr) DistFeatureCos > 0")
    case True
    from embed_loop_total[OF e1(2), of env tr f] obtain e' where
      "for_each [0..<length regions] (embed_step env tr regions f) embs1 = Inr e'"
      "length e' = length regions"
      "\<forall>j<length regions. m_hist (e' ! j) = m_hist (embs1 ! j) \<and>
         (m_embCalculators tr (m_type (regions ! j)) = None \<longrightarrow> e' ! j = embs1 ! j)"
      by blast
    then show ?thesis using that[of e'] True by simp
  next
    case False
    then show ?thesis using that[of embs1] e1 by simp
  qed
  have "CalcEmbeddins env tr [] regions f = Inr embs2"
    using False e1(1) e2(1) unfolding embs0_def M_def
    by (auto simp: CalcEmbeddins_def Let_def split: if_splits)
  moreover have "\<not> m_distType (m_settings tr) DistHist > 0 \<longrightarrow>
        (\<forall>j<length regions. m_hist (embs2 ! j) = [])"
    using e1(4) e2(3) by simp
  moreover have "\<not> m_distType (m_settings tr) DistFeatureCos > 0 \<longrightarrow>
        (\<forall>j<length regions. m_embedding (embs2 ! j) = [] \<and> m_embDot (embs2 ! j) = 0)"
    using e1(3) e2(4) by simp
  moreover have "\<forall>j<length regions. m_embCalculators tr (m_type (regions ! j)) = None \<longrightarrow>
        m_embedding (embs2 ! j) = [] \<and> m_embDot (embs2 ! j) = 0"
    using e1(3) e2(3) by simp
  ultimately show ?thesis using e2(2) by blast
qed

section \<open>The registered calculators and the cost matrix\<close>

lemma try_emplace_fold_Some:
  "fold (\<lambda>objType m. try_emplace m objType c) ts m k = Some v \<Longrightarrow>
     m k = Some v \<or> (v = c \<and> k \<in> set ts)"
  by (induction ts arbitrary: m) (fastforce simp: try_emplace_def split: option.splits if_splits)+

lemma register_embedding_Some:
  "register_embedding env p m k = Some v \<Longrightarrow>
     m k = Some v \<or>
     (EmbCalc_Initialize env (m_embeddingCfgName p) (m_embeddingWeightsName p) (m_inputLayer p) = Some v
      \<and> k \<in> set (m_objectTypes p))"
  by (auto simp: register_embedding_def split: option.splits dest: try_emplace_fold_Some)

lemma fold_register_embedding_Some:
  "fold (register_embedding env) ps m k = Some v \<Longrightarrow>
     m k = Some v \<or>
     (\<exists>p\<in>set ps.
        EmbCalc_Initialize env (m_embeddingCfgName p) (m_embeddingWeightsName p) (m_inputLayer p) = Some v
        \<and> k \<in> set (m_objectTypes p))"
proof (induction ps arbitrary: m)
  case Nil
  then show ?case by simp
next
  case (Cons p ps)
  from Cons.IH[of "register_embedding env p m"] Cons.prems
  show ?case by (auto dest: register_embedding_Some)
qed

lemma idx_bound: "i < N \<Longrightarrow> j < M \<Longrightarrow> i + j * N < N * (M::nat)"
proof -
  assume a: "i < N" "j < M"
  have "i + j * N < N + j * N" using a by simp
  also have "\<dots> = N * Suc j" by simp
  also have "\<dots> \<le> N * M" using a by (intro mult_le_mono2) simp
  finally show ?thesis .
qed

lemma idx_inj:
  assumes "i < N" "i' < N" "i + j * N = i' + j' * (N::nat)"
  shows "i = i' \<and> j = j'"
proof -
  from assms(3) have "(i + j * N) mod N = (i' + j' * N) mod N" by simp
  then have "i = i'" using assms(1,2) by simp
  moreover from this assms have "j * N = j' * N" by simp
  then have "j = j'" using assms(1) by simp
  ultimately show ?thesis by simp
qed

lemma region_dist_Inr:
  assumes "j < length embs"
  shows "\<exists>d. region_dist env settings embs mpc track area j reg = Inr d"
proof (cases "CheckType settings (m_type (m_lastRegion track)) (m_type reg)")
  case False
  then show ?thesis by (simp add: region_dist_def)
next
  case True
  then show ?thesis
    using assms by (simp add: region_dist_def add_hist_def add_cosine_def Let_def)
qed

lemma matrix_inner_total:
  assumes len: "length cost0 = length (m_tracks tr) * length regions"
    and embs: "length embs = length regions"
    and i: "i < length (m_tracks tr)"
    and prev: "\<forall>i'<i. \<forall>j<length regions. entry_ok env tr regions embs mpc cost0 i' j"
  shows "\<exists>st. for_each [0..<length regions]
            (matrix_inner_step env (m_settings tr) regions embs mpc (length (m_tracks tr)) i
               (m_tracks tr ! i)
               (CalcPredictionEllipse env (m_tracks tr ! i)
                  (min_radius (m_settings tr) (m_tracks tr ! i)))) (cost0, mc0) = Inr st \<and>
          length (fst st) = length (m_tracks tr) * length regions \<and>
          (\<forall>i'<Suc i. \<forall>j<length regions. entry_ok env tr regions embs mpc (fst st) i' j)"
proof -
  let ?N = "length (m_tracks tr)"
  let ?M = "length regions"
  let ?P = "\<lambda>k (st :: distMatrix_t \<times> track_t). length (fst st) = ?N * ?M \<and>
     (\<forall>i'<i. \<forall>j<?M. entry_ok env tr regions embs mpc (fst st) i' j) \<and>
     (\<forall>j<k. entry_ok env tr regions embs mpc (fst st) i j)"
  have "\<exists>st. for_each [0..<?M]
            (matrix_inner_step env (m_settings tr) regions embs mpc ?N i (m_tracks tr ! i)
               (CalcPredictionEllipse env (m_tracks tr ! i)
                  (min_radius (m_settings tr) (m_tracks tr ! i)))) (cost0, mc0) = Inr st \<and> ?P ?M st"
  proof (rule for_each_upt_total[where P = ?P])
    show "?P 0 (cost0, mc0)" using len prev by simp
  next
    fix j and st :: "distMatrix_t \<times> track_t"
    assume j: "j < ?M" and inv: "?P j st"
    obtain c m where st: "st = (c, m)" by (cases st)
    from region_dist_Inr[of j embs env "m_settings tr" mpc "m_tracks tr ! i"
        "CalcPredictionEllipse env (m_tracks tr ! i) (min_radius (m_settings tr) (m_tracks tr ! i))"
        "regions ! j"] j embs
    obtain d where d: "region_dist env (m_settings tr) embs mpc (m_tracks tr ! i)
        (CalcPredictionEllipse env (m_tracks tr ! i) (min_radius (m_settings tr) (m_tracks tr ! i)))
        j (regions ! j) = Inr d" by auto
    have k: "i + j * ?N < length c" using idx_bound[OF i j] inv st by simp
    let ?c' = "c[i + j * ?N := d]"
    have step: "matrix_inner_step env (m_settings tr) regions embs mpc ?N i (m_tracks tr ! i)
               (CalcPredictionEllipse env (m_tracks tr ! i)
                  (min_radius (m_settings tr) (m_tracks tr ! i))) j st
             = Inr (?c', if d > m then d else m)"
      using j d k st by (simp add: matrix_inner_step_def)
    have keep: "\<And>i' j'. i' < ?N \<Longrightarrow> (i', j') \<noteq> (i, j) \<Longrightarrow> ?c' ! (i' + j' * ?N) = c ! (i' + j' * ?N)"
      using idx_inj[OF _ i] by (metis nth_list_update_neq prod.inject)
    have "?P (Suc j) (?c', if d > m then d else m)"
    proof (intro conjI allI impI)
      show "length (fst (?c', if d > m then d else m)) = ?N * ?M" using inv st by simp
    next
      fix i' j' assume "i' < i" "j' < ?M"
      then show "entry_ok env tr regions embs mpc (fst (?c', if d > m then d else m)) i' j'"
        using inv st keep[of i' j'] i by (simp add: entry_ok_def)
    next
      fix j' assume "j' < Suc j"
      then show "entry_ok env tr regions embs mpc (fst (?c', if d > m then d else m)) i j'"
        using inv st keep[of i j'] i d k by (cases "j' = j") (simp_all add: entry_ok_def)
    qed
    with step show "\<exists>s'. matrix_inner_step env (m_settings tr) regions embs mpc ?N i (m_tracks tr ! i)
               (CalcPredictionEllipse env (m_tracks tr ! i)
                  (min_radius (m_settings tr) (m_tracks tr ! i))) j st = Inr s' \<and> ?P (Suc j) s'"
      by blast
  qed
  then show ?thesis by (auto simp: less_Suc_eq)
qed

lemma CreateDistaceMatrix_total:
  assumes len: "length cost0 = length (m_tracks tr) * length regions"
    and embs: "length embs = length regions"
  shows "\<exists>cost mc. CreateDistaceMatrix env tr regions embs cost0 mpc = Inr (cost, mc) \<and>
          length cost = length (m_tracks tr) * length regions \<and>
          (\<forall>i<length (m_tracks tr). \<forall>j<length regions. entry_ok env tr regions embs mpc cost i j)"
proof -
  let ?N = "length (m_tracks tr)"
  let ?M = "length regions"
  let ?P = "\<lambda>k (st :: distMatrix_t \<times> track_t). length (fst st) = ?N * ?M \<and>
     (\<forall>i'<k. \<forall>j<?M. entry_ok env tr regions embs mpc (fst st) i' j)"
  have "\<exists>st. for_each [0..<?N] (matrix_outer_step env tr regions embs mpc ?N) (cost0, 0) = Inr st
          \<and> ?P ?N st"
  proof (rule for_each_upt_total[where P = ?P])
    show "?P 0 (cost0, 0)" using len by simp
  next
    fix i and st :: "distMatrix_t \<times> track_t"
    assume i: "i < ?N" and inv: "?P i st"
    obtain c m where st: "st = (c, m)" by (cases st)
    from matrix_inner_total[of c tr regions embs i env mpc m] inv st embs i
    show "\<exists>s'. matrix_outer_step env tr regions embs mpc ?N i st = Inr s' \<and> ?P (Suc i) s'"
      by (simp add: matrix_outer_step_def Let_def)
  qed
  then show ?thesis by (auto simp: CreateDistaceMatrix_def Let_def)
qed

section \<open>The four loops of UpdateTrackingState in closed form\<close>

lemma gating_total:
  assumes len: "length a = length ts"
    and ok: "\<forall>i<length a. a ! i = -1 \<or> (0 \<le> a ! i \<and> i + nat (a ! i) * N < length cost)"
  shows "gating settings N cost a ts =
           Inr (gated_assignment settings N cost a, gated_tracks settings N cost a ts)"
proof -
  let ?n = "length a"
  let ?ga = "\<lambda>i. if voided settings N cost i (a ! i) then -1 else a ! i"
  let ?gt = "\<lambda>i. if a ! i = -1 \<or> voided settings N cost i (a ! i) then skip_frame (ts ! i) else ts ! i"
  let ?P = "\<lambda>k (st :: assignments_t \<times> 'a CTrack list).
     length (fst st) = ?n \<and> length (snd st) = ?n \<and>
     (\<forall>i<?n. fst st ! i = (if i < k then ?ga i else a ! i) \<and>
             snd st ! i = (if i < k then ?gt i else ts ! i))"
  have "\<exists>st. for_each [0..<?n] (gate_step settings N cost) (a, ts) = Inr st \<and> ?P ?n st"
  proof (rule for_each_upt_total[where P = ?P])
    show "?P 0 (a, ts)" using len by simp
  next
    fix k and st :: "assignments_t \<times> 'a CTrack list"
    assume k: "k < ?n" and inv: "?P k st"
    obtain a' ts' where st: "st = (a', ts')" by (cases st)
    have ak: "a' ! k = a ! k" "ts' ! k = ts ! k" "k < length a'" "k < length ts'"
      using inv st k by auto
    from ok k have okk: "a ! k = -1 \<or> (0 \<le> a ! k \<and> k + nat (a ! k) * N < length cost)" by simp
    let ?st' = "(if voided settings N cost k (a ! k) then a'[k := -1] else a',
                 if a ! k = -1 \<or> voided settings N cost k (a ! k)
                 then ts'[k := skip_frame (ts ! k)] else ts')"
    have step: "gate_step settings N cost k st = Inr ?st'"
      using ak okk st by (auto simp: gate_step_def cost_at_def voided_def)
    have "?P (Suc k) ?st'"
      using inv st k by (auto simp: nth_list_update less_Suc_eq)
    with step show "\<exists>s'. gate_step settings N cost k st = Inr s' \<and> ?P (Suc k) s'"
      by blast
  qed
  then obtain a' ts' where r: "gating settings N cost a ts = Inr (a', ts')"
    "length a' = ?n" "length ts' = ?n"
    "\<forall>i<?n. a' ! i = ?ga i \<and> ts' ! i = ?gt i"
    by (auto simp: gating_def)
  have "a' = gated_assignment settings N cost a"
    using r(2,4) by (intro nth_equalityI) (simp_all add: gated_assignment_def)
  moreover have "ts' = gated_tracks settings N cost a ts"
    using r(3,4) len by (intro nth_equalityI) (simp_all add: gated_tracks_def)
  ultimately show ?thesis using r(1) by simp
qed

lemma vec_erase_Inr [simp]:
  "i < length xs \<Longrightarrow> vec_erase xs i = Inr (take i xs @ drop (Suc i) xs)"
  by (simp add: vec_erase_def)

lemma retire_loop_eq:
  "length a = length ts \<Longrightarrow> i \<le> length ts \<Longrightarrow>
   retire_loop env settings fps i ts a =
     Inr (take i ts @ map fst (survivors env settings fps (drop i ts) (drop i a)),
          take i a @ map snd (survivors env settings fps (drop i ts) (drop i a)))"
proof (induction env settings fps i ts a rule: retire_loop.induct)
  case (1 env settings fps i tracks assignment)
  show ?case
  proof (cases "i < length tracks")
    case False
    with "1.prems" show ?thesis
      by (subst retire_loop.simps) (simp add: survivors_def)
  next
    case lt: True
    then have lta: "i < length assignment" using "1.prems" by simp
    have dr: "drop i tracks = tracks ! i # drop (Suc i) tracks"
      "drop i assignment = assignment ! i # drop (Suc i) assignment"
      using lt lta by (simp_all add: Cons_nth_drop_Suc)
    show ?thesis
    proof (cases "retire_cond env settings fps (tracks ! i)")
      case True
      let ?ts = "take i tracks @ drop (Suc i) tracks"
      let ?as = "take i assignment @ drop (Suc i) assignment"
      have IH: "retire_loop env settings fps i ?ts ?as =
         Inr (take i ?ts @ map fst (survivors env settings fps (drop i ?ts) (drop i ?as)),
              take i ?as @ map snd (survivors env settings fps (drop i ?ts) (drop i ?as)))"
        using "1.IH"(1)[OF lt True, of ?ts ?as] lt lta "1.prems" by simp
      have "retire_loop env settings fps i tracks assignment = retire_loop env settings fps i ?ts ?as"
        using lt lta True by (subst retire_loop.simps) simp
      also note IH
      finally show ?thesis
        using lt lta True dr by (simp add: survivors_def min_def)
    next
      case False
      have IH: "retire_loop env settings fps (Suc i) tracks assignment =
         Inr (take (Suc i) tracks @
                map fst (survivors env settings fps (drop (Suc i) tracks) (drop (Suc i) assignment)),
              take (Suc i) assignment @
                map snd (survivors env settings fps (drop (Suc i) tracks) (drop (Suc i) assignment)))"
        using "1.IH"(2)[OF lt False] lt "1.prems" by simp
      have "retire_loop env settings fps i tracks assignment =
            retire_loop env settings fps (Suc i) tracks assignment"
        using lt False by (subst retire_loop.simps) simp
      also note IH
      finally show ?thesis
        using lt lta False dr by (simp add: survivors_def take_Suc_conv_app_nth)
    qed
  qed
qed

lemma birth_loop_eq:
  assumes "\<forall>j\<in>set js. j < length regions \<and> (embs = [] \<or> j < length embs)"
  shows "for_each js (birth_step env settings regions embs a) (ts, nid) =
           Inr (ts @ births env settings regions embs (filter (\<lambda>j. int j \<notin> set a) js) nid,
                nid + length (filter (\<lambda>j. int j \<notin> set a) js))"
  using assms
proof (induction js arbitrary: ts nid)
  case Nil
  then show ?case by (simp add: births_def)
next
  case (Cons j js)
  show ?case
  proof (cases "int j \<in> set a")
    case True
    then show ?thesis using Cons by (simp add: birth_step_def)
  next
    case False
    have step: "birth_step env settings regions embs a j (ts, nid) =
                  Inr (ts @ [born env settings regions embs j nid], Suc nid)"
      using False Cons.prems by (auto simp: birth_step_def born_def)
    have up: "[nid..<Suc (nid + length (filter (\<lambda>j. int j \<notin> set a) js))] =
              nid # [Suc nid..<Suc nid + length (filter (\<lambda>j. int j \<notin> set a) js)]"
      unfolding add_Suc by (rule upt_conv_Cons) simp
    show ?thesis
      using False step Cons.IH[of "ts @ [born env settings regions embs j nid]" "Suc nid"] Cons.prems
      by (simp add: births_def up del: upt_Suc)
  qed
qed

lemma update_step_Inr:
  assumes "i < length a" "i < length ts" "slot_ok regions embs (a ! i)"
  shows "update_step env settings regions embs prev cur fps a i ts =
           Inr (ts[i := updated env settings regions embs prev cur fps (a ! i) (ts ! i)])"
  using assms
  by (auto simp: update_step_def updated_def slot_ok_def vec_at_int_def Let_def)

lemma update_loop_any_order:
  assumes "distinct order"
    and "\<forall>i\<in>set order. i < length a \<and> i < length ts \<and> slot_ok regions embs (a ! i)"
  shows "for_each order (update_step env settings regions embs prev cur fps a) ts =
           Inr (map (\<lambda>i. if i \<in> set order
                          then updated env settings regions embs prev cur fps (a ! i) (ts ! i)
                          else ts ! i) [0..<length ts])"
  using assms
proof (induction order arbitrary: ts)
  case Nil
  then show ?case by (simp add: map_nth)
next
  case (Cons i order)
  let ?u = "\<lambda>i t. updated env settings regions embs prev cur fps (a ! i) t"
  let ?ts1 = "ts[i := ?u i (ts ! i)]"
  have step: "update_step env settings regions embs prev cur fps a i ts = Inr ?ts1"
    using Cons.prems by (intro update_step_Inr) simp_all
  have IH: "for_each order (update_step env settings regions embs prev cur fps a) ?ts1 =
           Inr (map (\<lambda>k. if k \<in> set order then ?u k (?ts1 ! k) else ?ts1 ! k) [0..<length ?ts1])"
    using Cons.prems by (intro Cons.IH) simp_all
  have "map (\<lambda>k. if k \<in> set order then ?u k (?ts1 ! k) else ?ts1 ! k) [0..<length ?ts1] =
        map (\<lambda>k. if k \<in> set (i # order) then ?u k (ts ! k) else ts ! k) [0..<length ts]"
    using Cons.prems by (auto simp: nth_list_update)
  with step IH show ?case by simp
qed

section \<open>One frame\<close>

lemma SP_Solve_ok:
  "solver_contract env \<Longrightarrow> length cost = N * M \<Longrightarrow> length a = N \<Longrightarrow>
     assignment_ok N M (SP_Solve env calc cost N M a mc)"
  unfolding solver_contract_def SP_Solve_def by (cases calc) auto

lemma assignment_ok_nth:
  "assignment_ok N M a \<Longrightarrow> i < N \<Longrightarrow> a ! i = -1 \<or> (0 \<le> a ! i \<and> a ! i < int M)"
  by (auto simp: assignment_ok_def list_all_length)

lemma length_gated_assignment [simp]: "length (gated_assignment settings N cost a) = length a"
  by (simp add: gated_assignment_def)

lemma length_gated_tracks [simp]: "length (gated_tracks settings N cost a ts) = length ts"
  by (simp add: gated_tracks_def)

lemma gated_assignment_ok:
  "assignment_ok N M a \<Longrightarrow> assignment_ok N M (gated_assignment settings N' cost a)"
  by (auto simp: assignment_ok_def list_all_length gated_assignment_def)

lemma survivors_zip:
  "zip (map fst (survivors env settings fps ts a)) (map snd (survivors env settings fps ts a)) =
     survivors env settings fps ts a"
  by (simp add: zip_map_fst_snd)

lemma survivors_snd_subset:
  "set (map snd (survivors env settings fps ts a)) \<subseteq> set a"
  by (auto simp: survivors_def dest: set_zip_rightD)

lemma survivors_fst_subset:
  "set (map fst (survivors env settings fps ts a)) \<subseteq> set ts"
  by (auto simp: survivors_def dest: set_zip_leftD)

lemma associate_eq:
  assumes sc: "solver_contract env"
    and cm: "CreateDistaceMatrix env tr regions embs
               (replicate (length (m_tracks tr) * length regions) 0)
               (max_possible_cost f) = Inr (cost, mc)"
    and len: "length cost = length (m_tracks tr) * length regions"
  shows "associate env tr regions embs f fps (replicate (length (m_tracks tr)) (-1)) =
     (let a0 = SP_Solve env (m_SPCalculator tr) cost (length (m_tracks tr)) (length regions)
                 (replicate (length (m_tracks tr)) (-1)) mc;
          kept = survivors env (m_settings tr) fps
                   (gated_tracks (m_settings tr) (length (m_tracks tr)) cost a0 (m_tracks tr))
                   (gated_assignment (m_settings tr) (length (m_tracks tr)) cost a0)
      in Inr (map fst kept, map snd kept))"
proof -
  let ?N = "length (m_tracks tr)"
  let ?M = "length regions"
  let ?a0 = "SP_Solve env (m_SPCalculator tr) cost ?N ?M (replicate ?N (-1)) mc"
  have ok: "assignment_ok ?N ?M ?a0" using sc len by (intro SP_Solve_ok) simp_all
  then have la: "length ?a0 = ?N" by (simp add: assignment_ok_def)
  show ?thesis
  proof (cases "m_tracks tr = []")
    case True
    then have "?a0 = []" using la by simp
    then show ?thesis
      using True by (simp add: associate_def Let_def survivors_def gated_tracks_def
          gated_assignment_def)
  next
    case False
    have slots: "\<forall>i<length ?a0. ?a0 ! i = -1 \<or> (0 \<le> ?a0 ! i \<and> i + nat (?a0 ! i) * ?N < length cost)"
    proof (intro allI impI)
      fix i assume i: "i < length ?a0"
      then have iN: "i < ?N" using la by simp
      from assignment_ok_nth[OF ok iN]
      show "?a0 ! i = -1 \<or> (0 \<le> ?a0 ! i \<and> i + nat (?a0 ! i) * ?N < length cost)"
      proof
        assume "?a0 ! i = -1" then show ?thesis by simp
      next
        assume r: "0 \<le> ?a0 ! i \<and> ?a0 ! i < int ?M"
        then have "nat (?a0 ! i) < ?M" by linarith
        from idx_bound[OF iN this] r len show ?thesis by simp
      qed
    qed
    have g: "gating (m_settings tr) ?N cost ?a0 (m_tracks tr) =
               Inr (gated_assignment (m_settings tr) ?N cost ?a0,
                    gated_tracks (m_settings tr) ?N cost ?a0 (m_tracks tr))"
      using la slots by (intro gating_total) simp_all
    have r: "retire_loop env (m_settings tr) fps 0
               (gated_tracks (m_settings tr) ?N cost ?a0 (m_tracks tr))
               (gated_assignment (m_settings tr) ?N cost ?a0) =
             Inr (map fst (survivors env (m_settings tr) fps
                     (gated_tracks (m_settings tr) ?N cost ?a0 (m_tracks tr))
                     (gated_assignment (m_settings tr) ?N cost ?a0)),
                  map snd (survivors env (m_settings tr) fps
                     (gated_tracks (m_settings tr) ?N cost ?a0 (m_tracks tr))
                     (gated_assignment (m_settings tr) ?N cost ?a0)))"
      using la retire_loop_eq[of "gated_assignment (m_settings tr) ?N cost ?a0"
          "gated_tracks (m_settings tr) ?N cost ?a0 (m_tracks tr)" 0 env "m_settings tr" fps]
      by simp
    show ?thesis
      using False cm g r by (simp add: associate_def Let_def)
  qed
qed

lemma updated_prefix_eq:
  assumes "length a2 = length ts2"
  shows "map (\<lambda>i. if i \<in> {..<length a2} then u (a2 ! i) ((ts2 @ bs) ! i) else (ts2 @ bs) ! i)
           [0..<length (ts2 @ bs)] =
         map (\<lambda>(t, x). u x t) (zip ts2 a2) @ bs"
  using assms by (intro nth_equalityI) (auto simp: nth_append)

lemma update_loop_prefix:
  assumes vs: "valid_schedule schedule" and len: "length a2 = length ts2"
    and ok: "\<forall>x\<in>set a2. slot_ok regions embs x"
  shows "update_loop env tr regions f fps embs a2 (schedule (length a2)) (ts2 @ bs) =
           Inr (map (\<lambda>(t, x). updated env (m_settings tr) regions embs (m_prevFrame tr) f fps x t)
                  (zip ts2 a2) @ bs)"
proof -
  have dist: "distinct (schedule (length a2))" "set (schedule (length a2)) = {..<length a2}"
    using vs by (simp_all add: valid_schedule_def)
  have slots: "\<forall>i\<in>set (schedule (length a2)).
       i < length a2 \<and> i < length (ts2 @ bs) \<and> slot_ok regions embs (a2 ! i)"
    using dist(2) len ok by auto
  have "update_loop env tr regions f fps embs a2 (schedule (length a2)) (ts2 @ bs) =
      Inr (map (\<lambda>i. if i \<in> {..<length a2}
                     then updated env (m_settings tr) regions embs (m_prevFrame tr) f fps (a2 ! i)
                            ((ts2 @ bs) ! i)
                     else (ts2 @ bs) ! i) [0..<length (ts2 @ bs)])"
    unfolding update_loop_def
    using update_loop_any_order[OF dist(1) slots, of env "m_settings tr" "m_prevFrame tr" f fps]
    by (simp only: dist(2))
  also have "\<dots> = Inr (map (\<lambda>(t, x). updated env (m_settings tr) regions embs (m_prevFrame tr) f fps x t)
                  (zip ts2 a2) @ bs)"
    using updated_prefix_eq[OF len,
        of "\<lambda>x t. updated env (m_settings tr) regions embs (m_prevFrame tr) f fps x t" bs]
    by simp
  finally show ?thesis .
qed

lemma UpdateTrackingState_master:
  assumes sc: "solver_contract env" and vs: "valid_schedule schedule"
  shows "\<exists>embs cost mc.
     CalcEmbeddins env tr [] regions f = Inr embs \<and> length embs = length regions \<and>
     CreateDistaceMatrix env tr regions embs (replicate (length (m_tracks tr) * length regions) 0)
       (max_possible_cost f) = Inr (cost, mc) \<and>
     length cost = length (m_tracks tr) * length regions \<and>
     (\<forall>i<length (m_tracks tr). \<forall>j<length regions.
        entry_ok env tr regions embs (max_possible_cost f) cost i j) \<and>
     assignment_ok (length (m_tracks tr)) (length regions)
       (SP_Solve env (m_SPCalculator tr) cost (length (m_tracks tr)) (length regions)
          (replicate (length (m_tracks tr)) (-1)) mc) \<and>
     UpdateTrackingState_in_order env schedule tr regions f fps =
       Inr (frame_result env tr regions f fps embs
              (gated_tracks (m_settings tr) (length (m_tracks tr)) cost
                 (SP_Solve env (m_SPCalculator tr) cost (length (m_tracks tr)) (length regions)
                    (replicate (length (m_tracks tr)) (-1)) mc) (m_tracks tr))
              (gated_assignment (m_settings tr) (length (m_tracks tr)) cost
                 (SP_Solve env (m_SPCalculator tr) cost (length (m_tracks tr)) (length regions)
                    (replicate (length (m_tracks tr)) (-1)) mc)))"
proof -
  let ?N = "length (m_tracks tr)"
  let ?M = "length regions"
  let ?mpc = "max_possible_cost f"
  from CalcEmbeddins_total[of env tr regions f] obtain embs where
    embs: "CalcEmbeddins env tr [] regions f = Inr embs" "length embs = ?M" by blast
  from CreateDistaceMatrix_total[of "replicate (?N * ?M) 0" tr regions embs env ?mpc] embs(2)
  obtain cost mc where
    cm: "CreateDistaceMatrix env tr regions embs (replicate (?N * ?M) 0) ?mpc = Inr (cost, mc)"
      "length cost = ?N * ?M"
      "\<forall>i<?N. \<forall>j<?M. entry_ok env tr regions embs ?mpc cost i j"
    by auto
  let ?a0 = "SP_Solve env (m_SPCalculator tr) cost ?N ?M (replicate ?N (-1)) mc"
  let ?ts1 = "gated_tracks (m_settings tr) ?N cost ?a0 (m_tracks tr)"
  let ?a1 = "gated_assignment (m_settings tr) ?N cost ?a0"
  let ?kept = "survivors env (m_settings tr) fps ?ts1 ?a1"
  let ?ts2 = "map fst ?kept"
  let ?a2 = "map snd ?kept"
  let ?js = "unassigned_regions ?a2 ?M"
  let ?bs = "births env (m_settings tr) regions embs ?js (m_nextTrackID tr)"
  have ok0: "assignment_ok ?N ?M ?a0" using sc cm(2) by (intro SP_Solve_ok) simp_all
  have ok1: "assignment_ok ?N ?M ?a1" using ok0 by (rule gated_assignment_ok)
  have assoc: "associate env tr regions embs f fps (replicate ?N (-1)) = Inr (?ts2, ?a2)"
    using associate_eq[OF sc cm(1) cm(2), of fps] by (simp add: Let_def)
  have birth: "for_each [0..<?M] (birth_step env (m_settings tr) regions embs ?a2)
                 (?ts2, m_nextTrackID tr) = Inr (?ts2 @ ?bs, m_nextTrackID tr + length ?js)"
    using birth_loop_eq[of "[0..<?M]" regions embs env "m_settings tr" ?a2 ?ts2 "m_nextTrackID tr"]
      embs(2) by (simp add: unassigned_regions_def)
  have before: "before_update_loop env tr regions f fps =
      Inr (embs, ?a2, ?ts2 @ ?bs, m_nextTrackID tr + length ?js)"
    using embs(1) assoc birth by (simp add: before_update_loop_def Let_def)
  have slots: "\<forall>x\<in>set ?a2. slot_ok regions embs x"
  proof
    fix x assume "x \<in> set ?a2"
    then have "x \<in> set ?a1"
      using survivors_snd_subset[of env "m_settings tr" fps ?ts1 ?a1] by blast
    then have "x = -1 \<or> (0 \<le> x \<and> x < int ?M)"
      using ok1 by (auto simp: assignment_ok_def list_all_iff)
    then show "slot_ok regions embs x"
      using embs(2) by (auto simp: slot_ok_def)
  qed
  have loop: "update_loop env tr regions f fps embs ?a2 (schedule (length ?a2)) (?ts2 @ ?bs) =
      Inr (map (\<lambda>(t, x). updated env (m_settings tr) regions embs (m_prevFrame tr) f fps x t) ?kept
           @ ?bs)"
    using update_loop_prefix[OF vs _ slots, of ?ts2 env tr f fps ?bs]
    by (simp only: survivors_zip length_map)
  have "UpdateTrackingState_in_order env schedule tr regions f fps =
      Inr (frame_result env tr regions f fps embs ?ts1 ?a1)"
    using before loop by (simp add: UpdateTrackingState_in_order_def frame_result_def Let_def)
  with embs cm ok0 show ?thesis by blast
qed

section \<open>The stored previous frame\<close>

lemma demo_solver_contract: "solver_contract demo_env"
  by (auto simp: solver_contract_def demo_env_def demo_solver_def assignment_ok_def list_all_iff)

lemma valid_schedule_upt: "valid_schedule (\<lambda>stop_i. [0..<stop_i])"
  by (auto simp: valid_schedule_def)

lemma UpdateTrackingState_returns:
  "solver_contract env \<Longrightarrow> \<exists>tr'. UpdateTrackingState env tr regions f fps = Inr tr'"
  unfolding UpdateTrackingState_def
  using UpdateTrackingState_master[OF _ valid_schedule_upt, of env tr regions f fps] by blast

lemma UpdateTrackingState_in_order_frame:
  "UpdateTrackingState_in_order env schedule tr regions f fps = Inr tr' \<Longrightarrow>
     m_prevFrame tr' = m_prevFrame tr \<and> m_settings tr' = m_settings tr \<and>
     m_SPCalculator tr' = m_SPCalculator tr \<and> m_embCalculators tr' = m_embCalculators tr"
  by (auto simp: UpdateTrackingState_in_order_def Let_def split: sum.splits prod.splits)

lemma CTracker_new_fields [simp]:
  "m_tracks (CTracker_new env settings) = []"
  "m_nextTrackID (CTracker_new env settings) = 0"
  "m_prevFrame (CTracker_new env settings) = UMat_empty"
  "m_settings (CTracker_new env settings) = settings"
  by (simp_all add: CTracker_new_def Let_def)

text \<open>
  Claim C8.  A fresh tracker stores the empty image as previous frame.  Whenever a call of
  \<^verbatim>\<open>Update\<close> returns, the stored previous frame is the current frame of that call.  The
  call first runs \<^verbatim>\<open>UpdateTrackingState\<close>, which leaves the stored previous frame as it was
  (so every read during the call sees the frame of the call before), and only then copies:
  its result is the result of \<^verbatim>\<open>UpdateTrackingState\<close> with \<open>m_prevFrame\<close> replaced, tracks
  and next identifier untouched by the copy.  Under the solvers' contract the call does
  return.
\<close>

theorem prev_frame_after_Update:
  "m_prevFrame (CTracker_new env settings) = UMat_empty \<and>
   (\<forall>tr'. Update env tr regions currFrame fps = Inr tr' \<longrightarrow>
      m_prevFrame tr' = currFrame \<and>
      (\<exists>tr1. UpdateTrackingState env tr regions currFrame fps = Inr tr1 \<and>
             m_prevFrame tr1 = m_prevFrame tr \<and>
             tr' = tr1\<lparr>m_prevFrame := currFrame\<rparr> \<and>
             m_tracks tr' = m_tracks tr1 \<and> m_nextTrackID tr' = m_nextTrackID tr1)) \<and>
   (solver_contract env \<longrightarrow> (\<exists>tr'. Update env tr regions currFrame fps = Inr tr'))"
proof (intro conjI allI impI)
  show "m_prevFrame (CTracker_new env settings) = UMat_empty" by simp
next
  fix tr' assume u: "Update env tr regions currFrame fps = Inr tr'"
  then obtain tr1 where tr1: "UpdateTrackingState env tr regions currFrame fps = Inr tr1"
    "tr' = tr1\<lparr>m_prevFrame := currFrame\<rparr>"
    by (auto simp: Update_def split: sum.splits)
  then show "m_prevFrame tr' = currFrame" by simp
  have "m_prevFrame tr1 = m_prevFrame tr"
    using tr1(1) UpdateTrackingState_in_order_frame[of env _ tr regions currFrame fps tr1]
    by (simp add: UpdateTrackingState_def)
  with tr1 show "\<exists>tr1. UpdateTrackingState env tr regions currFrame fps = Inr tr1 \<and>
             m_prevFrame tr1 = m_prevFrame tr \<and>
             tr' = tr1\<lparr>m_prevFrame := currFrame\<rparr> \<and>
             m_tracks tr' = m_tracks tr1 \<and> m_nextTrackID tr' = m_nextTrackID tr1"
    by simp
next
  assume "solver_contract env"
  from UpdateTrackingState_returns[OF this, of tr regions currFrame fps]
  show "\<exists>tr'. Update env tr regions currFrame fps = Inr tr'"
    by (auto simp: Update_def)
qed

theorem prev_frame_after_Update_witness:
  "solver_contract demo_env \<and>
   m_prevFrame (CTracker_new demo_env demo_settings) = UMat_empty \<and>
   (\<exists>tr'. Update demo_env (CTracker_new demo_env demo_settings) [demo_region 12 10 1] demo_frame 25
            = Inr tr' \<and> m_prevFrame tr' = demo_frame)"
  using prev_frame_after_Update[of demo_env demo_settings "CTracker_new demo_env demo_settings"
      "[demo_region 12 10 1]" demo_frame 25]
    demo_solver_contract
  by blast

section \<open>A frame without regions\<close>

lemma assignment_ok_no_regions: "assignment_ok N 0 a \<Longrightarrow> a = replicate N (-1)"
  by (auto simp: assignment_ok_def list_all_iff intro!: replicate_eqI)

lemma gated_assignment_unassigned:
  "gated_assignment settings N cost (replicate n (-1)) = replicate n (-1)"
  by (auto simp: gated_assignment_def voided_def intro!: nth_equalityI)

lemma gated_tracks_unassigned:
  "length ts = n \<Longrightarrow> gated_tracks settings N cost (replicate n (-1)) ts = map skip_frame ts"
  by (auto simp: gated_tracks_def intro!: nth_equalityI)

lemma survivors_replicate:
  "survivors env settings fps ts (replicate (length ts) x) =
     map (\<lambda>t. (t, x)) (filter (\<lambda>t. \<not> retire_cond env settings fps t) ts)"
proof -
  have "zip ts (replicate (length ts) x) = map (\<lambda>t. (t, x)) ts"
    by (induction ts) simp_all
  then show ?thesis
    by (simp add: survivors_def filter_map comp_def)
qed

text \<open>
  Claim C7.  A call with no regions while tracks exist: the skipped-frames counter of
  every track is incremented, the retirement test is applied to every track (with the
  incremented counter), every track that passes it receives the update without
  measurement, with the default-constructed region, and no track is started: the next
  identifier is unchanged and the tracks are exactly the updated survivors.
\<close>

theorem empty_frame_update:
  assumes "solver_contract env" and "m_tracks tr \<noteq> []"
  shows "Update env tr [] currFrame fps =
           Inr (tr\<lparr>m_tracks :=
                     map (CTrack_Update env (CRegion_default env) False
                            (m_maxTraceLength (m_settings tr)) (m_prevFrame tr) currFrame 0
                            (m_maxSpeedForStatic (m_settings tr)))
                       (filter (\<lambda>t. \<not> retire_cond env (m_settings tr) fps t)
                          (map skip_frame (m_tracks tr))),
                   m_prevFrame := currFrame\<rparr>)"
proof -
  let ?N = "length (m_tracks tr)"
  from UpdateTrackingState_master[OF assms(1) valid_schedule_upt, of tr "[]" currFrame fps]
  obtain embs cost mc where
    embs: "length embs = 0"
    and ok: "assignment_ok ?N 0 (SP_Solve env (m_SPCalculator tr) cost ?N 0 (replicate ?N (-1)) mc)"
    and res: "UpdateTrackingState env tr [] currFrame fps =
       Inr (frame_result env tr [] currFrame fps embs
              (gated_tracks (m_settings tr) ?N cost
                 (SP_Solve env (m_SPCalculator tr) cost ?N 0 (replicate ?N (-1)) mc) (m_tracks tr))
              (gated_assignment (m_settings tr) ?N cost
                 (SP_Solve env (m_SPCalculator tr) cost ?N 0 (replicate ?N (-1)) mc)))"
    unfolding UpdateTrackingState_def by auto
  have a0: "SP_Solve env (m_SPCalculator tr) cost ?N 0 (replicate ?N (-1)) mc = replicate ?N (-1)"
    using ok by (rule assignment_ok_no_regions)
  have "frame_result env tr [] currFrame fps embs (map skip_frame (m_tracks tr)) (replicate ?N (-1)) =
        tr\<lparr>m_tracks :=
             map (CTrack_Update env (CRegion_default env) False
                    (m_maxTraceLength (m_settings tr)) (m_prevFrame tr) currFrame 0
                    (m_maxSpeedForStatic (m_settings tr)))
               (filter (\<lambda>t. \<not> retire_cond env (m_settings tr) fps t)
                  (map skip_frame (m_tracks tr)))\<rparr>"
    using survivors_replicate[of env "m_settings tr" fps "map skip_frame (m_tracks tr)" "-1"]
    by (simp add: frame_result_def Let_def unassigned_regions_def births_def updated_def comp_def)
  then show ?thesis
    using res a0 by (simp add: Update_def gated_assignment_unassigned gated_tracks_unassigned)
qed

lemma demo_tracker_fields [simp]:
  "m_tracks demo_tracker =
     [demo_track 0 0 (demo_region 10 10 1), demo_track 2 3 (demo_region 300 300 1)]"
  "m_nextTrackID demo_tracker = 3"
  "m_settings demo_tracker = demo_settings"
  "m_prevFrame demo_tracker = UMat_empty"
  "m_SPCalculator demo_tracker = SPHungrian \<lparr>sp_distThres = 0.5, sp_maxHistory = 12\<rparr>"
  by (simp_all add: demo_tracker_def CTracker_new_def demo_settings_def)

theorem empty_frame_update_witness:
  "solver_contract demo_env \<and> m_tracks demo_tracker \<noteq> [] \<and>
   Update demo_env demo_tracker [] demo_frame 25 =
     Inr (demo_tracker\<lparr>m_tracks := [demo_track 0 1 (demo_region 10 10 1)],
                       m_prevFrame := demo_frame\<rparr>)"
  using empty_frame_update[OF demo_solver_contract, of demo_tracker demo_frame 25]
    demo_solver_contract
  by (simp add: retire_cond_def skip_frame_def demo_track_def demo_env_def demo_settings_def)

section \<open>Appearance extraction\<close>

lemma CTracker_new_embCalculators:
  "m_embCalculators (CTracker_new env settings) =
     fold (register_embedding env) (m_embeddings settings) Map.empty"
  by (simp add: CTracker_new_def Let_def)

text \<open>
  Claim C6.  \<^verbatim>\<open>CalcEmbeddins\<close> always returns one entry per region.  A histogram is
  filled in only under a positive Hist weight and an embedding only under a positive
  FeatureCos weight: otherwise they stay empty.  A region whose type has no registered
  calculator keeps an empty embedding, and no error is raised for it.  The constructor
  always yields a tracker (no tracks, next identifier 0); a calculator registered for a
  type is one whose initialization succeeded for a parameter set listing that type, so a
  type listed only by parameter sets whose initialization fails has no calculator.
\<close>

theorem appearance_extraction_gated:
  "(\<exists>embs. CalcEmbeddins env tr [] regions currFrame = Inr embs \<and>
      length embs = length regions \<and>
      (\<not> m_distType (m_settings tr) DistHist > 0 \<longrightarrow>
         (\<forall>j<length regions. m_hist (embs ! j) = [])) \<and>
      (\<not> m_distType (m_settings tr) DistFeatureCos > 0 \<longrightarrow>
         (\<forall>j<length regions. m_embedding (embs ! j) = [])) \<and>
      (\<forall>j<length regions. m_embCalculators tr (m_type (regions ! j)) = None \<longrightarrow>
         m_embedding (embs ! j) = [])) \<and>
   (\<forall>t c. m_embCalculators (CTracker_new env settings) t = Some c \<longrightarrow>
      (\<exists>p\<in>set (m_embeddings settings).
         EmbCalc_Initialize env (m_embeddingCfgName p) (m_embeddingWeightsName p) (m_inputLayer p)
           = Some c \<and> t \<in> set (m_objectTypes p))) \<and>
   (\<forall>t. (\<forall>p\<in>set (m_embeddings settings). t \<in> set (m_objectTypes p) \<longrightarrow>
            EmbCalc_Initialize env (m_embeddingCfgName p) (m_embeddingWeightsName p)
              (m_inputLayer p) = None) \<longrightarrow>
        m_embCalculators (CTracker_new env settings) t = None) \<and>
   m_tracks (CTracker_new env settings) = [] \<and>
   m_nextTrackID (CTracker_new env settings) = 0 \<and>
   m_settings (CTracker_new env settings) = settings"
proof -
  have A: "\<exists>embs. CalcEmbeddins env tr [] regions currFrame = Inr embs \<and>
      length embs = length regions \<and>
      (\<not> m_distType (m_settings tr) DistHist > 0 \<longrightarrow>
         (\<forall>j<length regions. m_hist (embs ! j) = [])) \<and>
      (\<not> m_distType (m_settings tr) DistFeatureCos > 0 \<longrightarrow>
         (\<forall>j<length regions. m_embedding (embs ! j) = [])) \<and>
      (\<forall>j<length regions. m_embCalculators tr (m_type (regions ! j)) = None \<longrightarrow>
         m_embedding (embs ! j) = [])"
    using CalcEmbeddins_total[of env tr regions currFrame] by blast
  have B: "\<forall>t c. m_embCalculators (CTracker_new env settings) t = Some c \<longrightarrow>
      (\<exists>p\<in>set (m_embeddings settings).
         EmbCalc_Initialize env (m_embeddingCfgName p) (m_embeddingWeightsName p) (m_inputLayer p)
           = Some c \<and> t \<in> set (m_objectTypes p))"
    using fold_register_embedding_Some[of env "m_embeddings settings" Map.empty]
    by (auto simp: CTracker_new_embCalculators)
  have C: "\<forall>t. (\<forall>p\<in>set (m_embeddings settings). t \<in> set (m_objectTypes p) \<longrightarrow>
            EmbCalc_Initialize env (m_embeddingCfgName p) (m_embeddingWeightsName p)
              (m_inputLayer p) = None) \<longrightarrow>
        m_embCalculators (CTracker_new env settings) t = None"
  proof (intro allI impI)
    fix t
    assume fail: "\<forall>p\<in>set (m_embeddings settings). t \<in> set (m_objectTypes p) \<longrightarrow>
            EmbCalc_Initialize env (m_embeddingCfgName p) (m_embeddingWeightsName p)
              (m_inputLayer p) = None"
    show "m_embCalculators (CTracker_new env settings) t = None"
    proof (cases "m_embCalculators (CTracker_new env settings) t")
      case None
      then show ?thesis .
    next
      case (Some c)
      with B fail show ?thesis by fastforce
    qed
  qed
  from A B C show ?thesis by simp
qed

theorem appearance_extraction_gated_witness:
  "m_embCalculators
     (CTracker_new demo_env
        (demo_settings\<lparr>m_distType := (\<lambda>ind. if ind = 4 then 1 else 0),
                        m_embeddings := [\<lparr>m_embeddingCfgName = [], m_embeddingWeightsName = ''w'',
                                          m_inputLayer = (128, 256), m_objectTypes = [1]\<rparr>]\<rparr>)) 1
     = None \<and>
   (\<exists>embs. CalcEmbeddins demo_env
             (CTracker_new demo_env
                (demo_settings\<lparr>m_distType := (\<lambda>ind. if ind = 4 then 1 else 0),
                                m_embeddings := [\<lparr>m_embeddingCfgName = [],
                                                  m_embeddingWeightsName = ''w'',
                                                  m_inputLayer = (128, 256),
                                                  m_objectTypes = [1]\<rparr>]\<rparr>))
             [] [demo_region 12 10 1] demo_frame = Inr embs \<and>
           length embs = 1 \<and> m_hist (embs ! 0) = [] \<and> m_embedding (embs ! 0) = [])"
proof -
  let ?s = "demo_settings\<lparr>m_distType := (\<lambda>ind. if ind = 4 then 1 else 0),
                          m_embeddings := [\<lparr>m_embeddingCfgName = [], m_embeddingWeightsName = ''w'',
                                            m_inputLayer = (128, 256), m_objectTypes = [1]\<rparr>]\<rparr>"
  let ?tr = "CTracker_new demo_env ?s"
  note inst = appearance_extraction_gated[of demo_env ?tr "[demo_region 12 10 1]" demo_frame ?s]
  have fail: "\<forall>p\<in>set (m_embeddings ?s). (1::int) \<in> set (m_objectTypes p) \<longrightarrow>
            EmbCalc_Initialize demo_env (m_embeddingCfgName p) (m_embeddingWeightsName p)
              (m_inputLayer p) = None"
    by (simp add: demo_env_def)
  with inst have none: "m_embCalculators ?tr 1 = None" by blast
  from inst obtain embs where e:
    "CalcEmbeddins demo_env ?tr [] [demo_region 12 10 1] demo_frame = Inr embs"
    "length embs = length [demo_region 12 10 1]"
    "\<not> m_distType (m_settings ?tr) DistHist > 0 \<longrightarrow>
         (\<forall>j<length [demo_region 12 10 1]. m_hist (embs ! j) = [])"
    "\<forall>j<length [demo_region 12 10 1].
        m_embCalculators ?tr (m_type ([demo_region 12 10 1] ! j)) = None \<longrightarrow>
         m_embedding (embs ! j) = []"
    by blast
  have "m_hist (embs ! 0) = []" using e(3) by (simp add: DistHist_def)
  moreover have "m_embedding (embs ! 0) = []"
    using e(4) none by (simp add: demo_region_def)
  ultimately show ?thesis using none e(1,2) by simp
qed

section \<open>Gating\<close>

lemma gated_assignment_nth:
  "i < length a \<Longrightarrow>
     gated_assignment settings N cost a ! i =
       (if voided settings N cost i (a ! i) then -1 else a ! i)"
  by (simp add: gated_assignment_def)

lemma gated_tracks_nth:
  "i < length ts \<Longrightarrow>
     gated_tracks settings N cost a ts ! i =
       (if a ! i = -1 \<or> voided settings N cost i (a ! i) then skip_frame (ts ! i) else ts ! i)"
  by (simp add: gated_tracks_def)

text \<open>
  Claim C1.  The gating loop, run on an assignment with one slot per track whose assigned
  slots index the cost matrix, returns an assignment and tracks of the same lengths such
  that, for every track \<open>i\<close>: if the slot is still assigned, it is the solver's slot, the
  cost \<open>costMatrix[i + j * N]\<close> of that pair is at most the threshold, and the track is
  untouched; if the solver's slot had a cost above the threshold, the slot is now \<open>-1\<close>
  and the skipped-frames counter is one higher; if the solver left the slot at \<open>-1\<close>,
  it stays so and the counter is one higher.  In the last loop, a track whose slot is
  assigned gets its counter set to 0 and is then updated with the region of the slot.
  Inside \<^verbatim>\<open>UpdateTrackingState\<close>, the gating loop runs on the solver's assignment and the
  matrix built for the frame, so every slot still assigned after it has a cost within the
  threshold.
\<close>

theorem gating_sound:
  "(length assignment = length tracks \<and>
    (\<forall>i<length assignment. assignment ! i = -1 \<or>
        (0 \<le> assignment ! i \<and> i + nat (assignment ! i) * N < length costMatrix)) \<longrightarrow>
    (\<exists>assignment' tracks'.
       gating settings N costMatrix assignment tracks = Inr (assignment', tracks') \<and>
       length assignment' = length assignment \<and> length tracks' = length tracks \<and>
       (\<forall>i<length assignment.
          (assignment' ! i \<noteq> -1 \<longrightarrow>
             assignment' ! i = assignment ! i \<and>
             costMatrix ! (i + nat (assignment' ! i) * N) \<le> m_distThres settings \<and>
             tracks' ! i = tracks ! i) \<and>
          (assignment ! i \<noteq> -1 \<and>
           costMatrix ! (i + nat (assignment ! i) * N) \<le> m_distThres settings \<longrightarrow>
             assignment' ! i = assignment ! i \<and> tracks' ! i = tracks ! i) \<and>
          (assignment ! i \<noteq> -1 \<and>
           costMatrix ! (i + nat (assignment ! i) * N) > m_distThres settings \<longrightarrow>
             assignment' ! i = -1 \<and>
             tracks' ! i = (tracks ! i)\<lparr>m_skippedFrames := m_skippedFrames (tracks ! i) + 1\<rparr>) \<and>
          (assignment ! i = -1 \<longrightarrow>
             assignment' ! i = -1 \<and>
             tracks' ! i = (tracks ! i)\<lparr>m_skippedFrames := m_skippedFrames (tracks ! i) + 1\<rparr>)))) \<and>
   (k < length a \<and> k < length ts \<and> a ! k \<noteq> -1 \<and> slot_ok regions embs (a ! k) \<longrightarrow>
    (\<exists>t0. t0 = (ts ! k)\<lparr>m_skippedFrames := 0\<rparr> \<and> m_skippedFrames t0 = 0 \<and>
       update_step env settings regions embs prevFrame currFrame fps a k ts =
         Inr (ts[k :=
           (if embs = [] then
              CTrack_Update env (regions ! nat (a ! k)) True (m_maxTraceLength settings)
                prevFrame currFrame
                (if m_useAbandonedDetection settings
                 then cvRound env (real_of_int (m_minStaticTime settings) * fps) else 0)
                (m_maxSpeedForStatic settings) t0
            else
              CTrack_UpdateEmb env (regions ! nat (a ! k)) (embs ! nat (a ! k)) True
                (m_maxTraceLength settings) prevFrame currFrame
                (if m_useAbandonedDetection settings
                 then cvRound env (real_of_int (m_minStaticTime settings) * fps) else 0)
                (m_maxSpeedForStatic settings) t0)]))) \<and>
   (solver_contract env \<longrightarrow>
    (\<exists>embs1 cost maxCost a0.
       CalcEmbeddins env tr [] regions currFrame = Inr embs1 \<and>
       CreateDistaceMatrix env tr regions embs1
         (replicate (length (m_tracks tr) * length regions) 0)
         (max_possible_cost currFrame) = Inr (cost, maxCost) \<and>
       a0 = SP_Solve env (m_SPCalculator tr) cost (length (m_tracks tr)) (length regions)
              (replicate (length (m_tracks tr)) (-1)) maxCost \<and>
       UpdateTrackingState env tr regions currFrame fps =
         Inr (frame_result env tr regions currFrame fps embs1
                (gated_tracks (m_settings tr) (length (m_tracks tr)) cost a0 (m_tracks tr))
                (gated_assignment (m_settings tr) (length (m_tracks tr)) cost a0)) \<and>
       (\<forall>i<length (m_tracks tr).
          gated_assignment (m_settings tr) (length (m_tracks tr)) cost a0 ! i \<noteq> -1 \<longrightarrow>
            gated_assignment (m_settings tr) (length (m_tracks tr)) cost a0 ! i = a0 ! i \<and>
            cost ! (i + nat (a0 ! i) * length (m_tracks tr)) \<le> m_distThres (m_settings tr) \<and>
            gated_tracks (m_settings tr) (length (m_tracks tr)) cost a0 (m_tracks tr) ! i
              = m_tracks tr ! i)))"
proof (intro conjI impI)
  assume h: "length assignment = length tracks \<and>
    (\<forall>i<length assignment. assignment ! i = -1 \<or>
        (0 \<le> assignment ! i \<and> i + nat (assignment ! i) * N < length costMatrix))"
  have g: "gating settings N costMatrix assignment tracks =
      Inr (gated_assignment settings N costMatrix assignment,
           gated_tracks settings N costMatrix assignment tracks)"
    using h by (intro gating_total) simp_all
  show "\<exists>assignment' tracks'.
       gating settings N costMatrix assignment tracks = Inr (assignment', tracks') \<and>
       length assignment' = length assignment \<and> length tracks' = length tracks \<and>
       (\<forall>i<length assignment.
          (assignment' ! i \<noteq> -1 \<longrightarrow>
             assignment' ! i = assignment ! i \<and>
             costMatrix ! (i + nat (assignment' ! i) * N) \<le> m_distThres settings \<and>
             tracks' ! i = tracks ! i) \<and>
          (assignment ! i \<noteq> -1 \<and>
           costMatrix ! (i + nat (assignment ! i) * N) \<le> m_distThres settings \<longrightarrow>
             assignment' ! i = assignment ! i \<and> tracks' ! i = tracks ! i) \<and>
          (assignment ! i \<noteq> -1 \<and>
           costMatrix ! (i + nat (assignment ! i) * N) > m_distThres settings \<longrightarrow>
             assignment' ! i = -1 \<and>
             tracks' ! i = (tracks ! i)\<lparr>m_skippedFrames := m_skippedFrames (tracks ! i) + 1\<rparr>) \<and>
          (assignment ! i = -1 \<longrightarrow>
             assignment' ! i = -1 \<and>
             tracks' ! i = (tracks ! i)\<lparr>m_skippedFrames := m_skippedFrames (tracks ! i) + 1\<rparr>))"
    apply (rule exI[of _ "gated_assignment settings N costMatrix assignment"])
    apply (rule exI[of _ "gated_tracks settings N costMatrix assignment tracks"])
    using g h
    by (auto simp: gated_assignment_nth gated_tracks_nth voided_def skip_frame_def
        split: if_splits)
next
  assume h: "k < length a \<and> k < length ts \<and> a ! k \<noteq> -1 \<and> slot_ok regions embs (a ! k)"
  then have "update_step env settings regions embs prevFrame currFrame fps a k ts =
           Inr (ts[k := updated env settings regions embs prevFrame currFrame fps (a ! k) (ts ! k)])"
    by (intro update_step_Inr) simp_all
  then show "\<exists>t0. t0 = (ts ! k)\<lparr>m_skippedFrames := 0\<rparr> \<and> m_skippedFrames t0 = 0 \<and>
       update_step env settings regions embs prevFrame currFrame fps a k ts =
         Inr (ts[k :=
           (if embs = [] then
              CTrack_Update env (regions ! nat (a ! k)) True (m_maxTraceLength settings)
                prevFrame currFrame
                (if m_useAbandonedDetection settings
                 then cvRound env (real_of_int (m_minStaticTime settings) * fps) else 0)
                (m_maxSpeedForStatic settings) t0
            else
              CTrack_UpdateEmb env (regions ! nat (a ! k)) (embs ! nat (a ! k)) True
                (m_maxTraceLength settings) prevFrame currFrame
                (if m_useAbandonedDetection settings
                 then cvRound env (real_of_int (m_minStaticTime settings) * fps) else 0)
                (m_maxSpeedForStatic settings) t0)])"
    using h by (simp add: updated_def Let_def)
next
  assume sc: "solver_contract env"
  let ?N = "length (m_tracks tr)"
  from UpdateTrackingState_master[OF sc valid_schedule_upt, of tr regions currFrame fps]
  obtain embs1 cost mc where m:
    "CalcEmbeddins env tr [] regions currFrame = Inr embs1"
    "CreateDistaceMatrix env tr regions embs1 (replicate (?N * length regions) 0)
       (max_possible_cost currFrame) = Inr (cost, mc)"
    "assignment_ok ?N (length regions)
       (SP_Solve env (m_SPCalculator tr) cost ?N (length regions) (replicate ?N (-1)) mc)"
    "UpdateTrackingState env tr regions currFrame fps =
       Inr (frame_result env tr regions currFrame fps embs1
              (gated_tracks (m_settings tr) ?N cost
                 (SP_Solve env (m_SPCalculator tr) cost ?N (length regions) (replicate ?N (-1)) mc)
                 (m_tracks tr))
              (gated_assignment (m_settings tr) ?N cost
                 (SP_Solve env (m_SPCalculator tr) cost ?N (length regions) (replicate ?N (-1)) mc)))"
    unfolding UpdateTrackingState_def by blast
  let ?a0 = "SP_Solve env (m_SPCalculator tr) cost ?N (length regions) (replicate ?N (-1)) mc"
  have la: "length ?a0 = ?N" using m(3) by (simp add: assignment_ok_def)
  have "\<forall>i<?N. gated_assignment (m_settings tr) ?N cost ?a0 ! i \<noteq> -1 \<longrightarrow>
            gated_assignment (m_settings tr) ?N cost ?a0 ! i = ?a0 ! i \<and>
            cost ! (i + nat (?a0 ! i) * ?N) \<le> m_distThres (m_settings tr) \<and>
            gated_tracks (m_settings tr) ?N cost ?a0 (m_tracks tr) ! i = m_tracks tr ! i"
    using la by (auto simp: gated_assignment_nth gated_tracks_nth voided_def split: if_splits)
  with m(1,2,4) show "\<exists>embs1 cost maxCost a0.
       CalcEmbeddins env tr [] regions currFrame = Inr embs1 \<and>
       CreateDistaceMatrix env tr regions embs1
         (replicate (length (m_tracks tr) * length regions) 0)
         (max_possible_cost currFrame) = Inr (cost, maxCost) \<and>
       a0 = SP_Solve env (m_SPCalculator tr) cost (length (m_tracks tr)) (length regions)
              (replicate (length (m_tracks tr)) (-1)) maxCost \<and>
       UpdateTrackingState env tr regions currFrame fps =
         Inr (frame_result env tr regions currFrame fps embs1
                (gated_tracks (m_settings tr) (length (m_tracks tr)) cost a0 (m_tracks tr))
                (gated_assignment (m_settings tr) (length (m_tracks tr)) cost a0)) \<and>
       (\<forall>i<length (m_tracks tr).
          gated_assignment (m_settings tr) (length (m_tracks tr)) cost a0 ! i \<noteq> -1 \<longrightarrow>
            gated_assignment (m_settings tr) (length (m_tracks tr)) cost a0 ! i = a0 ! i \<and>
            cost ! (i + nat (a0 ! i) * length (m_tracks tr)) \<le> m_distThres (m_settings tr) \<and>
            gated_tracks (m_settings tr) (length (m_tracks tr)) cost a0 (m_tracks tr) ! i
              = m_tracks tr ! i)"
    by blast
qed

theorem gating_sound_witness:
  "(\<exists>assignment' tracks'.
      gating demo_settings 2 [1 / 10, 1, 1, 1] [0, 1] (m_tracks demo_tracker)
        = Inr (assignment', tracks') \<and>
      assignment' ! 0 = 0 \<and> assignment' ! 1 = -1 \<and>
      tracks' ! 0 = demo_track 0 0 (demo_region 10 10 1) \<and>
      tracks' ! 1 = demo_track 2 4 (demo_region 300 300 1)) \<and>
   slot_ok [demo_region 12 10 1] [] 0 \<and>
   update_step demo_env demo_settings [demo_region 12 10 1] [] UMat_empty demo_frame 25 [0] 0
       [demo_track 0 7 (demo_region 10 10 1)]
     = Inr [demo_track 0 0 (demo_region 12 10 1)] \<and>
   solver_contract demo_env \<and>
   (\<exists>tr'. UpdateTrackingState demo_env demo_tracker [demo_region 12 10 1] demo_frame 25 = Inr tr')"
proof -
  note inst = gating_sound[of "[0, 1]" "m_tracks demo_tracker" 2 "[1 / 10, 1, 1, 1]" demo_settings
      0 "[0]" "[demo_track 0 7 (demo_region 10 10 1)]" "[demo_region 12 10 1]" "[]"
      demo_env UMat_empty demo_frame 25 demo_tracker]
  have pre: "length [0, 1 :: int] = length (m_tracks demo_tracker) \<and>
    (\<forall>i<length [0, 1 :: int]. [0, 1 :: int] ! i = -1 \<or>
        (0 \<le> [0, 1 :: int] ! i \<and> i + nat ([0, 1 :: int] ! i) * 2 < length [1 / 10, 1, 1, 1 :: real]))"
    by (simp add: less_Suc_eq numeral_2_eq_2)
  with inst obtain a' ts' where g:
    "gating demo_settings 2 [1 / 10, 1, 1, 1] [0, 1] (m_tracks demo_tracker) = Inr (a', ts')"
    "\<forall>i<length [0, 1 :: int].
          (a' ! i \<noteq> -1 \<longrightarrow>
             a' ! i = [0, 1] ! i \<and>
             [1 / 10, 1, 1, 1] ! (i + nat (a' ! i) * 2) \<le> m_distThres demo_settings \<and>
             ts' ! i = m_tracks demo_tracker ! i) \<and>
          ([0, 1 :: int] ! i \<noteq> -1 \<and>
           [1 / 10, 1, 1, 1] ! (i + nat ([0, 1] ! i) * 2) \<le> m_distThres demo_settings \<longrightarrow>
             a' ! i = [0, 1] ! i \<and> ts' ! i = m_tracks demo_tracker ! i) \<and>
          ([0, 1 :: int] ! i \<noteq> -1 \<and>
           [1 / 10, 1, 1, 1] ! (i + nat ([0, 1] ! i) * 2) > m_distThres demo_settings \<longrightarrow>
             a' ! i = -1 \<and>
             ts' ! i = (m_tracks demo_tracker ! i)
               \<lparr>m_skippedFrames := m_skippedFrames (m_tracks demo_tracker ! i) + 1\<rparr>) \<and>
          ([0, 1 :: int] ! i = -1 \<longrightarrow>
             a' ! i = -1 \<and>
             ts' ! i = (m_tracks demo_tracker ! i)
               \<lparr>m_skippedFrames := m_skippedFrames (m_tracks demo_tracker ! i) + 1\<rparr>)"
    by blast
  from g(2)[rule_format, of 1]
  have one: "a' ! 1 = -1" "ts' ! 1 = demo_track 2 4 (demo_region 300 300 1)"
    by (simp_all add: demo_settings_def demo_track_def)
  from g(2)[rule_format, of 0]
  have zero: "a' ! 0 = 0 \<and> ts' ! 0 = demo_track 0 0 (demo_region 10 10 1)"
    by (simp add: demo_settings_def)
  have slot: "slot_ok [demo_region 12 10 1] [] 0"
    by (simp add: slot_ok_def)
  with inst have "update_step demo_env demo_settings [demo_region 12 10 1] [] UMat_empty demo_frame 25
       [0] 0 [demo_track 0 7 (demo_region 10 10 1)] = Inr [demo_track 0 0 (demo_region 12 10 1)]"
    by (simp add: demo_env_def demo_track_def)
  moreover from inst demo_solver_contract
  have "\<exists>tr'. UpdateTrackingState demo_env demo_tracker [demo_region 12 10 1] demo_frame 25 = Inr tr'"
    by blast
  ultimately show ?thesis using g(1) one zero slot demo_solver_contract by blast
qed

section \<open>Track identifiers\<close>

lemma updated_id:
  "track_contract env \<Longrightarrow>
     m_trackID (updated env settings regions embs prev cur fps x t) = m_trackID t"
  by (simp add: updated_def track_contract_def Let_def)

lemma born_id:
  "track_contract env \<Longrightarrow> m_trackID (born env settings regions embs j tid) = tid"
  by (simp add: born_def track_contract_def)

lemma births_ids:
  assumes "track_contract env"
  shows "map m_trackID (births env settings regions embs js nid) = [nid..<nid + length js]"
proof -
  have "map m_trackID (births env settings regions embs js nid) =
        map snd (zip js [nid..<nid + length js])"
    by (simp add: births_def born_id[OF assms] case_prod_beta comp_def)
  then show ?thesis by simp
qed

lemma births_nth:
  "k < length js \<Longrightarrow>
     births env settings regions embs js nid ! k = born env settings regions embs (js ! k) (nid + k)"
  by (simp add: births_def)

lemma length_births [simp]: "length (births env settings regions embs js nid) = length js"
  by (simp add: births_def)

lemma gated_tracks_ids:
  "map m_trackID (gated_tracks settings N cost a ts) = map m_trackID ts"
  by (auto simp: gated_tracks_def skip_frame_def intro!: nth_equalityI)

lemma survivors_ids_distinct:
  assumes "length ts = length a" "distinct (map m_trackID ts)"
  shows "distinct (map (m_trackID \<circ> fst) (survivors env settings fps ts a))"
proof -
  have "map (m_trackID \<circ> fst) (zip ts a) = map m_trackID ts"
    using assms(1) by (simp flip: map_map)
  then show ?thesis
    using assms(2) unfolding survivors_def by (metis distinct_map_filter)
qed

lemma survivors_ids_subset:
  "set (map (m_trackID \<circ> fst) (survivors env settings fps ts a)) \<subseteq> set (map m_trackID ts)"
  using survivors_fst_subset[of env settings fps ts a] by auto

lemma frame_result_ids:
  assumes "track_contract env"
  shows "track_ids (frame_result env tr regions f fps embs ts1 a1) =
           map (m_trackID \<circ> fst) (survivors env (m_settings tr) fps ts1 a1) @
           [m_nextTrackID tr ..<
              m_nextTrackID tr +
              length (unassigned_regions (map snd (survivors env (m_settings tr) fps ts1 a1))
                        (length regions))]"
  using updated_id[OF assms] births_ids[OF assms]
  by (simp add: track_ids_def frame_result_def Let_def comp_def case_prod_beta)

lemma frame_result_nextTrackID:
  "m_nextTrackID (frame_result env tr regions f fps embs ts1 a1) =
     m_nextTrackID tr +
     length (unassigned_regions (map snd (survivors env (m_settings tr) fps ts1 a1)) (length regions))"
  by (simp add: frame_result_def Let_def)

text \<open>One frame: the live identifiers are those of survivors and fresh ones.\<close>

lemma Update_ids:
  assumes sc: "solver_contract env" and tc: "track_contract env"
  shows "\<exists>tr' kept_ids k.
     Update env tr regions f fps = Inr tr' \<and>
     m_nextTrackID tr' = m_nextTrackID tr + k \<and>
     track_ids tr' = kept_ids @ [m_nextTrackID tr ..< m_nextTrackID tr + k] \<and>
     set kept_ids \<subseteq> set (track_ids tr) \<and>
     (distinct (track_ids tr) \<longrightarrow> distinct kept_ids)"
proof -
  let ?N = "length (m_tracks tr)"
  from UpdateTrackingState_master[OF sc valid_schedule_upt, of tr regions f fps]
  obtain embs cost mc where m:
    "assignment_ok ?N (length regions)
       (SP_Solve env (m_SPCalculator tr) cost ?N (length regions) (replicate ?N (-1)) mc)"
    "UpdateTrackingState env tr regions f fps =
       Inr (frame_result env tr regions f fps embs
              (gated_tracks (m_settings tr) ?N cost
                 (SP_Solve env (m_SPCalculator tr) cost ?N (length regions) (replicate ?N (-1)) mc)
                 (m_tracks tr))
              (gated_assignment (m_settings tr) ?N cost
                 (SP_Solve env (m_SPCalculator tr) cost ?N (length regions) (replicate ?N (-1)) mc)))"
    unfolding UpdateTrackingState_def by blast
  let ?a0 = "SP_Solve env (m_SPCalculator tr) cost ?N (length regions) (replicate ?N (-1)) mc"
  let ?ts1 = "gated_tracks (m_settings tr) ?N cost ?a0 (m_tracks tr)"
  let ?a1 = "gated_assignment (m_settings tr) ?N cost ?a0"
  let ?res = "frame_result env tr regions f fps embs ?ts1 ?a1"
  let ?kept = "map (m_trackID \<circ> fst) (survivors env (m_settings tr) fps ?ts1 ?a1)"
  let ?k = "length (unassigned_regions (map snd (survivors env (m_settings tr) fps ?ts1 ?a1))
                        (length regions))"
  have len: "length ?ts1 = length ?a1" using m(1) by (simp add: assignment_ok_def)
  have ids1: "map m_trackID ?ts1 = track_ids tr"
    by (simp add: gated_tracks_ids track_ids_def)
  have upd: "Update env tr regions f fps = Inr (?res\<lparr>m_prevFrame := f\<rparr>)"
    using m(2) by (simp add: Update_def)
  have "track_ids (?res\<lparr>m_prevFrame := f\<rparr>) = track_ids ?res" by (simp add: track_ids_def)
  then have ids: "track_ids (?res\<lparr>m_prevFrame := f\<rparr>) =
      ?kept @ [m_nextTrackID tr ..< m_nextTrackID tr + ?k]"
    using frame_result_ids[OF tc, of tr regions f fps embs ?ts1 ?a1] by simp
  have nxt: "m_nextTrackID (?res\<lparr>m_prevFrame := f\<rparr>) = m_nextTrackID tr + ?k"
    by (simp add: frame_result_nextTrackID)
  have sub: "set ?kept \<subseteq> set (track_ids tr)"
    using survivors_ids_subset[of env "m_settings tr" fps ?ts1 ?a1] ids1 by simp
  have dis: "distinct (track_ids tr) \<longrightarrow> distinct ?kept"
    using survivors_ids_distinct[OF len, of env "m_settings tr" fps] ids1 by simp
  from upd nxt ids sub dis show ?thesis by blast
qed

lemma Update_ids_ok:
  assumes sc: "solver_contract env" and tc: "track_contract env"
  shows "\<exists>tr'. Update env tr regions f fps = Inr tr' \<and>
     m_nextTrackID tr \<le> m_nextTrackID tr' \<and>
     (ids_ok tr \<longrightarrow> ids_ok tr' \<and>
        (\<forall>x<m_nextTrackID tr. x \<notin> set (track_ids tr) \<longrightarrow> x \<notin> set (track_ids tr')))"
proof -
  from Update_ids[OF sc tc, of tr regions f fps] obtain tr' kept_ids k where u:
    "Update env tr regions f fps = Inr tr'"
    "m_nextTrackID tr' = m_nextTrackID tr + k"
    "track_ids tr' = kept_ids @ [m_nextTrackID tr ..< m_nextTrackID tr + k]"
    "set kept_ids \<subseteq> set (track_ids tr)"
    "distinct (track_ids tr) \<longrightarrow> distinct kept_ids"
    by blast
  have "ids_ok tr' \<and> (\<forall>x<m_nextTrackID tr. x \<notin> set (track_ids tr) \<longrightarrow> x \<notin> set (track_ids tr'))"
    if ok: "ids_ok tr"
  proof -
    from ok have d: "distinct (track_ids tr)" and b: "\<forall>x\<in>set (track_ids tr). x < m_nextTrackID tr"
      by (simp_all add: ids_ok_def list_all_iff)
    have kb: "\<forall>x\<in>set kept_ids. x < m_nextTrackID tr" using u(4) b by blast
    have "distinct (track_ids tr')"
      using u(5) d kb by (auto simp: u(3))
    moreover have "\<forall>x\<in>set (track_ids tr'). x < m_nextTrackID tr'"
      using u(2) kb by (auto simp: u(3))
    moreover have "\<forall>x<m_nextTrackID tr. x \<notin> set (track_ids tr) \<longrightarrow> x \<notin> set (track_ids tr')"
      using u(4) by (auto simp: u(3))
    ultimately show ?thesis by (simp add: ids_ok_def list_all_iff)
  qed
  with u(1,2) show ?thesis by auto
qed

lemma Updates_ids_ok:
  assumes sc: "solver_contract env" and tc: "track_contract env" and ok: "ids_ok tr"
  shows "\<exists>tr'. Updates env tr frames = Inr tr' \<and> ids_ok tr' \<and>
     m_nextTrackID tr \<le> m_nextTrackID tr' \<and>
     (\<forall>x<m_nextTrackID tr. x \<notin> set (track_ids tr) \<longrightarrow> x \<notin> set (track_ids tr'))"
  using ok
proof (induction frames arbitrary: tr)
  case Nil
  then show ?case by simp
next
  case (Cons fr frames)
  obtain regions f fps where fr: "fr = (regions, f, fps)" by (cases fr)
  from Update_ids_ok[OF sc tc, of tr regions f fps] Cons.prems obtain tr1 where t1:
    "Update env tr regions f fps = Inr tr1" "m_nextTrackID tr \<le> m_nextTrackID tr1" "ids_ok tr1"
    "\<forall>x<m_nextTrackID tr. x \<notin> set (track_ids tr) \<longrightarrow> x \<notin> set (track_ids tr1)"
    by blast
  from Cons.IH[OF t1(3)] obtain tr' where t2:
    "Updates env tr1 frames = Inr tr'" "ids_ok tr'" "m_nextTrackID tr1 \<le> m_nextTrackID tr'"
    "\<forall>x<m_nextTrackID tr1. x \<notin> set (track_ids tr1) \<longrightarrow> x \<notin> set (track_ids tr')"
    by blast
  have "\<forall>x<m_nextTrackID tr. x \<notin> set (track_ids tr) \<longrightarrow> x \<notin> set (track_ids tr')"
    using t1(2,4) t2(4) by (meson less_le_trans)
  with t1 t2 fr show ?case by auto
qed

lemma ids_ok_new [simp]: "ids_ok (CTracker_new env settings)"
  by (simp add: ids_ok_def track_ids_def)

section \<open>Retirement\<close>

lemma demo_track_contract: "track_contract demo_env"
  by (simp add: track_contract_def demo_env_def)

lemma retired_id_not_kept:
  assumes len: "length ts1 = length a1" and d: "distinct (map m_trackID ts1)"
    and i: "i < length ts1" and r: "retire_cond env settings fps (ts1 ! i)"
  shows "m_trackID (ts1 ! i) \<notin> set (map (m_trackID \<circ> fst) (survivors env settings fps ts1 a1))"
proof
  assume "m_trackID (ts1 ! i) \<in> set (map (m_trackID \<circ> fst) (survivors env settings fps ts1 a1))"
  then obtain t x where tx: "(t, x) \<in> set (survivors env settings fps ts1 a1)"
    "m_trackID t = m_trackID (ts1 ! i)" by auto
  then have keep: "\<not> retire_cond env settings fps t" and "t \<in> set ts1"
    by (auto simp: survivors_def dest: set_zip_leftD)
  then obtain j where j: "j < length ts1" "t = ts1 ! j" by (auto simp: in_set_conv_nth)
  have "map m_trackID ts1 ! j = map m_trackID ts1 ! i" using j i tx(2) by simp
  then have "j = i"
    using nth_eq_iff_index_eq[OF d, of j i] j(1) i by simp
  with j(2) r keep show False by simp
qed

text \<open>
  Claim C2.  The retirement loop, started on tracks and assignment of equal length, returns
  exactly the pairs (track, slot) whose track fails all three tests (skipped frames above
  the maximum, out of the frame, static timeout at \<open>cvRound (fps * (max - min))\<close>), in
  their order: a track is erased exactly when one test holds, and its slot is erased with
  it.  After \<^verbatim>\<open>UpdateTrackingState\<close> the track vector consists of the updated survivors
  followed by the newborn tracks; when identifiers are unique, the identifier of a track
  that met a test after gating is not among the live identifiers any more.
\<close>

theorem retirement_lock_step:
  "(length a = length ts \<longrightarrow>
      retire_loop env settings fps 0 ts a =
        Inr (map fst (survivors env settings fps ts a), map snd (survivors env settings fps ts a))) \<and>
   survivors env settings fps ts a =
     filter (\<lambda>(t, x). \<not> (m_skippedFrames t > m_maximumAllowedSkippedFrames settings \<or>
                          IsOutOfTheFrame env t \<or>
                          IsStaticTimeout env t
                            (cvRound env (fps * real_of_int (m_maxStaticTime settings -
                                                              m_minStaticTime settings)))))
       (zip ts a) \<and>
   (solver_contract env \<longrightarrow>
      (\<exists>embs1 cost maxCost a0 ts1 a1 tr'.
         CalcEmbeddins env tr [] regions currFrame = Inr embs1 \<and>
         CreateDistaceMatrix env tr regions embs1
           (replicate (length (m_tracks tr) * length regions) 0)
           (max_possible_cost currFrame) = Inr (cost, maxCost) \<and>
         length cost = length (m_tracks tr) * length regions \<and>
         a0 = SP_Solve env (m_SPCalculator tr) cost (length (m_tracks tr)) (length regions)
                (replicate (length (m_tracks tr)) (-1)) maxCost \<and>
         gating (m_settings tr) (length (m_tracks tr)) cost a0 (m_tracks tr) = Inr (a1, ts1) \<and>
         length ts1 = length (m_tracks tr) \<and> length a1 = length (m_tracks tr) \<and>
         UpdateTrackingState env tr regions currFrame fps = Inr tr' \<and>
         m_tracks tr' =
           map (\<lambda>(t, x). updated env (m_settings tr) regions embs1 (m_prevFrame tr) currFrame fps x t)
             (survivors env (m_settings tr) fps ts1 a1) @
           births env (m_settings tr) regions embs1
             (unassigned_regions (map snd (survivors env (m_settings tr) fps ts1 a1))
                (length regions))
             (m_nextTrackID tr) \<and>
         (track_contract env \<and> ids_ok tr \<longrightarrow>
            (\<forall>i<length (m_tracks tr).
               retire_cond env (m_settings tr) fps (ts1 ! i) \<longrightarrow>
                 m_trackID (m_tracks tr ! i) \<notin> set (track_ids tr')))))"
proof (intro conjI impI)
  assume "length a = length ts"
  then show "retire_loop env settings fps 0 ts a =
        Inr (map fst (survivors env settings fps ts a), map snd (survivors env settings fps ts a))"
    using retire_loop_eq[of a ts 0 env settings fps] by simp
next
  show "survivors env settings fps ts a =
     filter (\<lambda>(t, x). \<not> (m_skippedFrames t > m_maximumAllowedSkippedFrames settings \<or>
                          IsOutOfTheFrame env t \<or>
                          IsStaticTimeout env t
                            (cvRound env (fps * real_of_int (m_maxStaticTime settings -
                                                              m_minStaticTime settings)))))
       (zip ts a)"
    by (simp add: survivors_def retire_cond_def)
next
  assume sc: "solver_contract env"
  let ?N = "length (m_tracks tr)"
  from UpdateTrackingState_master[OF sc valid_schedule_upt, of tr regions currFrame fps]
  obtain embs1 cost mc where m:
    "CalcEmbeddins env tr [] regions currFrame = Inr embs1"
    "CreateDistaceMatrix env tr regions embs1 (replicate (?N * length regions) 0)
       (max_possible_cost currFrame) = Inr (cost, mc)"
    "length cost = ?N * length regions"
    "assignment_ok ?N (length regions)
       (SP_Solve env (m_SPCalculator tr) cost ?N (length regions) (replicate ?N (-1)) mc)"
    "UpdateTrackingState env tr regions currFrame fps =
       Inr (frame_result env tr regions currFrame fps embs1
              (gated_tracks (m_settings tr) ?N cost
                 (SP_Solve env (m_SPCalculator tr) cost ?N (length regions) (replicate ?N (-1)) mc)
                 (m_tracks tr))
              (gated_assignment (m_settings tr) ?N cost
                 (SP_Solve env (m_SPCalculator tr) cost ?N (length regions) (replicate ?N (-1)) mc)))"
    unfolding UpdateTrackingState_def by blast
  let ?a0 = "SP_Solve env (m_SPCalculator tr) cost ?N (length regions) (replicate ?N (-1)) mc"
  let ?ts1 = "gated_tracks (m_settings tr) ?N cost ?a0 (m_tracks tr)"
  let ?a1 = "gated_assignment (m_settings tr) ?N cost ?a0"
  let ?res = "frame_result env tr regions currFrame fps embs1 ?ts1 ?a1"
  have la: "length ?a0 = ?N" using m(4) by (simp add: assignment_ok_def)
  have slots: "\<forall>i<length ?a0. ?a0 ! i = -1 \<or> (0 \<le> ?a0 ! i \<and> i + nat (?a0 ! i) * ?N < length cost)"
  proof (intro allI impI)
    fix i assume "i < length ?a0"
    then have iN: "i < ?N" using la by simp
    from assignment_ok_nth[OF m(4) iN]
    show "?a0 ! i = -1 \<or> (0 \<le> ?a0 ! i \<and> i + nat (?a0 ! i) * ?N < length cost)"
    proof
      assume "?a0 ! i = -1" then show ?thesis by simp
    next
      assume r: "0 \<le> ?a0 ! i \<and> ?a0 ! i < int (length regions)"
      then have "nat (?a0 ! i) < length regions" by linarith
      from idx_bound[OF iN this] r m(3) show ?thesis by simp
    qed
  qed
  have g: "gating (m_settings tr) ?N cost ?a0 (m_tracks tr) = Inr (?a1, ?ts1)"
    using la slots by (intro gating_total) simp_all
  have tracks: "m_tracks ?res =
           map (\<lambda>(t, x). updated env (m_settings tr) regions embs1 (m_prevFrame tr) currFrame fps x t)
             (survivors env (m_settings tr) fps ?ts1 ?a1) @
           births env (m_settings tr) regions embs1
             (unassigned_regions (map snd (survivors env (m_settings tr) fps ?ts1 ?a1))
                (length regions))
             (m_nextTrackID tr)"
    by (simp add: frame_result_def Let_def)
  have absent: "\<forall>i<?N. retire_cond env (m_settings tr) fps (?ts1 ! i) \<longrightarrow>
                 m_trackID (m_tracks tr ! i) \<notin> set (track_ids ?res)"
    if h: "track_contract env \<and> ids_ok tr"
  proof (intro allI impI)
    fix i assume i: "i < ?N" and r: "retire_cond env (m_settings tr) fps (?ts1 ! i)"
    have ids1: "map m_trackID ?ts1 = track_ids tr"
      by (simp add: gated_tracks_ids track_ids_def)
    have idi: "m_trackID (?ts1 ! i) = m_trackID (m_tracks tr ! i)"
      using i arg_cong[OF ids1, of "\<lambda>l. l ! i"] by (simp add: track_ids_def)
    have d: "distinct (map m_trackID ?ts1)" using h ids1 by (simp add: ids_ok_def)
    have "m_trackID (?ts1 ! i) \<notin>
          set (map (m_trackID \<circ> fst) (survivors env (m_settings tr) fps ?ts1 ?a1))"
      using i la r d by (intro retired_id_not_kept) simp_all
    moreover have "m_trackID (m_tracks tr ! i) < m_nextTrackID tr"
      using h i by (simp add: ids_ok_def list_all_length track_ids_def)
    ultimately show "m_trackID (m_tracks tr ! i) \<notin> set (track_ids ?res)"
      using h idi frame_result_ids[of env tr regions currFrame fps embs1 ?ts1 ?a1] by auto
  qed
  show "\<exists>embs1 cost maxCost a0 ts1 a1 tr'.
         CalcEmbeddins env tr [] regions currFrame = Inr embs1 \<and>
         CreateDistaceMatrix env tr regions embs1
           (replicate (length (m_tracks tr) * length regions) 0)
           (max_possible_cost currFrame) = Inr (cost, maxCost) \<and>
         length cost = length (m_tracks tr) * length regions \<and>
         a0 = SP_Solve env (m_SPCalculator tr) cost (length (m_tracks tr)) (length regions)
                (replicate (length (m_tracks tr)) (-1)) maxCost \<and>
         gating (m_settings tr) (length (m_tracks tr)) cost a0 (m_tracks tr) = Inr (a1, ts1) \<and>
         length ts1 = length (m_tracks tr) \<and> length a1 = length (m_tracks tr) \<and>
         UpdateTrackingState env tr regions currFrame fps = Inr tr' \<and>
         m_tracks tr' =
           map (\<lambda>(t, x). updated env (m_settings tr) regions embs1 (m_prevFrame tr) currFrame fps x t)
             (survivors env (m_settings tr) fps ts1 a1) @
           births env (m_settings tr) regions embs1
             (unassigned_regions (map snd (survivors env (m_settings tr) fps ts1 a1))
                (length regions))
             (m_nextTrackID tr) \<and>
         (track_contract env \<and> ids_ok tr \<longrightarrow>
            (\<forall>i<length (m_tracks tr).
               retire_cond env (m_settings tr) fps (ts1 ! i) \<longrightarrow>
                 m_trackID (m_tracks tr ! i) \<notin> set (track_ids tr')))"
    apply (rule exI[of _ embs1], rule exI[of _ cost], rule exI[of _ mc], rule exI[of _ ?a0])
    apply (rule exI[of _ ?ts1], rule exI[of _ ?a1], rule exI[of _ ?res])
    using m(1,2,3,5) g la tracks absent by simp
qed

theorem retirement_lock_step_witness:
  "retire_loop demo_env demo_settings 25 0
     [demo_track 0 0 (demo_region 10 10 1), demo_track 2 4 (demo_region 300 300 1)] [0, -1]
     = Inr ([demo_track 0 0 (demo_region 10 10 1)], [0]) \<and>
   solver_contract demo_env \<and> track_contract demo_env \<and> ids_ok demo_tracker \<and>
   (\<exists>tr'. UpdateTrackingState demo_env demo_tracker [demo_region 12 10 1] demo_frame 25 = Inr tr' \<and>
          2 \<notin> set (track_ids tr'))"
proof -
  let ?ts = "[demo_track 0 0 (demo_region 10 10 1), demo_track 2 4 (demo_region 300 300 1)]"
  note inst = retirement_lock_step[where a = "[0, -1]" and ts = ?ts and env = demo_env
      and settings = demo_settings and fps = 25 and tr = demo_tracker
      and regions = "[demo_region 12 10 1]" and currFrame = demo_frame]
  have surv: "survivors demo_env demo_settings 25 ?ts [0, -1]
      = [(demo_track 0 0 (demo_region 10 10 1), 0)]"
    using inst by (simp add: demo_env_def demo_settings_def demo_track_def)
  have loop: "retire_loop demo_env demo_settings 25 0 ?ts [0, -1]
      = Inr ([demo_track 0 0 (demo_region 10 10 1)], [0])"
    using inst surv by simp
  have ok: "ids_ok demo_tracker"
    by (simp add: ids_ok_def track_ids_def demo_track_def)
  from inst demo_solver_contract obtain cost maxCost ts1 a1 tr' where r:
    "length cost = length (m_tracks demo_tracker) * length [demo_region 12 10 1]"
    "gating (m_settings demo_tracker) (length (m_tracks demo_tracker)) cost
       (SP_Solve demo_env (m_SPCalculator demo_tracker) cost (length (m_tracks demo_tracker))
          (length [demo_region 12 10 1]) (replicate (length (m_tracks demo_tracker)) (-1)) maxCost)
       (m_tracks demo_tracker) = Inr (a1, ts1)"
    "UpdateTrackingState demo_env demo_tracker [demo_region 12 10 1] demo_frame 25 = Inr tr'"
    "track_contract demo_env \<and> ids_ok demo_tracker \<longrightarrow>
       (\<forall>i<length (m_tracks demo_tracker).
          retire_cond demo_env (m_settings demo_tracker) 25 (ts1 ! i) \<longrightarrow>
            m_trackID (m_tracks demo_tracker ! i) \<notin> set (track_ids tr'))"
    by blast
  have a0: "SP_Solve demo_env (m_SPCalculator demo_tracker) cost (length (m_tracks demo_tracker))
          (length [demo_region 12 10 1]) (replicate (length (m_tracks demo_tracker)) (-1)) maxCost
        = [0, -1]"
    by (simp add: SP_Solve_def demo_env_def demo_solver_def upt_rec)
  have "gating demo_settings (length (m_tracks demo_tracker)) cost [0, -1] (m_tracks demo_tracker) =
      Inr (gated_assignment demo_settings (length (m_tracks demo_tracker)) cost [0, -1],
           gated_tracks demo_settings (length (m_tracks demo_tracker)) cost [0, -1]
             (m_tracks demo_tracker))"
    using r(1) by (intro gating_total) (simp_all add: less_Suc_eq)
  with r(2) a0 have "ts1 = gated_tracks demo_settings (length (m_tracks demo_tracker)) cost [0, -1]
      (m_tracks demo_tracker)"
    by simp
  then have "ts1 ! 1 = demo_track 2 4 (demo_region 300 300 1)"
    by (simp add: gated_tracks_nth skip_frame_def demo_track_def)
  then have "retire_cond demo_env (m_settings demo_tracker) 25 (ts1 ! 1)"
    by (simp add: retire_cond_def demo_settings_def demo_track_def)
  with r(4) demo_track_contract ok have "2 \<notin> set (track_ids tr')"
    by (auto simp: demo_track_def dest!: spec[of _ 1])
  with loop demo_solver_contract demo_track_contract ok r(3) show ?thesis by blast
qed

section \<open>Birth and identity\<close>

lemma UpdateTrackingState_births:
  assumes sc: "solver_contract env"
  shows "\<exists>embs kept tr'.
     CalcEmbeddins env tr [] regions f = Inr embs \<and>
     associate env tr regions embs f fps (replicate (length (m_tracks tr)) (-1)) =
       Inr (map fst kept, map snd kept) \<and>
     UpdateTrackingState env tr regions f fps = Inr tr' \<and>
     m_nextTrackID tr' =
       m_nextTrackID tr + length (unassigned_regions (map snd kept) (length regions)) \<and>
     length (m_tracks tr') =
       length kept + length (unassigned_regions (map snd kept) (length regions)) \<and>
     drop (length kept) (m_tracks tr') =
       births env (m_settings tr) regions embs
         (unassigned_regions (map snd kept) (length regions)) (m_nextTrackID tr)"
proof -
  let ?N = "length (m_tracks tr)"
  from UpdateTrackingState_master[OF sc valid_schedule_upt, of tr regions f fps]
  obtain embs cost mc where m:
    "CalcEmbeddins env tr [] regions f = Inr embs"
    "CreateDistaceMatrix env tr regions embs (replicate (?N * length regions) 0)
       (max_possible_cost f) = Inr (cost, mc)"
    "length cost = ?N * length regions"
    "UpdateTrackingState env tr regions f fps =
       Inr (frame_result env tr regions f fps embs
              (gated_tracks (m_settings tr) ?N cost
                 (SP_Solve env (m_SPCalculator tr) cost ?N (length regions) (replicate ?N (-1)) mc)
                 (m_tracks tr))
              (gated_assignment (m_settings tr) ?N cost
                 (SP_Solve env (m_SPCalculator tr) cost ?N (length regions) (replicate ?N (-1)) mc)))"
    unfolding UpdateTrackingState_def by blast
  let ?a0 = "SP_Solve env (m_SPCalculator tr) cost ?N (length regions) (replicate ?N (-1)) mc"
  let ?ts1 = "gated_tracks (m_settings tr) ?N cost ?a0 (m_tracks tr)"
  let ?a1 = "gated_assignment (m_settings tr) ?N cost ?a0"
  let ?kept = "survivors env (m_settings tr) fps ?ts1 ?a1"
  let ?res = "frame_result env tr regions f fps embs ?ts1 ?a1"
  have assoc: "associate env tr regions embs f fps (replicate ?N (-1)) =
      Inr (map fst ?kept, map snd ?kept)"
    using associate_eq[OF sc m(2) m(3), of fps] by (simp add: Let_def)
  have "m_nextTrackID ?res =
       m_nextTrackID tr + length (unassigned_regions (map snd ?kept) (length regions))"
    by (rule frame_result_nextTrackID)
  moreover have "length (m_tracks ?res) =
       length ?kept + length (unassigned_regions (map snd ?kept) (length regions))"
    by (simp add: frame_result_def Let_def)
  moreover have "drop (length ?kept) (m_tracks ?res) =
       births env (m_settings tr) regions embs
         (unassigned_regions (map snd ?kept) (length regions)) (m_nextTrackID tr)"
    by (simp add: frame_result_def Let_def)
  ultimately show ?thesis using m(1,4) assoc by blast
qed

text \<open>
  Claim C3.  A fresh tracker has no tracks and next identifier 0.  The birth loop appends,
  for every region index absent from the assignment (in increasing order), exactly one
  track built from that region, the \<open>k\<close>-th of them with identifier \<open>nid + k\<close>, and
  leaves the counter at \<open>nid\<close> plus their number.  \<^verbatim>\<open>UpdateTrackingState\<close> runs this loop
  on the assignment that retirement leaves and on the counter of the tracker: its result
  ends with these tracks, after the survivors.  Provided the track class stores the
  identifier it is constructed with and keeps it on update: a call of \<^verbatim>\<open>Update\<close> never
  decreases the counter, keeps the live identifiers pairwise distinct and below the
  counter, and never brings back an identifier that was issued and is no longer live; the
  same holds after any sequence of calls, in particular from a fresh tracker.
\<close>

theorem track_identifiers:
  assumes sc: "solver_contract env" and tc: "track_contract env"
  shows "m_nextTrackID (CTracker_new env settings) = 0 \<and>
     m_tracks (CTracker_new env settings) = [] \<and>
     (embs = [] \<or> length embs = length regions \<longrightarrow>
        for_each [0..<length regions] (birth_step env st regions embs a) (ts, nid) =
          Inr (ts @ births env st regions embs (unassigned_regions a (length regions)) nid,
               nid + length (unassigned_regions a (length regions))) \<and>
        length (births env st regions embs (unassigned_regions a (length regions)) nid) =
          length (unassigned_regions a (length regions)) \<and>
        (\<forall>k<length (unassigned_regions a (length regions)).
           births env st regions embs (unassigned_regions a (length regions)) nid ! k =
             born env st regions embs (unassigned_regions a (length regions) ! k) (nid + k) \<and>
           m_trackID (births env st regions embs (unassigned_regions a (length regions)) nid ! k) =
             nid + k)) \<and>
     unassigned_regions a (length regions) = filter (\<lambda>j. int j \<notin> set a) [0..<length regions] \<and>
     (\<exists>embs1 kept tr'.
        CalcEmbeddins env tr [] regions currFrame = Inr embs1 \<and>
        associate env tr regions embs1 currFrame fps (replicate (length (m_tracks tr)) (-1)) =
          Inr (map fst kept, map snd kept) \<and>
        UpdateTrackingState env tr regions currFrame fps = Inr tr' \<and>
        m_nextTrackID tr' =
          m_nextTrackID tr + length (unassigned_regions (map snd kept) (length regions)) \<and>
        length (m_tracks tr') =
          length kept + length (unassigned_regions (map snd kept) (length regions)) \<and>
        drop (length kept) (m_tracks tr') =
          births env (m_settings tr) regions embs1
            (unassigned_regions (map snd kept) (length regions)) (m_nextTrackID tr)) \<and>
     (\<exists>tr'. Update env tr regions currFrame fps = Inr tr' \<and>
        m_nextTrackID tr \<le> m_nextTrackID tr' \<and>
        (ids_ok tr \<longrightarrow>
           ids_ok tr' \<and>
           (\<forall>x<m_nextTrackID tr. x \<notin> set (track_ids tr) \<longrightarrow> x \<notin> set (track_ids tr')))) \<and>
     (\<exists>tr'. Updates env (CTracker_new env settings) frames = Inr tr' \<and> ids_ok tr') \<and>
     (ids_ok tr \<longrightarrow>
        (\<exists>tr'. Updates env tr frames = Inr tr' \<and> ids_ok tr' \<and>
           m_nextTrackID tr \<le> m_nextTrackID tr' \<and>
           (\<forall>x<m_nextTrackID tr. x \<notin> set (track_ids tr) \<longrightarrow> x \<notin> set (track_ids tr'))))"
proof -
  let ?js = "unassigned_regions a (length regions)"
  have birth: "embs = [] \<or> length embs = length regions \<longrightarrow>
        for_each [0..<length regions] (birth_step env st regions embs a) (ts, nid) =
          Inr (ts @ births env st regions embs ?js nid, nid + length ?js) \<and>
        length (births env st regions embs ?js nid) = length ?js \<and>
        (\<forall>k<length ?js.
           births env st regions embs ?js nid ! k = born env st regions embs (?js ! k) (nid + k) \<and>
           m_trackID (births env st regions embs ?js nid ! k) = nid + k)"
  proof
    assume e: "embs = [] \<or> length embs = length regions"
    have "for_each [0..<length regions] (birth_step env st regions embs a) (ts, nid) =
          Inr (ts @ births env st regions embs ?js nid, nid + length ?js)"
      using birth_loop_eq[of "[0..<length regions]" regions embs env st a ts nid] e
      by (auto simp: unassigned_regions_def)
    then show "for_each [0..<length regions] (birth_step env st regions embs a) (ts, nid) =
          Inr (ts @ births env st regions embs ?js nid, nid + length ?js) \<and>
        length (births env st regions embs ?js nid) = length ?js \<and>
        (\<forall>k<length ?js.
           births env st regions embs ?js nid ! k = born env st regions embs (?js ! k) (nid + k) \<and>
           m_trackID (births env st regions embs ?js nid ! k) = nid + k)"
      by (simp add: births_nth born_id[OF tc])
  qed
  have one: "\<exists>tr'. Update env tr regions currFrame fps = Inr tr' \<and>
        m_nextTrackID tr \<le> m_nextTrackID tr' \<and>
        (ids_ok tr \<longrightarrow>
           ids_ok tr' \<and>
           (\<forall>x<m_nextTrackID tr. x \<notin> set (track_ids tr) \<longrightarrow> x \<notin> set (track_ids tr')))"
    using sc tc by (rule Update_ids_ok)
  have fresh: "\<exists>tr'. Updates env (CTracker_new env settings) frames = Inr tr' \<and> ids_ok tr'"
    using Updates_ids_ok[OF sc tc ids_ok_new[of env settings], of frames] by blast
  have run: "ids_ok tr \<longrightarrow>
        (\<exists>tr'. Updates env tr frames = Inr tr' \<and> ids_ok tr' \<and>
           m_nextTrackID tr \<le> m_nextTrackID tr' \<and>
           (\<forall>x<m_nextTrackID tr. x \<notin> set (track_ids tr) \<longrightarrow> x \<notin> set (track_ids tr')))"
    using Updates_ids_ok[OF sc tc, of tr frames] by blast
  have js: "?js = filter (\<lambda>j. int j \<notin> set a) [0..<length regions]"
    by (simp add: unassigned_regions_def)
  have frame: "\<exists>embs1 kept tr'.
        CalcEmbeddins env tr [] regions currFrame = Inr embs1 \<and>
        associate env tr regions embs1 currFrame fps (replicate (length (m_tracks tr)) (-1)) =
          Inr (map fst kept, map snd kept) \<and>
        UpdateTrackingState env tr regions currFrame fps = Inr tr' \<and>
        m_nextTrackID tr' =
          m_nextTrackID tr + length (unassigned_regions (map snd kept) (length regions)) \<and>
        length (m_tracks tr') =
          length kept + length (unassigned_regions (map snd kept) (length regions)) \<and>
        drop (length kept) (m_tracks tr') =
          births env (m_settings tr) regions embs1
            (unassigned_regions (map snd kept) (length regions)) (m_nextTrackID tr)"
    using sc by (rule UpdateTrackingState_births)
  have c0: "m_nextTrackID (CTracker_new env settings) = 0" "m_tracks (CTracker_new env settings) = []"
    by simp_all
  from c0 birth js frame one fresh run show ?thesis by (intro conjI) assumption+
qed

theorem track_identifiers_witness:
  "solver_contract demo_env \<and> track_contract demo_env \<and> ids_ok demo_tracker \<and>
   for_each [0..<length [demo_region 12 10 1, demo_region 100 100 1]]
     (birth_step demo_env demo_settings [demo_region 12 10 1, demo_region 100 100 1] [] [0])
     ([demo_track 0 0 (demo_region 10 10 1)], 3)
     = Inr ([demo_track 0 0 (demo_region 10 10 1), demo_track 3 0 (demo_region 100 100 1)], 4) \<and>
   (\<exists>tr'. Updates demo_env demo_tracker
            [([demo_region 12 10 1, demo_region 100 100 1], demo_frame, 25), ([], demo_frame, 25)]
          = Inr tr' \<and>
          ids_ok tr' \<and> 3 \<le> m_nextTrackID tr' \<and> 1 \<notin> set (track_ids tr'))"
proof -
  note inst = track_identifiers[OF demo_solver_contract demo_track_contract,
      where embs = "[]" and regions = "[demo_region 12 10 1, demo_region 100 100 1]"
        and st = demo_settings and a = "[0]" and ts = "[demo_track 0 0 (demo_region 10 10 1)]"
        and nid = 3 and tr = demo_tracker
        and frames = "[([demo_region 12 10 1, demo_region 100 100 1], demo_frame, 25),
                       ([], demo_frame, 25)]"]
  have ok: "ids_ok demo_tracker"
    by (simp add: ids_ok_def track_ids_def demo_track_def)
  have js: "unassigned_regions [0] (length [demo_region 12 10 1, demo_region 100 100 1]) = [1]"
    by (simp add: unassigned_regions_def upt_rec)
  have "for_each [0..<length [demo_region 12 10 1, demo_region 100 100 1]]
     (birth_step demo_env demo_settings [demo_region 12 10 1, demo_region 100 100 1] [] [0])
     ([demo_track 0 0 (demo_region 10 10 1)], 3)
     = Inr ([demo_track 0 0 (demo_region 10 10 1)] @
            births demo_env demo_settings [demo_region 12 10 1, demo_region 100 100 1] [] [1] 3,
            3 + length [1::nat])"
    using inst js by simp
  then have loop: "for_each [0..<length [demo_region 12 10 1, demo_region 100 100 1]]
     (birth_step demo_env demo_settings [demo_region 12 10 1, demo_region 100 100 1] [] [0])
     ([demo_track 0 0 (demo_region 10 10 1)], 3)
     = Inr ([demo_track 0 0 (demo_region 10 10 1), demo_track 3 0 (demo_region 100 100 1)], 4)"
    by (simp add: births_def born_def demo_env_def demo_track_def)
  from inst ok obtain tr' where r:
    "Updates demo_env demo_tracker
       [([demo_region 12 10 1, demo_region 100 100 1], demo_frame, 25), ([], demo_frame, 25)]
       = Inr tr'"
    "ids_ok tr'" "m_nextTrackID demo_tracker \<le> m_nextTrackID tr'"
    "\<forall>x<m_nextTrackID demo_tracker. x \<notin> set (track_ids demo_tracker) \<longrightarrow> x \<notin> set (track_ids tr')"
    by blast
  from r(4) have "1 \<notin> set (track_ids tr')"
    by (simp add: track_ids_def demo_track_def)
  with r(1,2,3) loop ok demo_solver_contract demo_track_contract show ?thesis by auto
qed

section \<open>The terms of the cost\<close>


lemma region_dist_accepted:
  assumes "CheckType settings (m_type (m_lastRegion track)) (m_type reg)" and "j < length embs"
  shows "region_dist env settings embs mpc track area j reg =
     Inr ((if m_distType settings DistCenters > 0 then
             (if IsInsideArea env track (rr_center (m_rrect reg)) area > 1
              then m_distType settings DistCenters * 1
              else m_distType settings DistCenters *
                     IsInsideArea env track (rr_center (m_rrect reg)) area)
           else 0) +
          (if m_distType settings DistRects > 0 then
             (if IsInsideArea env track (rr_center (m_rrect reg)) area < 1
              then m_distType settings DistRects *
                     (1 - (1 - IsInsideArea env track (rr_center (m_rrect reg)) area) *
                          (WidthDist env track reg + HeightDist env track reg) * 0.5)
              else m_distType settings DistRects * 1)
           else 0) +
          (if m_distType settings DistJaccard > 0
           then m_distType settings DistJaccard * CalcDistJaccard env track reg else 0) +
          (if m_distType settings DistHist > 0
           then m_distType settings DistHist * CalcDistHist env track (embs ! j) else 0) +
          (if m_distType settings DistFeatureCos > 0 \<and> m_type reg = m_type (m_lastRegion track)
           then m_distType settings DistFeatureCos * CalcCosine env track (embs ! j) else 0))"
  using assms
  by (simp add: region_dist_def add_centers_def add_rects_def add_jaccard_def add_hist_def
      add_cosine_def Let_def DistCenters_def DistRects_def DistJaccard_def DistHist_def
      DistFeatureCos_def eval_nat_numeral)

text \<open>
  Claim C5.  For a pair the type test accepts, the loop body computes the sum, in this
  order, of: the Centers term (\<open>w_c * 1\<close> when \<open>e > 1\<close>, \<open>w_c * e\<close> otherwise), the Rects
  term (\<open>w_r * (1 - (1 - e) * (dw + dh) * 0.5)\<close> when \<open>e < 1\<close>, \<open>w_r * 1\<close> otherwise), the
  Jaccard term, the Hist term, and the FeatureCos term, which is present only when the
  type of the region equals the type of the track's last region; each term is present only
  under a positive weight and is 0 otherwise.  Here \<open>e\<close> is \<^verbatim>\<open>IsInsideArea\<close> of the region's
  centre in the given area; the matrix built by \<^verbatim>\<open>CreateDistaceMatrix\<close> holds at
  \<open>i + j * N\<close> this value for track \<open>i\<close>, region \<open>j\<close> and the prediction ellipse of track
  \<open>i\<close>.
\<close>

theorem cost_terms:
  assumes "CheckType settings (m_type (m_lastRegion track)) (m_type reg)"
    and "j < length regionEmbeddings"
  shows "region_dist env settings regionEmbeddings maxPossibleCost track predictedArea j reg =
     Inr ((if m_distType settings DistCenters > 0 then
             (if IsInsideArea env track (rr_center (m_rrect reg)) predictedArea > 1
              then m_distType settings DistCenters * 1
              else m_distType settings DistCenters *
                     IsInsideArea env track (rr_center (m_rrect reg)) predictedArea)
           else 0) +
          (if m_distType settings DistRects > 0 then
             (if IsInsideArea env track (rr_center (m_rrect reg)) predictedArea < 1
              then m_distType settings DistRects *
                     (1 - (1 - IsInsideArea env track (rr_center (m_rrect reg)) predictedArea) *
                          (WidthDist env track reg + HeightDist env track reg) * 0.5)
              else m_distType settings DistRects * 1)
           else 0) +
          (if m_distType settings DistJaccard > 0
           then m_distType settings DistJaccard * CalcDistJaccard env track reg else 0) +
          (if m_distType settings DistHist > 0
           then m_distType settings DistHist * CalcDistHist env track (regionEmbeddings ! j)
           else 0) +
          (if m_distType settings DistFeatureCos > 0 \<and> m_type reg = m_type (m_lastRegion track)
           then m_distType settings DistFeatureCos * CalcCosine env track (regionEmbeddings ! j)
           else 0)) \<and>
     (length regionEmbeddings = length regions \<and>
      length costMatrix = length (m_tracks tr) * length regions \<longrightarrow>
      (\<exists>costMatrix' maxCost.
         CreateDistaceMatrix env tr regions regionEmbeddings costMatrix maxPossibleCost
           = Inr (costMatrix', maxCost) \<and>
         (\<forall>i<length (m_tracks tr). \<forall>k<length regions.
            region_dist env (m_settings tr) regionEmbeddings maxPossibleCost (m_tracks tr ! i)
              (CalcPredictionEllipse env (m_tracks tr ! i)
                 (min_radius (m_settings tr) (m_tracks tr ! i)))
              k (regions ! k) = Inr (costMatrix' ! (i + k * length (m_tracks tr))))))"
proof (intro conjI impI)
  show "region_dist env settings regionEmbeddings maxPossibleCost track predictedArea j reg =
     Inr ((if m_distType settings DistCenters > 0 then
             (if IsInsideArea env track (rr_center (m_rrect reg)) predictedArea > 1
              then m_distType settings DistCenters * 1
              else m_distType settings DistCenters *
                     IsInsideArea env track (rr_center (m_rrect reg)) predictedArea)
           else 0) +
          (if m_distType settings DistRects > 0 then
             (if IsInsideArea env track (rr_center (m_rrect reg)) predictedArea < 1
              then m_distType settings DistRects *
                     (1 - (1 - IsInsideArea env track (rr_center (m_rrect reg)) predictedArea) *
                          (WidthDist env track reg + HeightDist env track reg) * 0.5)
              else m_distType settings DistRects * 1)
           else 0) +
          (if m_distType settings DistJaccard > 0
           then m_distType settings DistJaccard * CalcDistJaccard env track reg else 0) +
          (if m_distType settings DistHist > 0
           then m_distType settings DistHist * CalcDistHist env track (regionEmbeddings ! j)
           else 0) +
          (if m_distType settings DistFeatureCos > 0 \<and> m_type reg = m_type (m_lastRegion track)
           then m_distType settings DistFeatureCos * CalcCosine env track (regionEmbeddings ! j)
           else 0))"
    using assms by (rule region_dist_accepted)
next
  assume "length regionEmbeddings = length regions \<and>
      length costMatrix = length (m_tracks tr) * length regions"
  then show "\<exists>costMatrix' maxCost.
         CreateDistaceMatrix env tr regions regionEmbeddings costMatrix maxPossibleCost
           = Inr (costMatrix', maxCost) \<and>
         (\<forall>i<length (m_tracks tr). \<forall>k<length regions.
            region_dist env (m_settings tr) regionEmbeddings maxPossibleCost (m_tracks tr ! i)
              (CalcPredictionEllipse env (m_tracks tr ! i)
                 (min_radius (m_settings tr) (m_tracks tr ! i)))
              k (regions ! k) = Inr (costMatrix' ! (i + k * length (m_tracks tr))))"
    using CreateDistaceMatrix_total[of costMatrix tr regions regionEmbeddings env maxPossibleCost]
    by (auto simp: entry_ok_def)
qed

theorem cost_terms_witness:
  "CheckType (demo_settings\<lparr>m_distType := (\<lambda>ind. if ind < 2 then 1 else 0)\<rparr>)
     (m_type (m_lastRegion (demo_track 0 0 (demo_region 10 10 1)))) (m_type (demo_region 12 10 1)) \<and>
   region_dist demo_env (demo_settings\<lparr>m_distType := (\<lambda>ind. if ind < 2 then 1 else 0)\<rparr>)
     [RegionEmbedding_default] 307200 (demo_track 0 0 (demo_region 10 10 1))
     \<lparr>rr_center = (10, 10), rr_size = (20, 20), rr_angle = 0\<rparr> 0 (demo_region 12 10 1)
     = Inr (11 / 10)"
  using cost_terms[of "demo_settings\<lparr>m_distType := (\<lambda>ind. if ind < 2 then 1 else 0)\<rparr>"
      "demo_track 0 0 (demo_region 10 10 1)" "demo_region 12 10 1" 0 "[RegionEmbedding_default]"
      demo_env 307200 "\<lparr>rr_center = (10, 10), rr_size = (20, 20), rr_angle = 0\<rparr>"]
  by (simp add: demo_settings_def demo_track_def demo_region_def demo_env_def
      DistCenters_def DistRects_def DistJaccard_def DistHist_def DistFeatureCos_def)

section \<open>The bound on the cost\<close>









section \<open>Order of the parallel loop\<close>

lemma error_eq [simp]: "(e :: error) = OutOfRange"
  by (cases e) simp

lemma update_step_Inl:
  assumes "\<not> (i < length a \<and> i < length ts \<and> slot_ok regions embs (a ! i))"
  shows "update_step env settings regions embs prev cur fps a i ts = Inl OutOfRange"
  using assms
  by (auto simp: update_step_def slot_ok_def vec_at_int_def vec_at_def Let_def
      split: sum.splits)

lemma update_loop_fails:
  assumes "\<exists>i\<in>set order. \<not> (i < length a \<and> i < length ts \<and> slot_ok regions embs (a ! i))"
  shows "for_each order (update_step env settings regions embs prev cur fps a) ts = Inl OutOfRange"
  using assms
proof (induction order arbitrary: ts)
  case Nil
  then show ?case by simp
next
  case (Cons i order)
  show ?case
  proof (cases "i < length a \<and> i < length ts \<and> slot_ok regions embs (a ! i)")
    case False
    then show ?thesis
      using update_step_Inl[of i a ts regions embs env settings prev cur fps] by simp
  next
    case True
    let ?ts1 = "ts[i := updated env settings regions embs prev cur fps (a ! i) (ts ! i)]"
    have step: "update_step env settings regions embs prev cur fps a i ts = Inr ?ts1"
      using True by (intro update_step_Inr) simp_all
    from Cons.prems True
    have "\<exists>k\<in>set order. \<not> (k < length a \<and> k < length ?ts1 \<and> slot_ok regions embs (a ! k))"
      by auto
    from Cons.IH[OF this] step show ?thesis by simp
  qed
qed

lemma update_loop_order_independent:
  assumes "distinct o1" "distinct o2" "set o1 = set o2"
  shows "for_each o1 (update_step env settings regions embs prev cur fps a) ts =
         for_each o2 (update_step env settings regions embs prev cur fps a) ts"
proof (cases "\<forall>i\<in>set o1. i < length a \<and> i < length ts \<and> slot_ok regions embs (a ! i)")
  case True
  then have "\<forall>i\<in>set o2. i < length a \<and> i < length ts \<and> slot_ok regions embs (a ! i)"
    using assms(3) by simp
  from update_loop_any_order[OF assms(1) True, of env settings prev cur fps]
    update_loop_any_order[OF assms(2) this, of env settings prev cur fps]
  show ?thesis using assms(3) by simp
next
  case False
  then have b1: "\<exists>i\<in>set o1. \<not> (i < length a \<and> i < length ts \<and> slot_ok regions embs (a ! i))"
    by simp
  then have b2: "\<exists>i\<in>set o2. \<not> (i < length a \<and> i < length ts \<and> slot_ok regions embs (a ! i))"
    using assms(3) by simp
  from update_loop_fails[OF b1, of env settings prev cur fps]
    update_loop_fails[OF b2, of env settings prev cur fps]
  show ?thesis by simp
qed

lemma UpdateTrackingState_in_order_independent:
  assumes "valid_schedule s1" "valid_schedule s2"
  shows "UpdateTrackingState_in_order env s1 tr regions f fps =
         UpdateTrackingState_in_order env s2 tr regions f fps"
proof (cases "before_update_loop env tr regions f fps")
  case (Inl e)
  then show ?thesis by (simp add: UpdateTrackingState_in_order_def)
next
  case (Inr r)
  obtain embs a ts nid where r: "r = (embs, a, ts, nid)" by (cases r)
  have "update_loop env tr regions f fps embs a (s1 (length a)) ts =
        update_loop env tr regions f fps embs a (s2 (length a)) ts"
    unfolding update_loop_def
    using assms by (intro update_loop_order_independent) (simp_all add: valid_schedule_def)
  then show ?thesis
    using Inr r by (simp add: UpdateTrackingState_in_order_def Let_def)
qed

lemma Update_in_order_sequential:
  "Update_in_order env (\<lambda>stop_i. [0..<stop_i]) tr regions f fps = Update env tr regions f fps"
  by (simp add: Update_in_order_def Update_def UpdateTrackingState_def)

lemma Updates_in_order_independent:
  assumes "list_all (\<lambda>fr. valid_schedule (fst fr)) run1"
    and "list_all (\<lambda>fr. valid_schedule (fst fr)) run2"
    and "map snd run1 = map snd run2"
  shows "Updates_in_order env tr run1 = Updates_in_order env tr run2"
  using assms
proof (induction run1 arbitrary: run2 tr)
  case Nil
  then show ?case by simp
next
  case (Cons fr1 run1)
  from Cons.prems(3) obtain fr2 rest where run2: "run2 = fr2 # rest"
    "snd fr1 = snd fr2" "map snd run1 = map snd rest"
    by (cases run2) auto
  obtain s1 regions f fps where fr1: "fr1 = (s1, regions, f, fps)" by (cases fr1)
  with run2(2) obtain s2 where fr2: "fr2 = (s2, regions, f, fps)" by (cases fr2) auto
  have vs: "valid_schedule s1" "valid_schedule s2"
    using Cons.prems(1,2) run2(1) fr1 fr2 by simp_all
  have step: "Update_in_order env s1 tr regions f fps = Update_in_order env s2 tr regions f fps"
    using UpdateTrackingState_in_order_independent[OF vs, of env tr regions f fps]
    by (simp add: Update_in_order_def)
  have rest: "\<And>tr'. Updates_in_order env tr' run1 = Updates_in_order env tr' rest"
    using Cons.prems(1,2) run2(1,3) by (intro Cons.IH) simp_all
  show ?case
    using step rest by (simp add: run2(1) fr1 fr2 split: sum.splits)
qed

lemma Updates_in_order_sequential:
  "Updates_in_order env tr (map (\<lambda>fr. (\<lambda>stop_i. [0..<stop_i], fr)) frames) = Updates env tr frames"
proof (induction frames arbitrary: tr)
  case Nil
  then show ?case by simp
next
  case (Cons fr frames)
  obtain regions f fps where "fr = (regions, f, fps)" by (cases fr)
  then show ?case
    using Cons.IH by (simp add: Update_in_order_sequential split: sum.splits)
qed

text \<open>
  Claim C9.  Two runs of the tracker from the same state on the same sequence of inputs
  (regions, frame, fps) end in the same tracker state, whatever order the iterations of the
  parallel loop take in each call of either run; the same holds after every frame, that
  is for every prefix of the two runs, and the common result is the one of the sequential
  program.  In particular the tracks (identifier, last region, skipped frames, internal
  state) coincide.
\<close>

theorem update_deterministic:
  assumes "list_all (\<lambda>fr. valid_schedule (fst fr)) run1"
    and "list_all (\<lambda>fr. valid_schedule (fst fr)) run2"
    and "map snd run1 = map snd run2"
  shows "Updates_in_order env tr (take k run1) = Updates_in_order env tr (take k run2) \<and>
         Updates_in_order env tr (take k run1) = Updates env tr (take k (map snd run1)) \<and>
         Updates_in_order env (CTracker_new env settings) (take k run1) =
           Updates_in_order env (CTracker_new env settings) (take k run2)"
proof -
  have v1: "list_all (\<lambda>fr. valid_schedule (fst fr)) (take k run1)"
    and v2: "list_all (\<lambda>fr. valid_schedule (fst fr)) (take k run2)"
    using assms(1,2) by (auto simp: list_all_iff dest: in_set_takeD)
  have m: "map snd (take k run1) = map snd (take k run2)"
    using assms(3) by (simp add: take_map[symmetric] del: take_map)
  let ?seq = "map (\<lambda>fr. (\<lambda>stop_i. [0..<stop_i], fr)) (take k (map snd run1))"
  have vseq: "list_all (\<lambda>fr. valid_schedule (fst fr)) ?seq"
    by (simp add: list_all_iff valid_schedule_upt)
  have mseq: "map snd (take k run1) = map snd ?seq"
    by (simp add: take_map comp_def)
  have "Updates_in_order env tr (take k run1) = Updates_in_order env tr ?seq"
    using v1 vseq mseq by (rule Updates_in_order_independent)
  then have s: "Updates_in_order env tr (take k run1) = Updates env tr (take k (map snd run1))"
    by (simp only: Updates_in_order_sequential)
  have a: "Updates_in_order env tr (take k run1) = Updates_in_order env tr (take k run2)"
    using v1 v2 m by (rule Updates_in_order_independent)
  have b: "Updates_in_order env (CTracker_new env settings) (take k run1) =
           Updates_in_order env (CTracker_new env settings) (take k run2)"
    using v1 v2 m by (rule Updates_in_order_independent)
  from a s b show ?thesis by (intro conjI) assumption+
qed

theorem update_deterministic_witness:
  "valid_schedule (\<lambda>stop_i. [0..<stop_i]) \<and> valid_schedule (\<lambda>stop_i. rev [0..<stop_i]) \<and>
   Updates_in_order demo_env demo_tracker
     (take 2 [(\<lambda>stop_i. [0..<stop_i], [demo_region 12 10 1, demo_region 300 301 1], demo_frame, 25),
              (\<lambda>stop_i. [0..<stop_i], [], demo_frame, 25)]) =
   Updates_in_order demo_env demo_tracker
     (take 2 [(\<lambda>stop_i. rev [0..<stop_i], [demo_region 12 10 1, demo_region 300 301 1], demo_frame, 25),
              (\<lambda>stop_i. rev [0..<stop_i], [], demo_frame, 25)])"
proof -
  have v2: "valid_schedule (\<lambda>stop_i. rev [0..<stop_i])"
    by (auto simp: valid_schedule_def)
  from update_deterministic[of
      "[(\<lambda>stop_i. [0..<stop_i], [demo_region 12 10 1, demo_region 300 301 1], demo_frame, 25),
        (\<lambda>stop_i. [0..<stop_i], [], demo_frame, 25)]"
      "[(\<lambda>stop_i. rev [0..<stop_i], [demo_region 12 10 1, demo_region 300 301 1], demo_frame, 25),
        (\<lambda>stop_i. rev [0..<stop_i], [], demo_frame, 25)]" demo_env demo_tracker 2]
    valid_schedule_upt v2
  show ?thesis by simp
qed

section \<open>Size and use of the region embeddings\<close>

lemma RegionEmbedding_default_eq:
  "m_hist e = [] \<Longrightarrow> m_embedding e = [] \<Longrightarrow> m_embDot e = 0 \<Longrightarrow>
     (e :: RegionEmbedding) = RegionEmbedding_default"
  by (simp add: RegionEmbedding_default_def)

lemma UpdateTrackingState_tracks:
  assumes sc: "solver_contract env"
  shows "\<exists>embs kept tr'.
     CalcEmbeddins env tr [] regions f = Inr embs \<and> length embs = length regions \<and>
     associate env tr regions embs f fps (replicate (length (m_tracks tr)) (-1)) =
       Inr (map fst kept, map snd kept) \<and>
     (\<forall>p\<in>set kept. snd p = -1 \<or> (0 \<le> snd p \<and> snd p < int (length regions))) \<and>
     UpdateTrackingState env tr regions f fps = Inr tr' \<and>
     m_tracks tr' =
       map (\<lambda>(t, x). updated env (m_settings tr) regions embs (m_prevFrame tr) f fps x t) kept @
       births env (m_settings tr) regions embs
         (unassigned_regions (map snd kept) (length regions)) (m_nextTrackID tr)"
proof -
  let ?N = "length (m_tracks tr)"
  from UpdateTrackingState_master[OF sc valid_schedule_upt, of tr regions f fps]
  obtain embs cost mc where m:
    "CalcEmbeddins env tr [] regions f = Inr embs" "length embs = length regions"
    "CreateDistaceMatrix env tr regions embs (replicate (?N * length regions) 0)
       (max_possible_cost f) = Inr (cost, mc)"
    "length cost = ?N * length regions"
    "assignment_ok ?N (length regions)
       (SP_Solve env (m_SPCalculator tr) cost ?N (length regions) (replicate ?N (-1)) mc)"
    "UpdateTrackingState env tr regions f fps =
       Inr (frame_result env tr regions f fps embs
              (gated_tracks (m_settings tr) ?N cost
                 (SP_Solve env (m_SPCalculator tr) cost ?N (length regions) (replicate ?N (-1)) mc)
                 (m_tracks tr))
              (gated_assignment (m_settings tr) ?N cost
                 (SP_Solve env (m_SPCalculator tr) cost ?N (length regions) (replicate ?N (-1)) mc)))"
    unfolding UpdateTrackingState_def by blast
  let ?a0 = "SP_Solve env (m_SPCalculator tr) cost ?N (length regions) (replicate ?N (-1)) mc"
  let ?ts1 = "gated_tracks (m_settings tr) ?N cost ?a0 (m_tracks tr)"
  let ?a1 = "gated_assignment (m_settings tr) ?N cost ?a0"
  let ?kept = "survivors env (m_settings tr) fps ?ts1 ?a1"
  let ?res = "frame_result env tr regions f fps embs ?ts1 ?a1"
  have assoc: "associate env tr regions embs f fps (replicate ?N (-1)) =
      Inr (map fst ?kept, map snd ?kept)"
    using associate_eq[OF sc m(3) m(4), of fps] by (simp add: Let_def)
  have ok1: "assignment_ok ?N (length regions) ?a1" using m(5) by (rule gated_assignment_ok)
  have slots: "\<forall>p\<in>set ?kept. snd p = -1 \<or> (0 \<le> snd p \<and> snd p < int (length regions))"
  proof
    fix p assume "p \<in> set ?kept"
    then have "snd p \<in> set ?a1"
      using survivors_snd_subset[of env "m_settings tr" fps ?ts1 ?a1] by auto
    then show "snd p = -1 \<or> (0 \<le> snd p \<and> snd p < int (length regions))"
      using ok1 by (auto simp: assignment_ok_def list_all_iff)
  qed
  have tracks: "m_tracks ?res =
       map (\<lambda>(t, x). updated env (m_settings tr) regions embs (m_prevFrame tr) f fps x t) ?kept @
       births env (m_settings tr) regions embs
         (unassigned_regions (map snd ?kept) (length regions)) (m_nextTrackID tr)"
    by (simp add: frame_result_def Let_def)
  from m(1,2,6) assoc slots tracks show ?thesis by blast
qed

lemma unassigned_regions_nth:
  "k < length (unassigned_regions a M) \<Longrightarrow> unassigned_regions a M ! k < M"
  using nth_mem[of k "unassigned_regions a M"] by (auto simp: unassigned_regions_def)

text \<open>
  Claim C10.  With at least one region, \<^verbatim>\<open>CalcEmbeddins\<close> returns exactly one
  \<^verbatim>\<open>RegionEmbedding\<close> per region, whatever the weights (all of them default-constructed
  when neither appearance weight is positive), so the vector is not empty.  The cost matrix
  is built and \<^verbatim>\<open>UpdateTrackingState\<close> returns: no vector access is out of range.  The
  tracks it returns are, in this order: for every pair (track, slot) that gating and
  retirement leave, the track updated by the overload of \<^verbatim>\<open>CTrack::Update\<close> that takes an
  embedding, with the region of the slot and that region's embedding (slot and index in
  range), or by the update without measurement when the slot is \<open>-1\<close>; then, for every
  region index no slot holds, the track constructed by the overload that takes an
  embedding, from that region and that region's embedding.  Both loops take these
  overloads on any assignment and tracks.
\<close>

theorem region_embeddings_sized:
  assumes sc: "solver_contract env" and ne: "regions \<noteq> []"
  shows "\<exists>embs kept tr'.
     CalcEmbeddins env tr [] regions currFrame = Inr embs \<and>
     length embs = length regions \<and> embs \<noteq> [] \<and>
     (\<not> m_distType (m_settings tr) DistHist > 0 \<and> \<not> m_distType (m_settings tr) DistFeatureCos > 0
        \<longrightarrow> embs = replicate (length regions) RegionEmbedding_default) \<and>
     (\<exists>costMatrix maxCost.
        CreateDistaceMatrix env tr regions embs
          (replicate (length (m_tracks tr) * length regions) 0)
          (max_possible_cost currFrame) = Inr (costMatrix, maxCost)) \<and>
     associate env tr regions embs currFrame fps (replicate (length (m_tracks tr)) (-1)) =
       Inr (map fst kept, map snd kept) \<and>
     UpdateTrackingState env tr regions currFrame fps = Inr tr' \<and>
     length (m_tracks tr') =
       length kept + length (unassigned_regions (map snd kept) (length regions)) \<and>
     (\<forall>i<length kept.
        (snd (kept ! i) = -1 \<or>
         (0 \<le> snd (kept ! i) \<and> nat (snd (kept ! i)) < length regions \<and>
          nat (snd (kept ! i)) < length embs)) \<and>
        (snd (kept ! i) \<noteq> -1 \<longrightarrow>
           m_tracks tr' ! i =
             CTrack_UpdateEmb env (regions ! nat (snd (kept ! i))) (embs ! nat (snd (kept ! i))) True
               (m_maxTraceLength (m_settings tr)) (m_prevFrame tr) currFrame
               (if m_useAbandonedDetection (m_settings tr)
                then cvRound env (real_of_int (m_minStaticTime (m_settings tr)) * fps) else 0)
               (m_maxSpeedForStatic (m_settings tr))
               ((fst (kept ! i))\<lparr>m_skippedFrames := 0\<rparr>)) \<and>
        (snd (kept ! i) = -1 \<longrightarrow>
           m_tracks tr' ! i =
             CTrack_Update env (CRegion_default env) False (m_maxTraceLength (m_settings tr))
               (m_prevFrame tr) currFrame 0 (m_maxSpeedForStatic (m_settings tr))
               (fst (kept ! i)))) \<and>
     (\<forall>k<length (unassigned_regions (map snd kept) (length regions)).
        unassigned_regions (map snd kept) (length regions) ! k < length regions \<and>
        unassigned_regions (map snd kept) (length regions) ! k < length embs \<and>
        m_tracks tr' ! (length kept + k) =
          CTrack_newEmb env
            (regions ! (unassigned_regions (map snd kept) (length regions) ! k))
            (embs ! (unassigned_regions (map snd kept) (length regions) ! k))
            (m_kalmanType (m_settings tr)) (m_dt (m_settings tr))
            (m_accelNoiseMag (m_settings tr)) (m_useAcceleration (m_settings tr))
            (m_nextTrackID tr + k) (m_filterGoal (m_settings tr) = FilterRect)
            (m_lostTrackType (m_settings tr))) \<and>
     (\<forall>j a ts nid. j < length regions \<longrightarrow> int j \<notin> set a \<longrightarrow>
        birth_step env (m_settings tr) regions embs a j (ts, nid) =
          Inr (ts @ [CTrack_newEmb env (regions ! j) (embs ! j) (m_kalmanType (m_settings tr))
                       (m_dt (m_settings tr)) (m_accelNoiseMag (m_settings tr))
                       (m_useAcceleration (m_settings tr)) nid
                       (m_filterGoal (m_settings tr) = FilterRect)
                       (m_lostTrackType (m_settings tr))],
               Suc nid)) \<and>
     (\<forall>i a ts. i < length a \<longrightarrow> i < length ts \<longrightarrow> 0 \<le> a ! i \<longrightarrow> a ! i < int (length regions) \<longrightarrow>
        update_step env (m_settings tr) regions embs (m_prevFrame tr) currFrame fps a i ts =
          Inr (ts[i := CTrack_UpdateEmb env (regions ! nat (a ! i)) (embs ! nat (a ! i)) True
                          (m_maxTraceLength (m_settings tr)) (m_prevFrame tr) currFrame
                          (if m_useAbandonedDetection (m_settings tr)
                           then cvRound env (real_of_int (m_minStaticTime (m_settings tr)) * fps)
                           else 0)
                          (m_maxSpeedForStatic (m_settings tr))
                          ((ts ! i)\<lparr>m_skippedFrames := 0\<rparr>)]))"
proof -
  from UpdateTrackingState_tracks[OF sc, of tr regions currFrame fps]
  obtain embs kept tr' where u:
    "CalcEmbeddins env tr [] regions currFrame = Inr embs" "length embs = length regions"
    "associate env tr regions embs currFrame fps (replicate (length (m_tracks tr)) (-1)) =
       Inr (map fst kept, map snd kept)"
    "\<forall>p\<in>set kept. snd p = -1 \<or> (0 \<le> snd p \<and> snd p < int (length regions))"
    "UpdateTrackingState env tr regions currFrame fps = Inr tr'"
    "m_tracks tr' =
       map (\<lambda>(t, x). updated env (m_settings tr) regions embs (m_prevFrame tr) currFrame fps x t)
         kept @
       births env (m_settings tr) regions embs
         (unassigned_regions (map snd kept) (length regions)) (m_nextTrackID tr)"
    by blast
  from CalcEmbeddins_total[of env tr regions currFrame] u(1) have
    e: "\<not> m_distType (m_settings tr) DistHist > 0 \<longrightarrow> (\<forall>j<length regions. m_hist (embs ! j) = [])"
      "\<not> m_distType (m_settings tr) DistFeatureCos > 0 \<longrightarrow>
         (\<forall>j<length regions. m_embedding (embs ! j) = [] \<and> m_embDot (embs ! j) = 0)"
    by auto
  have nonempty: "embs \<noteq> []" using u(2) ne by auto
  have dflt: "(\<not> m_distType (m_settings tr) DistHist > 0 \<and> \<not> m_distType (m_settings tr) DistFeatureCos > 0
        \<longrightarrow> embs = replicate (length regions) RegionEmbedding_default)"
    using u(2) e by (auto intro!: nth_equalityI RegionEmbedding_default_eq)
  from CreateDistaceMatrix_total[of "replicate (length (m_tracks tr) * length regions) 0" tr
      regions embs env "max_possible_cost currFrame"] u(2)
  have cm: "(\<exists>costMatrix maxCost.
        CreateDistaceMatrix env tr regions embs
          (replicate (length (m_tracks tr) * length regions) 0)
          (max_possible_cost currFrame) = Inr (costMatrix, maxCost))"
    by auto
  have len: "length (m_tracks tr') =
       length kept + length (unassigned_regions (map snd kept) (length regions))"
    by (simp add: u(6))
  have surv: "(\<forall>i<length kept.
        (snd (kept ! i) = -1 \<or>
         (0 \<le> snd (kept ! i) \<and> nat (snd (kept ! i)) < length regions \<and>
          nat (snd (kept ! i)) < length embs)) \<and>
        (snd (kept ! i) \<noteq> -1 \<longrightarrow>
           m_tracks tr' ! i =
             CTrack_UpdateEmb env (regions ! nat (snd (kept ! i))) (embs ! nat (snd (kept ! i))) True
               (m_maxTraceLength (m_settings tr)) (m_prevFrame tr) currFrame
               (if m_useAbandonedDetection (m_settings tr)
                then cvRound env (real_of_int (m_minStaticTime (m_settings tr)) * fps) else 0)
               (m_maxSpeedForStatic (m_settings tr))
               ((fst (kept ! i))\<lparr>m_skippedFrames := 0\<rparr>)) \<and>
        (snd (kept ! i) = -1 \<longrightarrow>
           m_tracks tr' ! i =
             CTrack_Update env (CRegion_default env) False (m_maxTraceLength (m_settings tr))
               (m_prevFrame tr) currFrame 0 (m_maxSpeedForStatic (m_settings tr))
               (fst (kept ! i))))"
  proof (intro allI impI)
    fix i assume i: "i < length kept"
    then have "kept ! i \<in> set kept" by simp
    with u(4) have slot: "snd (kept ! i) = -1 \<or>
        (0 \<le> snd (kept ! i) \<and> snd (kept ! i) < int (length regions))" by blast
    have nth: "m_tracks tr' ! i =
        updated env (m_settings tr) regions embs (m_prevFrame tr) currFrame fps
          (snd (kept ! i)) (fst (kept ! i))"
      using i by (simp add: u(6) nth_append case_prod_beta)
    show "(snd (kept ! i) = -1 \<or>
         (0 \<le> snd (kept ! i) \<and> nat (snd (kept ! i)) < length regions \<and>
          nat (snd (kept ! i)) < length embs)) \<and>
        (snd (kept ! i) \<noteq> -1 \<longrightarrow>
           m_tracks tr' ! i =
             CTrack_UpdateEmb env (regions ! nat (snd (kept ! i))) (embs ! nat (snd (kept ! i))) True
               (m_maxTraceLength (m_settings tr)) (m_prevFrame tr) currFrame
               (if m_useAbandonedDetection (m_settings tr)
                then cvRound env (real_of_int (m_minStaticTime (m_settings tr)) * fps) else 0)
               (m_maxSpeedForStatic (m_settings tr))
               ((fst (kept ! i))\<lparr>m_skippedFrames := 0\<rparr>)) \<and>
        (snd (kept ! i) = -1 \<longrightarrow>
           m_tracks tr' ! i =
             CTrack_Update env (CRegion_default env) False (m_maxTraceLength (m_settings tr))
               (m_prevFrame tr) currFrame 0 (m_maxSpeedForStatic (m_settings tr))
               (fst (kept ! i)))"
      using slot nth nonempty u(2) by (auto simp: updated_def Let_def)
  qed
  have newb: "(\<forall>k<length (unassigned_regions (map snd kept) (length regions)).
        unassigned_regions (map snd kept) (length regions) ! k < length regions \<and>
        unassigned_regions (map snd kept) (length regions) ! k < length embs \<and>
        m_tracks tr' ! (length kept + k) =
          CTrack_newEmb env
            (regions ! (unassigned_regions (map snd kept) (length regions) ! k))
            (embs ! (unassigned_regions (map snd kept) (length regions) ! k))
            (m_kalmanType (m_settings tr)) (m_dt (m_settings tr))
            (m_accelNoiseMag (m_settings tr)) (m_useAcceleration (m_settings tr))
            (m_nextTrackID tr + k) (m_filterGoal (m_settings tr) = FilterRect)
            (m_lostTrackType (m_settings tr)))"
  proof (intro allI impI)
    fix k
    let ?js = "unassigned_regions (map snd kept) (length regions)"
    assume k: "k < length ?js"
    have jk: "?js ! k < length regions" using k by (rule unassigned_regions_nth)
    have "m_tracks tr' ! (length kept + k) =
        births env (m_settings tr) regions embs ?js (m_nextTrackID tr) ! k"
      using nth_append_length_plus[of
          "map (\<lambda>(t, x). updated env (m_settings tr) regions embs (m_prevFrame tr) currFrame fps x t)
             kept" _ k]
      by (simp add: u(6))
    then have "m_tracks tr' ! (length kept + k) =
        born env (m_settings tr) regions embs (?js ! k) (m_nextTrackID tr + k)"
      using k by (simp add: births_nth)
    then show "?js ! k < length regions \<and> ?js ! k < length embs \<and>
        m_tracks tr' ! (length kept + k) =
          CTrack_newEmb env (regions ! (?js ! k)) (embs ! (?js ! k))
            (m_kalmanType (m_settings tr)) (m_dt (m_settings tr))
            (m_accelNoiseMag (m_settings tr)) (m_useAcceleration (m_settings tr))
            (m_nextTrackID tr + k) (m_filterGoal (m_settings tr) = FilterRect)
            (m_lostTrackType (m_settings tr))"
      using jk nonempty u(2) by (simp add: born_def)
  qed
  have birth: "(\<forall>j a ts nid. j < length regions \<longrightarrow> int j \<notin> set a \<longrightarrow>
        birth_step env (m_settings tr) regions embs a j (ts, nid) =
          Inr (ts @ [CTrack_newEmb env (regions ! j) (embs ! j) (m_kalmanType (m_settings tr))
                       (m_dt (m_settings tr)) (m_accelNoiseMag (m_settings tr))
                       (m_useAcceleration (m_settings tr)) nid
                       (m_filterGoal (m_settings tr) = FilterRect)
                       (m_lostTrackType (m_settings tr))],
               Suc nid))"
    using nonempty u(2) by (simp add: birth_step_def)
  have step: "(\<forall>i a ts. i < length a \<longrightarrow> i < length ts \<longrightarrow> 0 \<le> a ! i \<longrightarrow> a ! i < int (length regions) \<longrightarrow>
        update_step env (m_settings tr) regions embs (m_prevFrame tr) currFrame fps a i ts =
          Inr (ts[i := CTrack_UpdateEmb env (regions ! nat (a ! i)) (embs ! nat (a ! i)) True
                          (m_maxTraceLength (m_settings tr)) (m_prevFrame tr) currFrame
                          (if m_useAbandonedDetection (m_settings tr)
                           then cvRound env (real_of_int (m_minStaticTime (m_settings tr)) * fps)
                           else 0)
                          (m_maxSpeedForStatic (m_settings tr))
                          ((ts ! i)\<lparr>m_skippedFrames := 0\<rparr>)]))"
    using nonempty u(2) by (auto simp: update_step_def vec_at_int_def Let_def)
  show ?thesis
    apply (rule exI[of _ embs], rule exI[of _ kept], rule exI[of _ tr'])
    using u(1,2,3,5) nonempty dflt cm len surv newb birth step
    by (intro conjI) assumption+
qed

theorem region_embeddings_sized_witness:
  "solver_contract demo_env \<and> [demo_region 12 10 1, demo_region 100 100 1] \<noteq> [] \<and>
   CalcEmbeddins demo_env emb_tracker [] [demo_region 12 10 1, demo_region 100 100 1] demo_frame
     = Inr [\<lparr>m_hist = [], m_embedding = [1], m_embDot = 1\<rparr>,
            \<lparr>m_hist = [], m_embedding = [1], m_embDot = 1\<rparr>] \<and>
   CreateDistaceMatrix demo_env emb_tracker [demo_region 12 10 1, demo_region 100 100 1]
     [\<lparr>m_hist = [], m_embedding = [1], m_embDot = 1\<rparr>,
      \<lparr>m_hist = [], m_embedding = [1], m_embDot = 1\<rparr>]
     (replicate (length (m_tracks emb_tracker) *
                 length [demo_region 12 10 1, demo_region 100 100 1]) 0)
     (max_possible_cost demo_frame) = Inr ([1 / 5, 11 / 10, 11 / 10, 11 / 10], 11 / 10) \<and>
   associate demo_env emb_tracker [demo_region 12 10 1, demo_region 100 100 1]
     [\<lparr>m_hist = [], m_embedding = [1], m_embDot = 1\<rparr>,
      \<lparr>m_hist = [], m_embedding = [1], m_embDot = 1\<rparr>]
     demo_frame 25 (replicate (length (m_tracks emb_tracker)) (-1))
     = Inr ([demo_track 0 0 (demo_region 10 10 1)], [0]) \<and>
   (\<exists>tr'. UpdateTrackingState demo_env emb_tracker
            [demo_region 12 10 1, demo_region 100 100 1] demo_frame 25 = Inr tr' \<and>
          m_tracks tr' =
            [\<lparr>m_trackID = 0, m_skippedFrames = 0, m_lastRegion = demo_region 12 10 1,
              m_impl = [1]\<rparr>,
             \<lparr>m_trackID = 3, m_skippedFrames = 0, m_lastRegion = demo_region 100 100 1,
              m_impl = [1]\<rparr>])"
proof -
  let ?regions = "[demo_region 12 10 1, demo_region 100 100 1]"
  let ?E = "\<lparr>m_hist = [], m_embedding = [1 :: real], m_embDot = 1\<rparr>"
  let ?t0 = "demo_track 0 0 (demo_region 10 10 1)"
  have ce: "CalcEmbeddins demo_env emb_tracker [] ?regions demo_frame = Inr [?E, ?E]"
    by (simp add: emb_tracker_def emb_settings_def demo_settings_def demo_frame_def
        demo_region_def demo_env_def CTracker_new_def
        CalcEmbeddins_def vec_resize_def RegionEmbedding_default_def hist_step_def hist_args_def
        embed_step_def DistHist_def DistFeatureCos_def register_embedding_def try_emplace_def
        Mat_dot_def
        Let_def eval_nat_numeral)
  have cm: "CreateDistaceMatrix demo_env emb_tracker ?regions [?E, ?E]
      (replicate (length (m_tracks emb_tracker) * length ?regions) 0)
      (max_possible_cost demo_frame) = Inr ([1 / 5, 11 / 10, 11 / 10, 11 / 10], 11 / 10)"
    by (simp add: emb_tracker_def emb_settings_def demo_settings_def demo_frame_def
        demo_track_def demo_region_def demo_env_def CTracker_new_def
        max_possible_cost_def int_mul_def
        CreateDistaceMatrix_def matrix_outer_step_def matrix_inner_step_def min_radius_def
        region_dist_def add_centers_def add_rects_def add_jaccard_def add_hist_def add_cosine_def
        DistCenters_def DistRects_def DistJaccard_def DistHist_def DistFeatureCos_def
        Let_def eval_nat_numeral)
  have a0: "SP_Solve demo_env (m_SPCalculator emb_tracker) [1 / 5, 11 / 10, 11 / 10, 11 / 10]
      (length (m_tracks emb_tracker)) (length ?regions)
      (replicate (length (m_tracks emb_tracker)) (-1)) (11 / 10) = [0, 1]"
    by (simp add: SP_Solve_def demo_env_def demo_solver_def emb_tracker_def emb_settings_def
        demo_settings_def CTracker_new_def upt_rec)
  have ga: "gated_assignment (m_settings emb_tracker) (length (m_tracks emb_tracker))
      [1 / 5, 11 / 10, 11 / 10, 11 / 10] [0, 1] = [0, -1]"
    by (simp add: gated_assignment_def voided_def emb_tracker_def emb_settings_def demo_settings_def
        upt_rec eval_nat_numeral)
  have gt: "gated_tracks (m_settings emb_tracker) (length (m_tracks emb_tracker))
      [1 / 5, 11 / 10, 11 / 10, 11 / 10] [0, 1] (m_tracks emb_tracker)
      = [?t0, demo_track 2 4 (demo_region 300 300 1)]"
    by (simp add: gated_tracks_def voided_def skip_frame_def emb_tracker_def emb_settings_def
        demo_settings_def demo_track_def upt_rec eval_nat_numeral)
  have sv: "survivors demo_env (m_settings emb_tracker) 25
      [?t0, demo_track 2 4 (demo_region 300 300 1)] [0, -1] = [(?t0, 0)]"
    by (simp add: survivors_def retire_cond_def emb_tracker_def emb_settings_def
        demo_settings_def demo_track_def demo_env_def)
  have as: "associate demo_env emb_tracker ?regions [?E, ?E] demo_frame 25
      (replicate (length (m_tracks emb_tracker)) (-1)) = Inr ([?t0], [0])"
    using associate_eq[OF demo_solver_contract cm] a0 ga gt sv
    by (simp add: emb_tracker_def Let_def)
  from region_embeddings_sized[OF demo_solver_contract, of ?regions emb_tracker demo_frame 25]
  obtain embs kept tr' where r:
    "CalcEmbeddins demo_env emb_tracker [] ?regions demo_frame = Inr embs"
    "associate demo_env emb_tracker ?regions embs demo_frame 25
       (replicate (length (m_tracks emb_tracker)) (-1)) = Inr (map fst kept, map snd kept)"
    "UpdateTrackingState demo_env emb_tracker ?regions demo_frame 25 = Inr tr'"
    "length (m_tracks tr') =
       length kept + length (unassigned_regions (map snd kept) (length ?regions))"
    "\<forall>i<length kept.
        (snd (kept ! i) = -1 \<or>
         (0 \<le> snd (kept ! i) \<and> nat (snd (kept ! i)) < length ?regions \<and>
          nat (snd (kept ! i)) < length embs)) \<and>
        (snd (kept ! i) \<noteq> -1 \<longrightarrow>
           m_tracks tr' ! i =
             CTrack_UpdateEmb demo_env (?regions ! nat (snd (kept ! i)))
               (embs ! nat (snd (kept ! i))) True
               (m_maxTraceLength (m_settings emb_tracker)) (m_prevFrame emb_tracker) demo_frame
               (if m_useAbandonedDetection (m_settings emb_tracker)
                then cvRound demo_env (real_of_int (m_minStaticTime (m_settings emb_tracker)) * 25)
                else 0)
               (m_maxSpeedForStatic (m_settings emb_tracker))
               ((fst (kept ! i))\<lparr>m_skippedFrames := 0\<rparr>)) \<and>
        (snd (kept ! i) = -1 \<longrightarrow>
           m_tracks tr' ! i =
             CTrack_Update demo_env (CRegion_default demo_env) False
               (m_maxTraceLength (m_settings emb_tracker))
               (m_prevFrame emb_tracker) demo_frame 0 (m_maxSpeedForStatic (m_settings emb_tracker))
               (fst (kept ! i)))"
    "\<forall>k<length (unassigned_regions (map snd kept) (length ?regions)).
        unassigned_regions (map snd kept) (length ?regions) ! k < length ?regions \<and>
        unassigned_regions (map snd kept) (length ?regions) ! k < length embs \<and>
        m_tracks tr' ! (length kept + k) =
          CTrack_newEmb demo_env
            (?regions ! (unassigned_regions (map snd kept) (length ?regions) ! k))
            (embs ! (unassigned_regions (map snd kept) (length ?regions) ! k))
            (m_kalmanType (m_settings emb_tracker)) (m_dt (m_settings emb_tracker))
            (m_accelNoiseMag (m_settings emb_tracker)) (m_useAcceleration (m_settings emb_tracker))
            (m_nextTrackID emb_tracker + k) (m_filterGoal (m_settings emb_tracker) = FilterRect)
            (m_lostTrackType (m_settings emb_tracker))"
    by blast
  from r(1) ce have embs: "embs = [?E, ?E]" by simp
  from r(2) as embs have "map fst kept = [?t0]" "map snd kept = [0]" by simp_all
  then have kept: "kept = [(?t0, 0)]"
    by (cases kept) (auto simp: prod_eq_iff)
  have js: "unassigned_regions (map snd kept) (length ?regions) = [1]"
    by (simp add: kept unassigned_regions_def upt_rec)
  from r(4)[unfolded js] have len: "length (m_tracks tr') = 2" by (simp add: kept)
  from r(5)[rule_format, of 0]
  have t0: "m_tracks tr' ! 0 =
      \<lparr>m_trackID = 0, m_skippedFrames = 0, m_lastRegion = demo_region 12 10 1, m_impl = [1]\<rparr>"
    by (simp add: kept embs demo_env_def demo_track_def)
  from r(6)[unfolded js, rule_format, of 0]
  have t1: "m_tracks tr' ! 1 =
      \<lparr>m_trackID = 3, m_skippedFrames = 0, m_lastRegion = demo_region 100 100 1, m_impl = [1]\<rparr>"
    by (simp add: kept embs demo_env_def emb_tracker_def)
  have "m_tracks tr' =
      [\<lparr>m_trackID = 0, m_skippedFrames = 0, m_lastRegion = demo_region 12 10 1, m_impl = [1]\<rparr>,
       \<lparr>m_trackID = 3, m_skippedFrames = 0, m_lastRegion = demo_region 100 100 1, m_impl = [1]\<rparr>]"
    using len t0 t1 by (intro nth_equalityI) (auto simp: less_Suc_eq numeral_2_eq_2)
  with r(3) have upd: "\<exists>tr'. UpdateTrackingState demo_env emb_tracker ?regions demo_frame 25
        = Inr tr' \<and>
      m_tracks tr' =
        [\<lparr>m_trackID = 0, m_skippedFrames = 0, m_lastRegion = demo_region 12 10 1, m_impl = [1]\<rparr>,
         \<lparr>m_trackID = 3, m_skippedFrames = 0, m_lastRegion = demo_region 100 100 1,
           m_impl = [1]\<rparr>]"
    by blast
  have ne: "?regions \<noteq> []" by simp
  from demo_solver_contract ne ce cm as upd show ?thesis by (intro conjI) assumption+
qed

end
